theory Spec2Isabelle
  imports Complex_Main "HOL-Library.Word" "HOL-Library.Signed_Division"
begin

section \<open>Errors of the C++ and ISPC code as values\<close>

text \<open>
  An operation of the source that has no defined result (an integer division by zero, a
  read past the end of a vector, a float converted to an integer type that cannot hold
  it) or that throws is a branch of the model returning one of these values.
  \<^verbatim>\<open>RuntimeError\<close> is a \<^verbatim>\<open>std::runtime_error\<close> with its message, \<^verbatim>\<open>OtherException\<close> an
  exception of any other class. \<^verbatim>\<open>Terminated\<close> is the end of the program by
  \<^verbatim>\<open>std::terminate\<close>, which is what becomes of an exception that leaves the body of an
  OpenMP parallel region.
\<close>

datatype cpp_error =
    DivisionByZero
  | OutOfRange
  | FloatToIntOverflow
  | RuntimeError string
  | OtherException string
  | Terminated

section \<open>KeyboardHandler (brayns/common/input/KeyboardHandler.cpp)\<close>

text \<open>
  \<^verbatim>\<open>ShortcutInformation\<close> holds the description and the functor of one shortcut. The
  functor is a \<^verbatim>\<open>std::function<void()>\<close>; the model keeps it as a value of any type.
  The handler's state is the \<^verbatim>\<open>std::map\<close> from key (an \<^verbatim>\<open>unsigned char\<close>) to shortcut,
  together with the lines written to \<^verbatim>\<open>BRAYNS_ERROR\<close> and \<^verbatim>\<open>BRAYNS_INFO\<close>.
\<close>

record 'f ShortcutInformation =
  description :: string
  functor_fn :: 'f

record 'f KeyboardHandler =
  registeredShortcuts :: "8 word \<rightharpoonup> 'f ShortcutInformation"
  errorLog :: "string list"
  infoLog :: "string list"

definition alreadyRegisteredMessage :: "8 word \<Rightarrow> string" where
  "alreadyRegisteredMessage key = char_of (unat key) # '' is already registered''"

definition registerKeyboardShortcut ::
  "8 word \<Rightarrow> string \<Rightarrow> 'f \<Rightarrow> 'f KeyboardHandler \<Rightarrow> 'f KeyboardHandler" where
  "registerKeyboardShortcut key descr f h =
     (if registeredShortcuts h key \<noteq> None
      then h\<lparr>errorLog := errorLog h @ [alreadyRegisteredMessage key]\<rparr>
      else h\<lparr>registeredShortcuts :=
               (registeredShortcuts h)(key \<mapsto> \<lparr>description = descr, functor_fn = f\<rparr>)\<rparr>)"

definition unregisterKeyboardShortcut :: "8 word \<Rightarrow> 'f KeyboardHandler \<Rightarrow> 'f KeyboardHandler" where
  "unregisterKeyboardShortcut key h =
     (if registeredShortcuts h key \<noteq> None
      then h\<lparr>registeredShortcuts := (registeredShortcuts h)(key := None)\<rparr>
      else h)"

section \<open>MorphologyLoader: the number of skipped cells\<close>

text \<open>
  Both overloads of \<^verbatim>\<open>importCircuit\<close> compute
  \<^verbatim>\<open>nbSkippedCells = uris.size() / (uris.size() * circuitDensity / 100)\<close>
  on \<^verbatim>\<open>size_t\<close> values: the product wraps modulo \<open>2^64\<close>, both divisions truncate, and a
  zero divisor has no defined result.

  Modelled from the spec: the declaration of \<^verbatim>\<open>GeometryParameters::getCircuitDensity\<close> is
  not among the sources; the density is taken to be an unsigned integer of the width of
  \<^verbatim>\<open>size_t\<close>, so that the whole expression is integer arithmetic.
\<close>

definition nbSkippedCells :: "64 word \<Rightarrow> 64 word \<Rightarrow> cpp_error + 64 word" where
  "nbSkippedCells urisSize circuitDensity =
     (let divisor = urisSize * circuitDensity div 100
      in if divisor = 0 then Inl DivisionByZero else Inr (urisSize div divisor))"

section \<open>The shading kernel (AdvancedSimulationRenderer.ispc)\<close>

text \<open>
  The kernel is ISPC code run once per screen sample; the model follows one program
  instance. A \<^verbatim>\<open>float\<close> is a real number: rounding and NaN are not modelled, and the one
  infinite value the code writes (\<^verbatim>\<open>inf\<close>, into \<^verbatim>\<open>ray.t\<close> and \<^verbatim>\<open>sample.z\<close>) is a
  constructor of its own.
\<close>

subsection \<open>Vectors\<close>

datatype vec2f = Vec2f real real
datatype vec3f = Vec3f (x3: real) (y3: real) (z3: real)
datatype vec4f = Vec4f (x4: real) (y4: real) (z4: real) (w4: real)
datatype vec3i = Vec3i (xi: int) (yi: int) (zi: int)

datatype efloat = Finite real | Infinite

fun eplus :: "efloat \<Rightarrow> real \<Rightarrow> efloat" where
  "eplus (Finite a) b = Finite (a + b)"
| "eplus Infinite b = Infinite"

fun etimes :: "efloat \<Rightarrow> efloat \<Rightarrow> efloat" where
  "etimes (Finite a) (Finite b) = Finite (a * b)"
| "etimes a b = Infinite"

fun emin :: "efloat \<Rightarrow> real \<Rightarrow> real" where
  "emin (Finite a) b = min a b"
| "emin Infinite b = b"

fun rcp :: "efloat \<Rightarrow> real" where
  "rcp (Finite a) = 1 / a"
| "rcp Infinite = 0"

definition make_vec2f :: "real \<Rightarrow> vec2f" where
  "make_vec2f a = Vec2f a a"

definition make_vec3f :: "real \<Rightarrow> vec3f" where
  "make_vec3f a = Vec3f a a a"

definition make_vec3f_of4 :: "vec4f \<Rightarrow> vec3f" where
  "make_vec3f_of4 v = Vec3f (x4 v) (y4 v) (z4 v)"

definition make_vec4f :: "real \<Rightarrow> vec4f" where
  "make_vec4f a = Vec4f a a a a"

definition make_vec4f_of3 :: "vec3f \<Rightarrow> real \<Rightarrow> vec4f" where
  "make_vec4f_of3 v a = Vec4f (x3 v) (y3 v) (z3 v) a"

definition add3 :: "vec3f \<Rightarrow> vec3f \<Rightarrow> vec3f" where
  "add3 a b = Vec3f (x3 a + x3 b) (y3 a + y3 b) (z3 a + z3 b)"

definition sub3 :: "vec3f \<Rightarrow> vec3f \<Rightarrow> vec3f" where
  "sub3 a b = Vec3f (x3 a - x3 b) (y3 a - y3 b) (z3 a - z3 b)"

definition mul3 :: "vec3f \<Rightarrow> vec3f \<Rightarrow> vec3f" where
  "mul3 a b = Vec3f (x3 a * x3 b) (y3 a * y3 b) (z3 a * z3 b)"

definition scale3 :: "real \<Rightarrow> vec3f \<Rightarrow> vec3f" where
  "scale3 s a = Vec3f (s * x3 a) (s * y3 a) (s * z3 a)"

definition neg :: "vec3f \<Rightarrow> vec3f" where
  "neg a = Vec3f (- x3 a) (- y3 a) (- z3 a)"

definition dot :: "vec3f \<Rightarrow> vec3f \<Rightarrow> real" where
  "dot a b = x3 a * x3 b + y3 a * y3 b + z3 a * z3 b"

definition reduce_max :: "vec3f \<Rightarrow> real" where
  "reduce_max a = max (x3 a) (max (y3 a) (z3 a))"

definition max3 :: "vec3f \<Rightarrow> vec3f \<Rightarrow> vec3f" where
  "max3 a b = Vec3f (max (x3 a) (x3 b)) (max (y3 a) (y3 b)) (max (z3 a) (z3 b))"

definition clamp :: "real \<Rightarrow> real \<Rightarrow> real \<Rightarrow> real" where
  "clamp v lo hi = min (max v lo) hi"

definition clamp3 :: "vec3f \<Rightarrow> vec3f \<Rightarrow> vec3f \<Rightarrow> vec3f" where
  "clamp3 v lo hi =
     Vec3f (clamp (x3 v) (x3 lo) (x3 hi)) (clamp (y3 v) (y3 lo) (y3 hi))
           (clamp (z3 v) (z3 lo) (z3 hi))"

definition mul4 :: "vec4f \<Rightarrow> vec4f \<Rightarrow> vec4f" where
  "mul4 a b = Vec4f (x4 a * x4 b) (y4 a * y4 b) (z4 a * z4 b) (w4 a * w4 b)"

subsection \<open>Records of the host engine and of the renderer\<close>

text \<open>
  A texture, a background material and the part of a \<^verbatim>\<open>DifferentialGeometry\<close> that only
  the host engine reads are handles (natural numbers). A null pointer is \<open>None\<close>. An
  array with its element count (\<^verbatim>\<open>lights\<close> with \<^verbatim>\<open>numLights\<close>, \<^verbatim>\<open>volumes\<close> with
  \<^verbatim>\<open>volumeCount\<close>) is a list, a null array being the empty one.
\<close>

type_synonym texture = nat

record Ray =
  ray_org :: vec3f
  ray_dir :: vec3f
  ray_t0 :: efloat
  ray_t :: efloat
  ray_time :: efloat
  ray_geomID :: int
  ray_primID :: int
  ray_instID :: int

record DefaultMaterial =
  mat_d :: real
  mat_Kd :: vec3f
  mat_Ks :: vec3f
  mat_Ns :: real
  mat_a :: real
  mat_glossiness :: real
  mat_refraction :: real
  mat_reflection :: real
  map_d :: "texture option"
  map_Kd :: "texture option"
  map_Ks :: "texture option"
  map_Ns :: "texture option"
  map_a :: "texture option"
  map_Bump :: "texture option"
  map_reflection :: "texture option"

record DifferentialGeometry =
  dg_P :: vec3f
  dg_Ns :: vec3f
  dg_epsilon :: real
  dg_material :: "DefaultMaterial option"
  dg_color :: vec4f
  dg_host :: nat

record Light_SampleRes =
  ls_weight :: vec3f
  ls_dir :: vec3f

type_synonym Light = "DifferentialGeometry \<Rightarrow> vec2f \<Rightarrow> Light_SampleRes"

record Volume =
  boundingBox :: "vec3f \<times> vec3f"
  samplingStep :: real
  samplingRate :: real
  vol_sample :: "vec3f \<Rightarrow> real"
  getOpacityForValue :: "real \<Rightarrow> real"
  getColorForValue :: "real \<Rightarrow> vec3f"
  computeGradient :: "vec3f \<Rightarrow> vec3f"
  singleShade :: bool
  gradientShadingEnabled :: bool
  specular :: vec3f

record ScreenSample =
  sampleID :: vec3i
  sample_ray :: Ray
  sample_z :: efloat
  sample_alpha :: real
  sample_rgb :: vec3f

record AdvancedSimulationRenderer =
  randomNumber :: int
  shadows :: real
  softShadows :: real
  ambientOcclusionStrength :: real
  ambientOcclusionDistance :: real
  shadingEnabled :: bool
  electronShadingEnabled :: bool
  samplingThreshold :: real
  volumeSpecularExponent :: real
  volumeAlphaCorrection :: real
  lights :: "Light list"
  bgMaterial :: nat
  fb_size_x :: int
  volumes :: "Volume list"

record ShadingAttributes =
  origin :: vec3f
  normal :: vec3f
  reflectedNormal :: vec3f
  refraction :: real
  reflection :: real
  opacity :: real
  diffuseColor :: vec3f
  specularColor :: vec3f
  specularExponent :: real
  lightEmissionColor :: vec3f
  lightEmissionIntensity :: real
  shadowIntensity :: real
  simulationColor :: vec3f
  simulationIntensity :: real
  indirectColor :: vec3f
  indirectIntensity :: real
  volumeColor :: vec3f
  volumeIntensity :: real
  shadingContribution :: vec3f
  finalContribution :: vec3f

datatype dg_flag =
  DG_NG | DG_NS | DG_NORMALIZE | DG_FACEFORWARD | DG_TANGENTS | DG_MATERIALID
  | DG_COLOR | DG_TEXCOORD

text \<open>
  What the kernel calls and the sources do not hold: the ray tracer of the host engine,
  its texture and math helpers, the helpers of the renderer's own utility headers
  (\<^verbatim>\<open>getRandomVector\<close>, \<^verbatim>\<open>getRandomValue\<close>, \<^verbatim>\<open>refractedVector\<close>, \<^verbatim>\<open>composite\<close>,
  \<^verbatim>\<open>skyboxMapping\<close>, the simulation mapping) and the constants of \<^verbatim>\<open>Consts.ih\<close>. They are
  parameters of the model. \<^verbatim>\<open>traceRay\<close> returns the ray it was given with the hit
  written into it; \<^verbatim>\<open>postIntersect\<close> returns the geometry record it was given with the
  requested fields filled; \<^verbatim>\<open>composite\<close> returns the new value of the destination colour.
  \<^verbatim>\<open>uninitialized_dg\<close> and \<^verbatim>\<open>uninitialized_attributes\<close> are the contents of a local
  variable declared without an initialiser.
\<close>

record Host =
  NB_MAX_REBOUNDS :: "32 word"
  DEFAULT_SKY_POWER :: real
  setRay :: "Ray \<Rightarrow> vec3f \<Rightarrow> vec3f \<Rightarrow> Ray"
  traceRay :: "Ray \<Rightarrow> Ray"
  postIntersect :: "DifferentialGeometry \<Rightarrow> Ray \<Rightarrow> dg_flag list \<Rightarrow> DifferentialGeometry"
  intersectBox :: "Ray \<Rightarrow> vec3f \<times> vec3f \<Rightarrow> real \<times> real"
  skyboxMapping :: "Ray \<Rightarrow> nat \<Rightarrow> vec4f"
  getRandomVector :: "int \<Rightarrow> ScreenSample \<Rightarrow> vec3f \<Rightarrow> int \<Rightarrow> vec3f"
  getRandomValue :: "ScreenSample \<Rightarrow> int \<Rightarrow> real"
  refractedVector :: "vec3f \<Rightarrow> vec3f \<Rightarrow> real \<Rightarrow> real \<Rightarrow> vec3f"
  composite :: "vec4f \<Rightarrow> vec4f \<Rightarrow> real \<Rightarrow> vec4f"
  hasSimulationMapping :: "DifferentialGeometry \<Rightarrow> bool"
  getSimulationColor :: "DifferentialGeometry \<Rightarrow> vec4f"
  get1f :: "texture \<Rightarrow> DifferentialGeometry \<Rightarrow> real"
  get3f :: "texture \<Rightarrow> DifferentialGeometry \<Rightarrow> vec3f"
  get3f_default :: "texture \<Rightarrow> DifferentialGeometry \<Rightarrow> vec3f \<Rightarrow> vec3f"
  get4f :: "texture \<Rightarrow> DifferentialGeometry \<Rightarrow> vec4f"
  normalize :: "vec3f \<Rightarrow> vec3f"
  safe_normalize :: "vec3f \<Rightarrow> vec3f"
  powf :: "real \<Rightarrow> real \<Rightarrow> real"
  uninitialized_dg :: DifferentialGeometry
  uninitialized_attributes :: ShadingAttributes

text \<open>\<^verbatim>\<open>const float EPSILON_QUOTIENT = 100.f\<close>, of the renderer's own file.\<close>

definition EPSILON_QUOTIENT :: real where
  "EPSILON_QUOTIENT = 100"

subsection \<open>Ambient occlusion\<close>

text \<open>
  \<^verbatim>\<open>launchRandomRay\<close> returns whether the random ray hit a primitive, together with the
  values of its reference parameters: the geometry record, the background colour, the
  squared distance to the intersection and the random direction.
\<close>

definition launchRandomRay ::
  "Host \<Rightarrow> AdvancedSimulationRenderer \<Rightarrow> ScreenSample \<Rightarrow> vec3f \<Rightarrow> vec3f \<Rightarrow>
   DifferentialGeometry \<Rightarrow> efloat \<Rightarrow> bool \<times> DifferentialGeometry \<times> vec3f \<times> efloat \<times> vec3f" where
  "launchRandomRay h self sample intersection nrm geometry distanceToIntersection =
     (let randomDirection = getRandomVector h (fb_size_x self) sample nrm (randomNumber self);
          randomDirection =
            (if dot randomDirection nrm < 0 then neg randomDirection else randomDirection);
          randomRay = setRay h (sample_ray sample) intersection randomDirection;
          randomRay = randomRay\<lparr>ray_t0 := Finite (dg_epsilon geometry),
                                ray_t := Finite (ambientOcclusionDistance self),
                                ray_primID := -1, ray_geomID := -1, ray_instID := -1\<rparr>;
          randomRay = traceRay h randomRay
      in if ray_geomID randomRay < 0
         then (False, geometry, make_vec3f_of4 (skyboxMapping h randomRay (bgMaterial self)),
               distanceToIntersection, randomDirection)
         else (True,
               postIntersect h geometry randomRay
                 [DG_NG, DG_NS, DG_NORMALIZE, DG_MATERIALID, DG_COLOR, DG_TEXCOORD],
               make_vec3f 0, etimes (ray_t randomRay) (ray_t randomRay), randomDirection))"

text \<open>
  \<^verbatim>\<open>indirectShading\<close> returns the geometry record, the indirect colour and the indirect
  power it leaves in its reference parameters.
\<close>

definition indirectShading ::
  "Host \<Rightarrow> AdvancedSimulationRenderer \<Rightarrow> ScreenSample \<Rightarrow> vec3f \<Rightarrow> vec3f \<Rightarrow>
   DifferentialGeometry \<Rightarrow> DifferentialGeometry \<times> vec3f \<times> real" where
  "indirectShading h self sample intersection nrm geometry0 =
     (case launchRandomRay h self sample intersection nrm geometry0 Infinite of
        (hit, geometry, backgroundColor, distanceToIntersection, randomDirection) \<Rightarrow>
          (let (indirectShadingColor, indirectShadingPower) =
                 (if hit
                  then
                    (let (c, p) =
                       (case dg_material geometry of
                          Some mat \<Rightarrow>
                            (if mat_a mat \<noteq> 0 \<and> dot (dg_Ns geometry) randomDirection < 0
                             then
                               (let localDiffuseColor =
                                      (case map_Kd mat of
                                         Some m \<Rightarrow> get3f h m geometry
                                       | None \<Rightarrow> mat_Kd mat);
                                    Ka = (case map_a mat of
                                            Some m \<Rightarrow> get3f h m geometry
                                          | None \<Rightarrow> make_vec3f (mat_a mat))
                                in (mul3 localDiffuseColor Ka, rcp distanceToIntersection))
                             else (make_vec3f 1, - mat_d mat))
                        | None \<Rightarrow> (make_vec3f (w4 (dg_color geometry)), - w4 (dg_color geometry)))
                     in (c, p * \<bar>dot nrm randomDirection\<bar>))
                  else (backgroundColor, DEFAULT_SKY_POWER h))
           in (geometry, indirectShadingColor,
               indirectShadingPower * ambientOcclusionStrength self)))"

subsection \<open>Volume shadows\<close>

text \<open>
  A loop whose number of iterations depends on floating point values may run forever. Such
  a loop is a partial function into \<open>option\<close>: \<open>None\<close> says that the loop does not
  return, and so do the functions that call it.

  \<^verbatim>\<open>shadowMarch\<close> is the loop of \<^verbatim>\<open>getVolumeShadowContribution\<close>: from the far end \<open>t1\<close>
  of the volume towards the voxel, in steps of \<open>epsilon\<close>, adding the opacity of each
  sample, while \<open>t > epsilon\<close> and the shadow intensity is below \<open>1\<close>.
\<close>

partial_function (option) shadowMarch ::
  "Volume \<Rightarrow> Ray \<Rightarrow> real \<Rightarrow> real \<Rightarrow> real \<Rightarrow> real option" where
  "shadowMarch volume ray epsilon t si =
     (if t > epsilon \<and> si < 1
      then
        (let point = add3 (ray_org ray) (scale3 t (ray_dir ray));
             smp = vol_sample volume point
         in shadowMarch volume ray epsilon (t - epsilon)
              (si + getOpacityForValue volume smp))
      else Some si)"

definition getVolumeShadowContribution ::
  "Host \<Rightarrow> Volume \<Rightarrow> Ray \<Rightarrow> real option" where
  "getVolumeShadowContribution h volume ray =
     (let (t0, t1) = intersectBox h ray (boundingBox volume);
          epsilon = samplingStep volume / samplingRate volume
      in shadowMarch volume ray epsilon t1 0)"

text \<open>
  \<^verbatim>\<open>lightShadowLoop\<close> is the loop of \<^verbatim>\<open>getVolumeShadowContributions\<close> over the lights that
  are left, with the running shadow intensity. A light whose ray hits geometry adds \<open>1\<close>
  and leaves the loop.
\<close>

fun lightShadowLoop ::
  "Host \<Rightarrow> AdvancedSimulationRenderer \<Rightarrow> Volume \<Rightarrow> Ray \<Rightarrow> ScreenSample \<Rightarrow> vec3f \<Rightarrow>
   real \<Rightarrow> Light list \<Rightarrow> real \<Rightarrow> real option" where
  "lightShadowLoop h self volume ray sample point epsilon [] si = Some si"
| "lightShadowLoop h self volume ray sample point epsilon (light # rest) si =
     (if si < 1
      then
        (let s = make_vec2f 0.5;
             dg = (uninitialized_dg h)\<lparr>dg_P := point\<rparr>;
             lightSample = light dg s;
             lightRay = ray\<lparr>ray_t := Infinite, ray_t0 := Finite epsilon, ray_org := point,
                           ray_geomID := -1\<rparr>;
             lightRay =
               (if softShadows self > 0
                then lightRay\<lparr>ray_dir :=
                       normalize h
                         (add3 (ls_dir lightSample)
                            (scale3 (softShadows self)
                               (getRandomVector h (fb_size_x self) sample (ls_dir lightSample)
                                  (randomNumber self))))\<rparr>
                else lightRay\<lparr>ray_dir := ls_dir lightSample\<rparr>);
             lightRay = traceRay h lightRay
         in if ray_geomID lightRay \<noteq> -1
            then Some (si + 1)
            else
              (case getVolumeShadowContribution h volume lightRay of
                 None \<Rightarrow> None
               | Some c \<Rightarrow>
                   lightShadowLoop h self volume ray sample point epsilon rest (si + c)))
      else Some si)"

definition getVolumeShadowContributions ::
  "Host \<Rightarrow> Volume \<Rightarrow> AdvancedSimulationRenderer \<Rightarrow> Ray \<Rightarrow> ScreenSample \<Rightarrow> vec3f \<Rightarrow>
   real \<Rightarrow> real option" where
  "getVolumeShadowContributions h volume self ray sample point epsilon =
     (case lightShadowLoop h self volume ray sample point epsilon (lights self) 0 of
        None \<Rightarrow> None
      | Some si \<Rightarrow> Some (si * shadows self))"

subsection \<open>Volume ray marching\<close>

text \<open>
  The light loop of the voxel shading in \<^verbatim>\<open>getVolumeContribution\<close>, over the lights that
  are left, with the running shaded colour.
\<close>

fun volumeLightLoop ::
  "Host \<Rightarrow> AdvancedSimulationRenderer \<Rightarrow> Volume \<Rightarrow> Ray \<Rightarrow> DifferentialGeometry \<Rightarrow> vec3f \<Rightarrow>
   vec3f \<Rightarrow> Light list \<Rightarrow> vec3f \<Rightarrow> vec3f" where
  "volumeLightLoop h self volume ray dg gradient volumeSampleColor [] shadedColor = shadedColor"
| "volumeLightLoop h self volume ray dg gradient volumeSampleColor (l # rest) shadedColor =
     (let samplingLocation = make_vec2f 0.5;
          light = l dg samplingLocation;
          cosNL = (if x3 gradient = 0 \<and> y3 gradient = 0 \<and> z3 gradient = 0 then 1
                   else \<bar>dot (safe_normalize h (ls_dir light)) gradient\<bar>);
          shadedColor =
            clamp3 (add3 shadedColor (mul3 (scale3 cosNL volumeSampleColor) (ls_weight light)))
              (make_vec3f 0) (make_vec3f 1);
          reflectedDir =
            normalize h
              (sub3 (ray_dir ray) (scale3 (2 * dot (ray_dir ray) gradient) gradient));
          cosNS = powf h (max 0 (dot (ls_dir light) reflectedDir))
                    (volumeSpecularExponent self);
          shadedColor = add3 shadedColor (scale3 cosNS (specular volume))
      in volumeLightLoop h self volume ray dg gradient volumeSampleColor rest shadedColor)"

text \<open>
  The variables of the marching loop: the ray parameter \<open>t\<close>, the path colour, the
  current step \<open>epsilon\<close>, the shadow intensity and the number of samples shaded so far
  (an \<^verbatim>\<open>unsigned int\<close>).
\<close>

record march_state =
  m_t :: real
  m_pathColor :: vec4f
  m_epsilon :: real
  m_shadowIntensity :: real
  m_shadingOccurence :: "32 word"

text \<open>
  One iteration of the marching loop with the increment \<^verbatim>\<open>t += epsilon\<close> that ends it,
  which \<^verbatim>\<open>continue\<close> reaches too.
\<close>

definition marchBody ::
  "Host \<Rightarrow> AdvancedSimulationRenderer \<Rightarrow> Volume \<Rightarrow> Ray \<Rightarrow> ScreenSample \<Rightarrow>
   march_state \<Rightarrow> march_state option" where
  "marchBody h self volume ray sample s =
     (let point = add3 (ray_org ray) (scale3 (m_t s) (ray_dir ray));
          volumeSample = vol_sample volume point;
          sampleOpacity = getOpacityForValue volume volumeSample
      in if sampleOpacity \<le> samplingThreshold self
         then Some (s\<lparr>m_t := m_t s + m_epsilon s\<rparr>)
         else
           (let epsilon =
                  (samplingStep volume + real (unat (m_shadingOccurence s))) /
                  samplingRate volume;
                volumeSampleColor = getColorForValue volume volumeSample;
                firstShadingOccurence = (m_shadingOccurence s = 0);
                shade = (if singleShade volume then firstShadingOccurence else True);
                shadingOn = (shade \<and> gradientShadingEnabled volume);
                aoEnabled = (firstShadingOccurence \<and> ambientOcclusionStrength self > 0);
                shadowsEnabled = (firstShadingOccurence \<and> shadows self > 0);
                gradient =
                  (if shadingOn \<or> aoEnabled
                   then safe_normalize h (computeGradient volume point)
                   else dg_Ns (uninitialized_dg h));
                dg = (if shadingOn \<or> aoEnabled
                      then (uninitialized_dg h)
                             \<lparr>dg_P := point, dg_epsilon := epsilon, dg_Ns := gradient\<rparr>
                      else uninitialized_dg h);
                volumeSampleColor =
                  (if shadingOn
                   then volumeLightLoop h self volume ray dg gradient volumeSampleColor
                          (lights self) (make_vec3f 0)
                   else volumeSampleColor);
                volumeSampleColor =
                  (if aoEnabled
                   then
                     (case indirectShading h self sample point gradient dg of
                        (dg', aoColor, aoIntensity) \<Rightarrow>
                          add3 volumeSampleColor
                            (scale3 aoIntensity (scale3 sampleOpacity aoColor)))
                   else volumeSampleColor);
                shadowResult =
                  (if shadowsEnabled
                   then getVolumeShadowContributions h volume self ray sample point epsilon
                   else Some (m_shadowIntensity s))
            in case shadowResult of
                 None \<Rightarrow> None
               | Some si \<Rightarrow>
                   Some \<lparr>m_t = m_t s + epsilon,
                         m_pathColor =
                           composite h (make_vec4f_of3 volumeSampleColor sampleOpacity)
                             (m_pathColor s) (volumeAlphaCorrection self * epsilon),
                         m_epsilon = epsilon,
                         m_shadowIntensity = si,
                         m_shadingOccurence = m_shadingOccurence s + 1\<rparr>))"

text \<open>
  The marching loop: it goes on while \<open>t < t1\<close> and the alpha of the path colour is
  below \<open>1\<close>.
\<close>

partial_function (option) marchLoop ::
  "Host \<Rightarrow> AdvancedSimulationRenderer \<Rightarrow> Volume \<Rightarrow> Ray \<Rightarrow> ScreenSample \<Rightarrow> real \<Rightarrow>
   march_state \<Rightarrow> march_state option" where
  "marchLoop h self volume ray sample t1 s =
     (if m_t s < t1 \<and> w4 (m_pathColor s) < 1
      then
        (case marchBody h self volume ray sample s of
           None \<Rightarrow> None
         | Some s' \<Rightarrow> marchLoop h self volume ray sample t1 s')
      else Some s)"

text \<open>
  The state in which \<^verbatim>\<open>getVolumeContribution\<close> enters its loop, and the exit distance
  \<open>t1\<close> of the volume capped by \<^verbatim>\<open>ray.t\<close>.
\<close>

definition marchExit :: "Host \<Rightarrow> Volume \<Rightarrow> Ray \<Rightarrow> real" where
  "marchExit h volume ray =
     (let (t0, t1) = intersectBox h ray (boundingBox volume) in emin (ray_t ray) t1)"

definition marchStart ::
  "Host \<Rightarrow> AdvancedSimulationRenderer \<Rightarrow> Volume \<Rightarrow> Ray \<Rightarrow> ScreenSample \<Rightarrow> march_state" where
  "marchStart h self volume ray sample =
     (let (t0, t1box) = intersectBox h ray (boundingBox volume);
          t1 = emin (ray_t ray) t1box;
          t0 = t0 - getRandomValue h sample (randomNumber self) * ((t1 - t0) * 0.01)
      in \<lparr>m_t = t0, m_pathColor = make_vec4f 0, m_epsilon = samplingStep volume,
          m_shadowIntensity = 0, m_shadingOccurence = 0\<rparr>)"

definition getVolumeContribution ::
  "Host \<Rightarrow> Volume \<Rightarrow> AdvancedSimulationRenderer \<Rightarrow> Ray \<Rightarrow> ScreenSample \<Rightarrow> vec4f option" where
  "getVolumeContribution h volume self ray sample =
     (case marchLoop h self volume ray sample (marchExit h volume ray)
             (marchStart h self volume ray sample) of
        None \<Rightarrow> None
      | Some s \<Rightarrow>
          Some (mul4 (m_pathColor s)
                  (make_vec4f_of3 (make_vec3f (1 - m_shadowIntensity s)) 1)))"

subsection \<open>Shadows cast by geometry and volumes on a surface\<close>

text \<open>
  \<^verbatim>\<open>geometryShadowLoop\<close> is the \<^verbatim>\<open>while (shadowIntensity < 1.f)\<close> loop of
  \<^verbatim>\<open>shadedLightIntensity\<close>: it traces the shadow ray, leaves when nothing is hit, and
  otherwise adds the opacity of the surface hit and restarts the ray behind it. It returns
  the shadow ray and the shadow intensity.
\<close>

definition shadowingOpacity :: "Host \<Rightarrow> DifferentialGeometry \<Rightarrow> real" where
  "shadowingOpacity h shadowingGeometry =
     (case dg_material shadowingGeometry of
        None \<Rightarrow> 1 - w4 (dg_color shadowingGeometry)
      | Some mat \<Rightarrow>
          (case map_d mat of
             Some m \<Rightarrow> x4 (get4f h m shadowingGeometry)
           | None \<Rightarrow>
               (case map_Kd mat of
                  Some m \<Rightarrow> 1 - w4 (get4f h m shadowingGeometry)
                | None \<Rightarrow> mat_d mat)))"

partial_function (option) geometryShadowLoop ::
  "Host \<Rightarrow> Ray \<Rightarrow> real \<Rightarrow> (Ray \<times> real) option" where
  "geometryShadowLoop h shadowRay si =
     (if si < 1
      then
        (let shadowRay = traceRay h shadowRay
         in if ray_geomID shadowRay = -1
            then Some (shadowRay, si)
            else
              (let shadowingGeometry =
                     postIntersect h (uninitialized_dg h) shadowRay
                       [DG_MATERIALID, DG_TEXCOORD, DG_COLOR];
                   opac = shadowingOpacity h shadowingGeometry
               in geometryShadowLoop h
                    (shadowRay\<lparr>ray_t0 := eplus (ray_t shadowRay) (dg_epsilon shadowingGeometry),
                               ray_t := Infinite, ray_primID := -1, ray_geomID := -1,
                               ray_instID := -1\<rparr>)
                    (si + opac)))
      else Some (shadowRay, si))"

text \<open>The loop of \<^verbatim>\<open>shadedLightIntensity\<close> over the volumes that are left.\<close>

fun volumeShadowLoop ::
  "Host \<Rightarrow> AdvancedSimulationRenderer \<Rightarrow> Ray \<Rightarrow> Volume list \<Rightarrow> real \<Rightarrow> real option" where
  "volumeShadowLoop h self shadowRay [] si = Some si"
| "volumeShadowLoop h self shadowRay (volume # rest) si =
     (if si < 1
      then
        (case getVolumeShadowContribution h volume shadowRay of
           None \<Rightarrow> None
         | Some c \<Rightarrow> volumeShadowLoop h self shadowRay rest (si + c * shadows self))
      else Some si)"

definition shadedLightIntensity ::
  "Host \<Rightarrow> AdvancedSimulationRenderer \<Rightarrow> ScreenSample \<Rightarrow> Ray \<Rightarrow> DifferentialGeometry \<Rightarrow>
   ShadingAttributes \<Rightarrow> vec3f \<Rightarrow> real option" where
  "shadedLightIntensity h self sample ray dg attributes lightDirection =
     (let ld =
            (if softShadows self \<noteq> 0
             then normalize h
                    (add3 lightDirection
                       (scale3 (softShadows self)
                          (getRandomVector h (fb_size_x self) sample (normal attributes)
                             (randomNumber self))))
             else lightDirection);
          shadowRay = setRay h ray (dg_P dg) ld;
          shadowRay = shadowRay\<lparr>ray_t0 := Finite (dg_epsilon dg), ray_t := Infinite,
                                ray_time := ray_time (sample_ray sample), ray_geomID := -1\<rparr>
      in case geometryShadowLoop h shadowRay 0 of
           None \<Rightarrow> None
         | Some (shadowRay, si) \<Rightarrow>
             (case volumeShadowLoop h self
                     (shadowRay\<lparr>ray_org := dg_P dg, ray_t0 := Finite (dg_epsilon dg)\<rparr>)
                     (volumes self) si of
                None \<Rightarrow> None
              | Some si \<Rightarrow> Some (clamp (si * shadows self) 0 1)))"

subsection \<open>Shading attributes\<close>

definition initializeShadingAttributes :: "ShadingAttributes \<Rightarrow> ShadingAttributes" where
  "initializeShadingAttributes attributes =
     attributes\<lparr>finalContribution := make_vec3f 0,
                simulationColor := make_vec3f 0, simulationIntensity := 0,
                indirectColor := make_vec3f 0, indirectIntensity := 0,
                lightEmissionColor := make_vec3f 0, lightEmissionIntensity := 0,
                shadowIntensity := 0,
                volumeColor := make_vec3f 0, volumeIntensity := 0,
                diffuseColor := make_vec3f 0,
                specularColor := make_vec3f 0, specularExponent := 0,
                shadingContribution := make_vec3f 0,
                reflection := 0, refraction := 1, opacity := 0\<rparr>"

definition reflect :: "vec3f \<Rightarrow> vec3f \<Rightarrow> vec3f" where
  "reflect d n = sub3 d (scale3 (2 * dot d n) n)"

definition setGeometryShadingAttributes ::
  "Host \<Rightarrow> AdvancedSimulationRenderer \<Rightarrow> ScreenSample \<Rightarrow> Ray \<Rightarrow> DifferentialGeometry \<Rightarrow>
   ShadingAttributes \<Rightarrow> ShadingAttributes" where
  "setGeometryShadingAttributes h self sample ray dg attributes =
     (let a = attributes\<lparr>origin := dg_P dg, normal := dg_Ns dg\<rparr>;
          a = a\<lparr>reflectedNormal := reflect (ray_dir ray) (normal a)\<rparr>
      in case dg_material dg of
           None \<Rightarrow>
             a\<lparr>diffuseColor := make_vec3f_of4 (dg_color dg), opacity := w4 (dg_color dg)\<rparr>
         | Some mat \<Rightarrow>
             (let a = (if mat_glossiness mat < 1
                       then a\<lparr>normal :=
                              normalize h
                                (add3 (normal a)
                                   (scale3 (1 - mat_glossiness mat)
                                      (getRandomVector h (fb_size_x self) sample (normal a)
                                         (randomNumber self))))\<rparr>
                       else a);
                  a = a\<lparr>refraction := mat_refraction mat\<rparr>;
                  a = a\<lparr>opacity := (case map_d mat of
                                       Some m \<Rightarrow> mat_d mat * get1f h m dg
                                     | None \<Rightarrow> mat_d mat)\<rparr>;
                  a = a\<lparr>diffuseColor := mul3 (mat_Kd mat) (make_vec3f_of4 (dg_color dg))\<rparr>;
                  a = (case map_Kd mat of
                         Some m \<Rightarrow>
                           (let diffuseColorFromMap = get4f h m dg
                            in a\<lparr>diffuseColor :=
                                   mul3 (diffuseColor a) (make_vec3f_of4 diffuseColorFromMap),
                                 opacity := opacity a * w4 diffuseColorFromMap\<rparr>)
                       | None \<Rightarrow> a);
                  a = a\<lparr>specularColor :=
                          (case map_Ks mat of
                             Some m \<Rightarrow> max3 (specularColor a) (mul3 (mat_Ks mat) (get3f h m dg))
                           | None \<Rightarrow> max3 (specularColor a) (mat_Ks mat))\<rparr>;
                  a = a\<lparr>specularExponent :=
                          (case map_Ns mat of
                             Some m \<Rightarrow> max (specularExponent a) (mat_Ns mat * get1f h m dg)
                           | None \<Rightarrow> max (specularExponent a) (mat_Ns mat))\<rparr>;
                  a = a\<lparr>lightEmissionIntensity := lightEmissionIntensity a + mat_a mat,
                        lightEmissionColor := diffuseColor a\<rparr>;
                  a = (case map_Bump mat of
                         Some m \<Rightarrow>
                           (let n = sub3 (get3f_default h m dg (make_vec3f 0)) (make_vec3f 0.5)
                            in a\<lparr>normal := Vec3f (x3 (normal a) - x3 n) (y3 (normal a) - y3 n)
                                                (z3 (normal a))\<rparr>)
                       | None \<Rightarrow> a);
                  a = a\<lparr>reflection := mat_reflection mat\<rparr>;
                  a = (case map_reflection mat of
                         Some m \<Rightarrow>
                           (let v = get3f h m dg
                            in a\<lparr>reflection := reflection a * ((x3 v + y3 v + z3 v) / 3)\<rparr>)
                       | None \<Rightarrow> a)
              in a\<lparr>reflectedNormal := reflect (ray_dir ray) (normal a)\<rparr>))"

definition processBackgroundColor ::
  "Host \<Rightarrow> AdvancedSimulationRenderer \<Rightarrow> Ray \<Rightarrow> ShadingAttributes \<Rightarrow> ShadingAttributes" where
  "processBackgroundColor h self ray attributes =
     attributes\<lparr>shadingContribution :=
                  make_vec3f_of4 (skyboxMapping h ray (bgMaterial self))\<rparr>"

text \<open>
  \<^verbatim>\<open>computeIndirectShading\<close> returns the geometry record and the attributes, both of
  which it may change.
\<close>

definition computeIndirectShading ::
  "Host \<Rightarrow> AdvancedSimulationRenderer \<Rightarrow> DifferentialGeometry \<Rightarrow> ScreenSample \<Rightarrow>
   ShadingAttributes \<Rightarrow> DifferentialGeometry \<times> ShadingAttributes" where
  "computeIndirectShading h self dg sample attributes =
     (if ambientOcclusionStrength self < samplingThreshold self
      then (dg, attributes)
      else
        (case indirectShading h self sample (origin attributes) (normal attributes) dg of
           (dg', aoColor, aoIntensity) \<Rightarrow>
             (dg', attributes\<lparr>indirectColor := aoColor, indirectIntensity := aoIntensity\<rparr>)))"

text \<open>The light loop of \<^verbatim>\<open>processShadows\<close> over the lights that are left.\<close>

fun shadowLightLoop ::
  "Host \<Rightarrow> AdvancedSimulationRenderer \<Rightarrow> ScreenSample \<Rightarrow> Ray \<Rightarrow> DifferentialGeometry \<Rightarrow>
   Light list \<Rightarrow> ShadingAttributes \<Rightarrow> ShadingAttributes option" where
  "shadowLightLoop h self sample ray dg [] attributes = Some attributes"
| "shadowLightLoop h self sample ray dg (light # rest) attributes =
     (let samplingLocation = make_vec2f 0.5;
          lightSample = light dg samplingLocation;
          radiance = reduce_max (ls_weight lightSample);
          lightDirection = ls_dir lightSample
      in if radiance \<le> 0
         then shadowLightLoop h self sample ray dg rest attributes
         else
           (let shadowsEnabled = (lightEmissionIntensity attributes < samplingThreshold self)
            in if shadowsEnabled
               then
                 (case shadedLightIntensity h self sample ray dg attributes
                         lightDirection of
                    None \<Rightarrow> None
                  | Some v \<Rightarrow>
                      shadowLightLoop h self sample ray dg rest
                        (attributes\<lparr>shadowIntensity := shadowIntensity attributes + v\<rparr>))
               else
                 shadowLightLoop h self sample ray dg rest
                   (attributes\<lparr>shadowIntensity := shadowIntensity attributes + 0\<rparr>)))"

definition processShadows ::
  "Host \<Rightarrow> AdvancedSimulationRenderer \<Rightarrow> ScreenSample \<Rightarrow> Ray \<Rightarrow> DifferentialGeometry \<Rightarrow>
   ShadingAttributes \<Rightarrow> ShadingAttributes option" where
  "processShadows h self sample ray dg attributes =
     (case shadowLightLoop h self sample ray dg (lights self) attributes of
        None \<Rightarrow> None
      | Some a \<Rightarrow>
          Some (if shadowIntensity a > 0 then a\<lparr>specularColor := make_vec3f 0\<rparr> else a))"

text \<open>The light loop of \<^verbatim>\<open>processLightShading\<close> over the lights that are left.\<close>

fun lightShadingLoop ::
  "Host \<Rightarrow> AdvancedSimulationRenderer \<Rightarrow> DifferentialGeometry \<Rightarrow> Light list \<Rightarrow>
   ShadingAttributes \<Rightarrow> ShadingAttributes" where
  "lightShadingLoop h self dg [] attributes = attributes"
| "lightShadingLoop h self dg (light # rest) attributes =
     (let samplingLocation = make_vec2f 0.5;
          lightSample = light dg samplingLocation;
          radiance = reduce_max (ls_weight lightSample);
          lightDirection = ls_dir lightSample
      in if radiance \<le> 0
         then lightShadingLoop h self dg rest attributes
         else
           (let cosNL = (if shadingEnabled self
                         then max 0 (dot lightDirection (normal attributes))
                         else 1);
                a = (if shadingEnabled self
                     then
                       (let cosLR = dot lightDirection (reflectedNormal attributes)
                        in attributes\<lparr>specularColor :=
                             scale3 (powf h cosLR (specularExponent attributes))
                               (specularColor attributes)\<rparr>)
                     else attributes\<lparr>specularColor := make_vec3f 0\<rparr>);
                a = a\<lparr>diffuseColor := scale3 cosNL (diffuseColor a)\<rparr>;
                a = a\<lparr>simulationColor := scale3 cosNL (simulationColor a)\<rparr>;
                a = a\<lparr>shadingContribution :=
                        add3 (shadingContribution a) (scale3 radiance (diffuseColor a))\<rparr>
            in lightShadingLoop h self dg rest a))"

definition processLightShading ::
  "Host \<Rightarrow> AdvancedSimulationRenderer \<Rightarrow> DifferentialGeometry \<Rightarrow> ShadingAttributes \<Rightarrow>
   ShadingAttributes" where
  "processLightShading h self dg attributes =
     lightShadingLoop h self dg (lights self)
       (attributes\<lparr>shadingContribution := make_vec3f 0\<rparr>)"

definition processElectronShading ::
  "Host \<Rightarrow> ScreenSample \<Rightarrow> ShadingAttributes \<Rightarrow> ShadingAttributes" where
  "processElectronShading h sample attributes =
     (let viewer = normalize h (sub3 (ray_org (sample_ray sample)) (origin attributes));
          el = max 0 (dot viewer (normal attributes));
          cosNL = 1 - el
      in attributes\<lparr>shadingContribution := scale3 cosNL (diffuseColor attributes),
                    simulationColor := scale3 cosNL (simulationColor attributes),
                    specularColor := make_vec3f 0\<rparr>)"

text \<open>The loop of \<^verbatim>\<open>processVolumeContribution\<close> over the volumes that are left.\<close>

fun volumeContributionLoop ::
  "Host \<Rightarrow> AdvancedSimulationRenderer \<Rightarrow> ScreenSample \<Rightarrow> Ray \<Rightarrow> Volume list \<Rightarrow>
   ShadingAttributes \<Rightarrow> ShadingAttributes option" where
  "volumeContributionLoop h self sample ray [] attributes = Some attributes"
| "volumeContributionLoop h self sample ray (volume # rest) attributes =
     (case getVolumeContribution h volume self ray sample of
        None \<Rightarrow> None
      | Some volumetricValue \<Rightarrow>
          volumeContributionLoop h self sample ray rest
            (attributes\<lparr>volumeColor :=
                          add3 (volumeColor attributes) (make_vec3f_of4 volumetricValue),
                        volumeIntensity := volumeIntensity attributes + w4 volumetricValue\<rparr>))"

definition processVolumeContribution ::
  "Host \<Rightarrow> AdvancedSimulationRenderer \<Rightarrow> ScreenSample \<Rightarrow> Ray \<Rightarrow> ShadingAttributes \<Rightarrow>
   ShadingAttributes option" where
  "processVolumeContribution h self sample ray attributes =
     volumeContributionLoop h self sample ray (volumes self) attributes"

definition processFinalContribution :: "ShadingAttributes \<Rightarrow> ShadingAttributes" where
  "processFinalContribution attributes =
     (let indirectContribution =
            scale3 (indirectIntensity attributes)
              (scale3 (opacity attributes) (indirectColor attributes));
          totalContributions =
            add3 (shadingContribution attributes) (specularColor attributes);
          totalContributions =
            add3 (add3 (scale3 (simulationIntensity attributes) (simulationColor attributes))
                       (scale3 (1 - simulationIntensity attributes) totalContributions))
                 indirectContribution;
          totalContributions =
            mul3 totalContributions (make_vec3f (1 - shadowIntensity attributes));
          totalContributions =
            add3 totalContributions
              (scale3 (lightEmissionIntensity attributes) (lightEmissionColor attributes));
          (totalContributions, a) =
            (if volumeIntensity attributes > 0
             then (add3 (scale3 (volumeIntensity attributes) (volumeColor attributes))
                        (scale3 (1 - volumeIntensity attributes) totalContributions),
                   attributes\<lparr>opacity := opacity attributes + volumeIntensity attributes\<rparr>)
             else (totalContributions, attributes))
      in a\<lparr>finalContribution := clamp3 totalContributions (make_vec3f 0) (make_vec3f 1)\<rparr>)"

subsection \<open>The ray-bouncing loop\<close>

text \<open>
  The variables of \<^verbatim>\<open>AdvancedSimulationRenderer_shadeRay\<close> that live across iterations.
  \<^verbatim>\<open>depth\<close> is an \<^verbatim>\<open>unsigned int\<close>.
\<close>

record shade_state =
  s_ray :: Ray
  s_color :: vec3f
  s_depth :: "32 word"
  s_oldlocalRefraction :: real
  s_moreRebounds :: bool
  s_pathOpacity :: real
  s_totalOpacity :: real
  s_sample :: ScreenSample

text \<open>
  The first part of an iteration, up to the pixel colour: it traces the ray, shades the
  hit or the background, and returns the shading attributes and the \<open>epsilon\<close> of the
  iteration with the updated variables.
\<close>

definition shadeRay_shade ::
  "Host \<Rightarrow> AdvancedSimulationRenderer \<Rightarrow> shade_state \<Rightarrow>
   (ShadingAttributes \<times> real \<times> shade_state) option" where
  "shadeRay_shade h self s =
     (let attributes = initializeShadingAttributes (uninitialized_attributes h);
          ray = traceRay h (s_ray s);
          branch =
            (if ray_geomID ray < 0
             then
               (let attributes = processBackgroundColor h self ray attributes
                in case processVolumeContribution h self (s_sample s) ray attributes of
                     None \<Rightarrow> None
                   | Some attributes \<Rightarrow>
                       Some (attributes, 0,
                             s\<lparr>s_ray := ray, s_moreRebounds := False,
                               s_totalOpacity := s_totalOpacity s + volumeIntensity attributes\<rparr>))
             else
               (let dg = postIntersect h (uninitialized_dg h) ray
                           [DG_NG, DG_NS, DG_NORMALIZE, DG_FACEFORWARD, DG_TANGENTS,
                            DG_MATERIALID, DG_COLOR, DG_TEXCOORD];
                    attributes = setGeometryShadingAttributes h self (s_sample s) ray dg attributes;
                    attributes =
                      (if hasSimulationMapping h dg
                       then (let c = getSimulationColor h dg
                             in attributes\<lparr>simulationColor := make_vec3f_of4 c,
                                           simulationIntensity := w4 c\<rparr>)
                       else attributes);
                    sample = (if s_depth s = 0
                              then (s_sample s)\<lparr>sample_z := ray_t ray\<rparr>
                              else s_sample s);
                    shaded =
                      (if opacity attributes > samplingThreshold self \<and> s_moreRebounds s
                       then
                         (case computeIndirectShading h self dg sample attributes of
                            (dg, attributes) \<Rightarrow>
                              (let attributes =
                                     (if electronShadingEnabled self
                                      then processElectronShading h sample attributes
                                      else processLightShading h self dg attributes);
                                   shadowed =
                                     (if shadows self > 0
                                      then processShadows h self sample ray dg attributes
                                      else Some attributes)
                               in case shadowed of
                                    None \<Rightarrow> None
                                  | Some attributes \<Rightarrow>
                                      (case processVolumeContribution h self sample ray
                                              attributes of
                                         None \<Rightarrow> None
                                       | Some attributes \<Rightarrow> Some (dg, attributes, ray))))
                       else Some (dg, attributes, ray\<lparr>ray_t0 := eplus (ray_t ray) 1\<rparr>))
                in case shaded of
                     None \<Rightarrow> None
                   | Some (dg, attributes, ray) \<Rightarrow>
                       Some (attributes, dg_epsilon dg,
                             s\<lparr>s_ray := ray, s_sample := sample,
                               s_totalOpacity := s_totalOpacity s + opacity attributes\<rparr>)))
      in case branch of
           None \<Rightarrow> None
         | Some (attributes, epsilon, s) \<Rightarrow>
             (let attributes = processFinalContribution attributes
              in Some (attributes, epsilon,
                       s\<lparr>s_color :=
                           add3 (scale3 (s_pathOpacity s) (finalContribution attributes))
                                (scale3 (1 - s_pathOpacity s) (s_color s))\<rparr>)))"

text \<open>
  The second part of an iteration, "prepare ray for next iteration": the choice between
  refraction and reflection and the new ray. \<^verbatim>\<open>sample.sampleID.z % 4\<close> is the remainder
  of the truncating division of C.
\<close>

definition doRefraction :: "ShadingAttributes \<Rightarrow> ScreenSample \<Rightarrow> bool" where
  "doRefraction attributes sample =
     (if opacity attributes < 1 \<and> reflection attributes > 0
      then \<not> (zi (sampleID sample) smod 4 = 1)
      else opacity attributes < 1)"

definition doReflection :: "ShadingAttributes \<Rightarrow> ScreenSample \<Rightarrow> bool" where
  "doReflection attributes sample =
     (if opacity attributes < 1 \<and> reflection attributes > 0
      then zi (sampleID sample) smod 4 = 1
      else reflection attributes > 0)"

definition shadeRay_rebound ::
  "Host \<Rightarrow> ShadingAttributes \<Rightarrow> real \<Rightarrow> shade_state \<Rightarrow> shade_state" where
  "shadeRay_rebound h attributes epsilon s =
     (let ray = (s_ray s)\<lparr>ray_org := origin attributes,
                          ray_t0 := Finite (epsilon * EPSILON_QUOTIENT),
                          ray_t := Infinite,
                          ray_primID := -1, ray_geomID := -1, ray_instID := -1\<rparr>
      in if doRefraction attributes (s_sample s)
         then s\<lparr>s_ray := ray\<lparr>ray_dir :=
                            refractedVector h (ray_dir ray) (normal attributes)
                              (s_oldlocalRefraction s) (refraction attributes)\<rparr>,
                 s_pathOpacity := s_pathOpacity s * (1 - opacity attributes),
                 s_oldlocalRefraction := refraction attributes\<rparr>
         else if doReflection attributes (s_sample s)
         then s\<lparr>s_ray := ray\<lparr>ray_dir := reflectedNormal attributes\<rparr>,
                 s_pathOpacity := s_pathOpacity s * reflection attributes\<rparr>
         else s\<lparr>s_ray := ray, s_moreRebounds := False\<rparr>)"

text \<open>One iteration of the loop, ending with \<^verbatim>\<open>++depth\<close>.\<close>

definition shadeRay_iteration ::
  "Host \<Rightarrow> AdvancedSimulationRenderer \<Rightarrow> shade_state \<Rightarrow> shade_state option" where
  "shadeRay_iteration h self s =
     (case shadeRay_shade h self s of
        None \<Rightarrow> None
      | Some (attributes, epsilon, s1) \<Rightarrow>
          (let s2 = shadeRay_rebound h attributes epsilon s1
           in Some (s2\<lparr>s_depth := s_depth s2 + 1\<rparr>)))"

definition shadeRay_continues :: "Host \<Rightarrow> shade_state \<Rightarrow> bool" where
  "shadeRay_continues h s =
     (s_moreRebounds s \<and> s_depth s < NB_MAX_REBOUNDS h \<and> s_pathOpacity s > 0)"

lemma unat_succ_below:
  fixes d n :: "32 word"
  assumes "d < n"
  shows "unat (d + 1) = unat d + 1"
proof -
  have "unat d < unat n" using assms by (simp add: word_less_nat_alt)
  moreover have "unat n < 2 ^ LENGTH(32)" by (rule unsigned_less)
  ultimately have "unat d + unat (1 :: 32 word) < 2 ^ LENGTH(32)" by simp
  then have "unat (d + 1) = unat d + unat (1 :: 32 word)"
    by (simp only: unat_add_lem [THEN iffD1])
  then show ?thesis by simp
qed

lemma shadeRay_shade_depth:
  "shadeRay_shade h self s = Some (a, e, s1) \<Longrightarrow> s_depth s1 = s_depth s"
  unfolding shadeRay_shade_def Let_def
  by (auto split: if_splits option.splits prod.splits)

lemma shadeRay_rebound_depth: "s_depth (shadeRay_rebound h a e s) = s_depth s"
  by (simp add: shadeRay_rebound_def Let_def)

lemma shadeRay_iteration_depth:
  "shadeRay_iteration h self s = Some s' \<Longrightarrow> s_depth s' = s_depth s + 1"
  unfolding shadeRay_iteration_def
  by (auto simp: Let_def shadeRay_rebound_depth split: option.splits prod.splits
           dest: shadeRay_shade_depth)

function shadeRay_loop ::
  "Host \<Rightarrow> AdvancedSimulationRenderer \<Rightarrow> shade_state \<Rightarrow> shade_state option" where
  "shadeRay_loop h self s =
     (if shadeRay_continues h s
      then
        (case shadeRay_iteration h self s of
           None \<Rightarrow> None
         | Some s' \<Rightarrow> shadeRay_loop h self s')
      else Some s)"
  by pat_completeness auto
termination shadeRay_loop
proof (relation "measure (\<lambda>(h, self, s). unat (NB_MAX_REBOUNDS h) - unat (s_depth s))")
  show "wf (measure (\<lambda>(h, self, s). unat (NB_MAX_REBOUNDS h) - unat (s_depth s)))"
    by simp
next
  fix h self s s'
  assume c: "shadeRay_continues h s" and i: "shadeRay_iteration h self s = Some s'"
  from c have lt: "unat (s_depth s) < unat (NB_MAX_REBOUNDS h)"
    by (simp add: shadeRay_continues_def word_less_nat_alt)
  from c have "s_depth s < NB_MAX_REBOUNDS h"
    by (simp add: shadeRay_continues_def)
  then have "unat (s_depth s + 1) = unat (s_depth s) + 1"
    by (rule unat_succ_below)
  with lt shadeRay_iteration_depth [OF i]
  show "((h, self, s'), (h, self, s)) \<in>
          measure (\<lambda>(h, self, s). unat (NB_MAX_REBOUNDS h) - unat (s_depth s))"
    by simp
qed

declare shadeRay_loop.simps [simp del]

text \<open>
  \<^verbatim>\<open>AdvancedSimulationRenderer_shadeRay\<close> returns the colour and leaves the depth and the
  alpha in the sample; \<^verbatim>\<open>shadeRay_start\<close> is the state in which it enters the loop and
  \<^verbatim>\<open>shadeRay_final\<close> the state in which it leaves it.
\<close>

definition shadeRay_start :: "ScreenSample \<Rightarrow> shade_state" where
  "shadeRay_start sample =
     \<lparr>s_ray = sample_ray sample, s_color = make_vec3f 0, s_depth = 0,
      s_oldlocalRefraction = 1, s_moreRebounds = True, s_pathOpacity = 1,
      s_totalOpacity = 0, s_sample = sample\<lparr>sample_z := Infinite\<rparr>\<rparr>"

definition shadeRay_final ::
  "Host \<Rightarrow> AdvancedSimulationRenderer \<Rightarrow> ScreenSample \<Rightarrow> shade_state option" where
  "shadeRay_final h self sample = shadeRay_loop h self (shadeRay_start sample)"

definition AdvancedSimulationRenderer_shadeRay ::
  "Host \<Rightarrow> AdvancedSimulationRenderer \<Rightarrow> ScreenSample \<Rightarrow> (vec3f \<times> ScreenSample) option" where
  "AdvancedSimulationRenderer_shadeRay h self sample =
     (case shadeRay_final h self sample of
        None \<Rightarrow> None
      | Some s \<Rightarrow>
          Some (s_color s, (s_sample s)\<lparr>sample_alpha := min 1 (s_totalOpacity s)\<rparr>))"

text \<open>
  The state after a given number of iterations of the loop body, whatever the loop
  condition says; \<open>None\<close> when one of them does not return.
\<close>

fun shadeRay_iterations ::
  "nat \<Rightarrow> Host \<Rightarrow> AdvancedSimulationRenderer \<Rightarrow> shade_state \<Rightarrow> shade_state option" where
  "shadeRay_iterations 0 h self s = Some s"
| "shadeRay_iterations (Suc k) h self s =
     (case shadeRay_iteration h self s of
        None \<Rightarrow> None
      | Some s' \<Rightarrow> shadeRay_iterations k h self s')"




text \<open>
  A state of the marching loop in which the loop goes on and the sample at \<open>t\<close> is
  skipped while the step is \<open>0\<close>.
\<close>

definition march_stuck ::
  "AdvancedSimulationRenderer \<Rightarrow> Volume \<Rightarrow> Ray \<Rightarrow> real \<Rightarrow> march_state \<Rightarrow> bool" where
  "march_stuck self volume ray t1 s =
     (m_epsilon s = 0 \<and> m_t s < t1 \<and> w4 (m_pathColor s) < 1 \<and>
      getOpacityForValue volume
        (vol_sample volume (add3 (ray_org ray) (scale3 (m_t s) (ray_dir ray))))
        \<le> samplingThreshold self)"

subsection \<open>Example scenes\<close>

text \<open>
  Concrete values on which the theorems are evaluated: an empty scene whose rays hit
  nothing, a scene of mirrors in which every ray hits a fully opaque surface that reflects
  half of the light, and a scene with one volume whose sampling step is \<open>0\<close>.
\<close>

definition example_ray :: Ray where
  "example_ray =
     \<lparr>ray_org = make_vec3f 0, ray_dir = Vec3f 0 0 1, ray_t0 = Finite 0, ray_t = Infinite,
      ray_time = Finite 0, ray_geomID = -1, ray_primID = -1, ray_instID = -1\<rparr>"

definition example_sample :: "int \<Rightarrow> ScreenSample" where
  "example_sample accumID =
     \<lparr>sampleID = Vec3i 0 0 accumID, sample_ray = example_ray, sample_z = Finite 0,
      sample_alpha = 0, sample_rgb = make_vec3f 0\<rparr>"

definition example_dg :: DifferentialGeometry where
  "example_dg =
     \<lparr>dg_P = make_vec3f 0, dg_Ns = Vec3f 0 0 (-1), dg_epsilon = 1 / 1000,
      dg_material = None, dg_color = make_vec4f 1, dg_host = 0\<rparr>"

definition example_attributes :: ShadingAttributes where
  "example_attributes =
     \<lparr>origin = make_vec3f 0, normal = make_vec3f 0, reflectedNormal = make_vec3f 0,
      refraction = 0, reflection = 0, opacity = 0,
      diffuseColor = make_vec3f 0, specularColor = make_vec3f 0, specularExponent = 0,
      lightEmissionColor = make_vec3f 0, lightEmissionIntensity = 0, shadowIntensity = 0,
      simulationColor = make_vec3f 0, simulationIntensity = 0,
      indirectColor = make_vec3f 0, indirectIntensity = 0,
      volumeColor = make_vec3f 0, volumeIntensity = 0,
      shadingContribution = make_vec3f 0, finalContribution = make_vec3f 0\<rparr>"

definition example_host :: Host where
  "example_host =
     \<lparr>NB_MAX_REBOUNDS = 3,
      DEFAULT_SKY_POWER = 4,
      setRay = (\<lambda>r p d. r\<lparr>ray_org := p, ray_dir := d\<rparr>),
      traceRay = (\<lambda>r. r\<lparr>ray_geomID := -1\<rparr>),
      postIntersect = (\<lambda>dg r flags. dg),
      intersectBox = (\<lambda>r box. (0, 1)),
      skyboxMapping = (\<lambda>r m. make_vec4f 0),
      getRandomVector = (\<lambda>size smp n seed. n),
      getRandomValue = (\<lambda>smp seed. 0),
      refractedVector = (\<lambda>d n n1 n2. d),
      composite = (\<lambda>src dst alpha. dst),
      hasSimulationMapping = (\<lambda>dg. False),
      getSimulationColor = (\<lambda>dg. make_vec4f 0),
      get1f = (\<lambda>m dg. 1),
      get3f = (\<lambda>m dg. make_vec3f 1),
      get3f_default = (\<lambda>m dg d. d),
      get4f = (\<lambda>m dg. make_vec4f 1),
      normalize = (\<lambda>v. v),
      safe_normalize = (\<lambda>v. v),
      powf = (\<lambda>a b. a powr b),
      uninitialized_dg = example_dg,
      uninitialized_attributes = example_attributes\<rparr>"

definition example_renderer :: AdvancedSimulationRenderer where
  "example_renderer =
     \<lparr>randomNumber = 0, shadows = 0, softShadows = 0,
      ambientOcclusionStrength = 0, ambientOcclusionDistance = 1,
      shadingEnabled = False, electronShadingEnabled = False,
      samplingThreshold = 1 / 10, volumeSpecularExponent = 1, volumeAlphaCorrection = 1,
      lights = [], bgMaterial = 0, fb_size_x = 1, volumes = []\<rparr>"

definition mirror :: DefaultMaterial where
  "mirror =
     \<lparr>mat_d = 1, mat_Kd = make_vec3f 1, mat_Ks = make_vec3f 0, mat_Ns = 0, mat_a = 0,
      mat_glossiness = 1, mat_refraction = 1, mat_reflection = 1 / 2,
      map_d = None, map_Kd = None, map_Ks = None, map_Ns = None, map_a = None,
      map_Bump = None, map_reflection = None\<rparr>"

definition mirror_host :: Host where
  "mirror_host =
     example_host
       \<lparr>traceRay := (\<lambda>r. r\<lparr>ray_geomID := 0, ray_t := Finite 1\<rparr>),
        postIntersect := (\<lambda>dg r flags. dg\<lparr>dg_material := Some mirror\<rparr>)\<rparr>"

definition still_volume :: Volume where
  "still_volume =
     \<lparr>boundingBox = (make_vec3f 0, make_vec3f 1),
      samplingStep = 0, samplingRate = 1,
      vol_sample = (\<lambda>p. 0),
      getOpacityForValue = (\<lambda>v. 0),
      getColorForValue = (\<lambda>v. make_vec3f 0),
      computeGradient = (\<lambda>p. make_vec3f 0),
      singleShade = False, gradientShadingEnabled = False,
      specular = make_vec3f 0\<rparr>"

definition still_renderer :: AdvancedSimulationRenderer where
  "still_renderer = example_renderer\<lparr>volumes := [still_volume]\<rparr>"





section \<open>The morphology loader (brayns/io/MorphologyLoader.cpp)\<close>

subsection \<open>Geometry\<close>

text \<open>
  The parametric primitives, each with the arguments of its constructor call in order; a
  \<^verbatim>\<open>size_t\<close> that counts or indexes is a natural number. A container map
  (\<^verbatim>\<open>SpheresMap\<close>, \<^verbatim>\<open>CylindersMap\<close>, \<^verbatim>\<open>ConesMap\<close>) is a partial map from material to
  list; \<^verbatim>\<open>operator[]\<close> on a missing key creates the empty list.
\<close>

record Sphere =
  sphere_material :: nat
  sphere_center :: vec3f
  sphere_radius :: real
  sphere_timestamp :: real
  sphere_offset :: real

record Cylinder =
  cylinder_material :: nat
  cylinder_center :: vec3f
  cylinder_up :: vec3f
  cylinder_radius :: real
  cylinder_timestamp :: real
  cylinder_offset :: real

record Cone =
  cone_material :: nat
  cone_center :: vec3f
  cone_up :: vec3f
  cone_centerRadius :: real
  cone_upRadius :: real
  cone_timestamp :: real
  cone_offset :: real

definition at_key :: "(nat \<rightharpoonup> 'a list) \<Rightarrow> nat \<Rightarrow> 'a list" where
  "at_key m k = (case m k of None \<Rightarrow> [] | Some xs \<Rightarrow> xs)"

definition push_back :: "(nat \<rightharpoonup> 'a list) \<Rightarrow> nat \<Rightarrow> 'a \<Rightarrow> (nat \<rightharpoonup> 'a list)" where
  "push_back m k x = m(k \<mapsto> at_key m k @ [x])"

text \<open>
  A bounding box is empty or has a lower and an upper corner; merging a point or a box
  extends it.
\<close>

type_synonym Boxf = "(vec3f \<times> vec3f) option"

definition min3 :: "vec3f \<Rightarrow> vec3f \<Rightarrow> vec3f" where
  "min3 a b = Vec3f (min (x3 a) (x3 b)) (min (y3 a) (y3 b)) (min (z3 a) (z3 b))"

definition merge_point :: "Boxf \<Rightarrow> vec3f \<Rightarrow> Boxf" where
  "merge_point box p =
     (case box of None \<Rightarrow> Some (p, p) | Some (lo, hi) \<Rightarrow> Some (min3 lo p, max3 hi p))"

definition merge_box :: "Boxf \<Rightarrow> Boxf \<Rightarrow> Boxf" where
  "merge_box box other =
     (case other of None \<Rightarrow> box | Some (lo, hi) \<Rightarrow> merge_point (merge_point box lo) hi)"

definition getCenter :: "Boxf \<Rightarrow> vec3f" where
  "getCenter box =
     (case box of None \<Rightarrow> make_vec3f 0 | Some (lo, hi) \<Rightarrow> scale3 (1 / 2) (add3 lo hi))"

text \<open>The containers a call of the loader fills: those of the scene or thread-local ones.\<close>

record Geometry =
  g_spheres :: "nat \<rightharpoonup> Sphere list"
  g_cylinders :: "nat \<rightharpoonup> Cylinder list"
  g_cones :: "nat \<rightharpoonup> Cone list"
  g_bounds :: Boxf

definition empty_geometry :: Geometry where
  "empty_geometry =
     \<lparr>g_spheres = Map.empty, g_cylinders = Map.empty, g_cones = Map.empty, g_bounds = None\<rparr>"

subsection \<open>What the data access library returns\<close>

text \<open>
  A morphology as the loader reads it from \<^verbatim>\<open>brain::neuron::Morphology\<close>: its points, its
  soma and its sections, each section with its type, its samples (position and diameter),
  its distance to the soma, the distances of its samples and the type of its parent.
\<close>

datatype SectionType = ST_soma | ST_axon | ST_dendrite | ST_apicalDendrite | ST_undefined

record Section =
  section_type :: SectionType
  section_samples :: "vec4f list"
  section_distanceToSoma :: real
  section_sampleDistancesToSoma :: "real list"
  section_parentType :: "SectionType option"

record Soma =
  soma_centroid :: vec3f
  soma_meanRadius :: real
  soma_children :: "Section list"

record Morphology =
  morph_points :: "vec4f list"
  morph_soma :: Soma
  morph_sections :: "Section list"

definition getSections :: "Morphology \<Rightarrow> SectionType list \<Rightarrow> Section list" where
  "getSections morphology sectionTypes =
     filter (\<lambda>s. section_type s \<in> set sectionTypes) (morph_sections morphology)"

text \<open>
  \<^verbatim>\<open>SimulationInformation\<close>: the compartment counts (16 bit) and offsets (64 bit) of one
  cell, by section.
\<close>

record SimulationInformation =
  compartmentCounts :: "16 word list"
  compartmentOffsets :: "64 word list"

subsection \<open>Geometry parameters\<close>

datatype ColorScheme =
    CS_none | neuron_by_id | neuron_by_segment_type | neuron_by_layer | neuron_by_mtype
  | neuron_by_etype

datatype GeometryQuality = GQ_low | GQ_medium | GQ_high

record MorphologyLayout =
  nbColumns :: nat
  verticalSpacing :: real
  horizontalSpacing :: real

text \<open>
  \<^verbatim>\<open>morphologySectionTypes\<close> is a bit mask in the source; the model keeps one flag for each of
  the four bits the loader tests (\<^verbatim>\<open>MST_SOMA\<close>, \<^verbatim>\<open>MST_AXON\<close>, \<^verbatim>\<open>MST_DENDRITE\<close>,
  \<^verbatim>\<open>MST_APICAL_DENDRITE\<close>).
\<close>

record GeometryParameters =
  MST_SOMA :: bool
  MST_AXON :: bool
  MST_DENDRITE :: bool
  MST_APICAL_DENDRITE :: bool
  colorScheme :: ColorScheme
  radiusCorrection :: real
  radiusMultiplier :: real
  geometryQuality :: GeometryQuality
  useSimulationModel :: bool
  useMetaballs :: bool
  morphologyLayout :: MorphologyLayout
  metaballsSamplesFromSoma :: nat
  metaballsGridSize :: nat
  metaballsThreshold :: real
  circuitDensity :: "64 word"
  meshedMorphologiesFolder :: string
  nonSimulatedCells :: nat
  startSimulationTime :: real
  endSimulationTime :: real
  simulationCacheFile :: string

text \<open>
  The constants of \<^verbatim>\<open>types.h\<close> and the default value that \<^verbatim>\<open>MorphologyLoader.h\<close> declares
  for the parameter \<^verbatim>\<open>forcedMaterial\<close>, none of them among the sources, are parameters.
  \<^verbatim>\<open>NB_MAX_MATERIALS - NB_SYSTEM_MATERIALS\<close> is taken to be positive.
\<close>

record LoaderConsts =
  NO_MATERIAL :: nat
  NB_MAX_MATERIALS :: nat
  NB_SYSTEM_MATERIALS :: nat
  forcedMaterial_default :: nat

subsection \<open>Materials and section types\<close>

definition getMaterialFromSectionType ::
  "LoaderConsts \<Rightarrow> nat \<Rightarrow> nat \<Rightarrow> SectionType \<Rightarrow> ColorScheme \<Rightarrow> nat" where
  "getMaterialFromSectionType c morphologyIndex forcedMaterial sectionType scheme =
     (if forcedMaterial \<noteq> NO_MATERIAL c then forcedMaterial
      else
        (case scheme of
           neuron_by_id \<Rightarrow>
             morphologyIndex mod (NB_MAX_MATERIALS c - NB_SYSTEM_MATERIALS c)
         | neuron_by_segment_type \<Rightarrow>
             (case sectionType of
                ST_soma \<Rightarrow> 1
              | ST_axon \<Rightarrow> 2
              | ST_dendrite \<Rightarrow> 3
              | ST_apicalDendrite \<Rightarrow> 4
              | ST_undefined \<Rightarrow> 0) mod (NB_MAX_MATERIALS c - NB_SYSTEM_MATERIALS c)
         | _ \<Rightarrow> 0))"

definition getSectionTypes :: "GeometryParameters \<Rightarrow> SectionType list" where
  "getSectionTypes p =
     (if MST_SOMA p then [ST_soma] else []) @
     (if MST_AXON p then [ST_axon] else []) @
     (if MST_DENDRITE p then [ST_dendrite] else []) @
     (if MST_APICAL_DENDRITE p then [ST_apicalDendrite] else [])"

subsection \<open>Importing one morphology as parametric geometry\<close>

text \<open>Reading a vector at an index; past the end there is no defined result.\<close>

definition vec_at :: "'a list \<Rightarrow> nat \<Rightarrow> cpp_error + 'a" where
  "vec_at xs i = (if i < length xs then Inr (xs ! i) else Inl OutOfRange)"

definition xyz :: "vec4f \<Rightarrow> vec3f" where
  "xyz v = Vec3f (x4 v) (y4 v) (z4 v)"

definition sampleRadius :: "GeometryParameters \<Rightarrow> real \<Rightarrow> real" where
  "sampleRadius p diameter =
     (if radiusCorrection p \<noteq> 0 then radiusCorrection p
      else diameter * 0.5 * radiusMultiplier p)"

text \<open>
  What stays the same during the loop over the samples of one section: the parameters,
  the simulation information (a pointer, possibly null), the simulation offset, the
  section with its material, the translation, the step between samples, the segment step
  and the index of the section among those processed.
\<close>

record section_ctx =
  ctx_params :: GeometryParameters
  ctx_simulationInformation :: "SimulationInformation option"
  ctx_simulationOffset :: nat
  ctx_section :: Section
  ctx_material :: nat
  ctx_translation :: vec3f
  ctx_step :: nat
  ctx_segmentStep :: real
  ctx_sectionId :: nat

text \<open>The variables of that loop.\<close>

record sample_loop =
  sl_i :: nat
  sl_done :: bool
  sl_previousSample :: vec4f
  sl_offset :: real
  sl_maxDistanceToSoma :: real
  sl_geometry :: Geometry

text \<open>
  The segment step of a section. The second operand of \<^verbatim>\<open>&&\<close> is evaluated only when
  the first holds.
\<close>

definition segmentStep ::
  "SimulationInformation option \<Rightarrow> vec4f list \<Rightarrow> nat \<Rightarrow> cpp_error + real" where
  "segmentStep simulationInformation samples sectionId =
     (case simulationInformation of
        None \<Rightarrow> Inr 0
      | Some info \<Rightarrow>
          (if samples = []
           then
             (case vec_at (compartmentCounts info) sectionId of
                Inl e \<Rightarrow> Inl e
              | Inr n \<Rightarrow>
                  (if n > 1 then Inr (real (unat n) / real (length samples)) else Inr 0))
           else Inr 0))"

text \<open>
  One iteration of the loop over the samples, without the increment \<^verbatim>\<open>i += step\<close>.
  \<^verbatim>\<open>samples[i - step]\<close> is read only when there is no radius correction; \<open>i - step\<close> is
  computed on \<^verbatim>\<open>size_t\<close>, so for \<open>i < step\<close> the index is past the end.
\<close>

definition sampleBody :: "section_ctx \<Rightarrow> sample_loop \<Rightarrow> cpp_error + sample_loop" where
  "sampleBody ctx s =
     (let p = ctx_params ctx;
          samples = section_samples (ctx_section ctx);
          material = ctx_material ctx;
          (i, done) = (if sl_i s \<ge> length samples
                       then (length samples - 1, True)
                       else (sl_i s, sl_done s))
      in case vec_at (section_sampleDistancesToSoma (ctx_section ctx)) i of
           Inl e \<Rightarrow> Inl e
         | Inr d \<Rightarrow>
        (let distance = section_distanceToSoma (ctx_section ctx) + d;
             maxDistance = max (sl_maxDistanceToSoma s) distance
         in case (case ctx_simulationInformation ctx of
                    Some info \<Rightarrow>
                      (case vec_at (compartmentOffsets info) (ctx_sectionId ctx) of
                         Inl e \<Rightarrow> Inl e
                       | Inr off \<Rightarrow> Inr (real (unat off) + real i * ctx_segmentStep ctx))
                  | None \<Rightarrow>
                      (if ctx_simulationOffset ctx \<noteq> 0
                       then Inr (real (ctx_simulationOffset ctx) + distance)
                       else Inr (sl_offset s))) of
              Inl e \<Rightarrow> Inl e
            | Inr offset \<Rightarrow>
           (case vec_at samples i of
              Inl e \<Rightarrow> Inl e
            | Inr sample \<Rightarrow>
           (case (if radiusCorrection p \<noteq> 0 then Inr (radiusCorrection p)
                  else if ctx_step ctx \<le> i
                  then (case vec_at samples (i - ctx_step ctx) of
                          Inl e \<Rightarrow> Inl e
                        | Inr prev \<Rightarrow> Inr (w4 prev * 0.5 * radiusMultiplier p))
                  else Inl OutOfRange) of
              Inl e \<Rightarrow> Inl e
            | Inr previousRadius \<Rightarrow>
           (let position = add3 (xyz sample) (ctx_translation ctx);
                target = add3 (xyz (sl_previousSample s)) (ctx_translation ctx);
                radius = sampleRadius p (w4 sample);
                g = sl_geometry s;
                g = (if radius > 0
                     then g\<lparr>g_spheres :=
                            push_back (g_spheres g) material
                              \<lparr>sphere_material = material, sphere_center = position,
                               sphere_radius = radius, sphere_timestamp = distance,
                               sphere_offset = offset\<rparr>\<rparr>
                     else g);
                g = g\<lparr>g_bounds := merge_point (g_bounds g) position\<rparr>;
                g = (if position \<noteq> target \<and> radius > 0 \<and> previousRadius > 0
                     then
                       (if radius = previousRadius
                        then g\<lparr>g_cylinders :=
                               push_back (g_cylinders g) material
                                 \<lparr>cylinder_material = material, cylinder_center = position,
                                  cylinder_up = target, cylinder_radius = radius,
                                  cylinder_timestamp = distance, cylinder_offset = offset\<rparr>\<rparr>
                        else g\<lparr>g_cones :=
                               push_back (g_cones g) material
                                 \<lparr>cone_material = material, cone_center = position,
                                  cone_up = target, cone_centerRadius = radius,
                                  cone_upRadius = previousRadius,
                                  cone_timestamp = distance, cone_offset = offset\<rparr>\<rparr>)
                         \<lparr>g_bounds := merge_point (g_bounds g) target\<rparr>
                     else g)
            in Inr \<lparr>sl_i = i, sl_done = done, sl_previousSample = sample,
                    sl_offset = offset, sl_maxDistanceToSoma = maxDistance,
                    sl_geometry = g\<rparr>)))))"

text \<open>
  The loop over the samples: while \<^verbatim>\<open>!done && i < samples.size() + step\<close>. With a step of
  \<open>0\<close> it never ends.
\<close>

partial_function (option) sampleLoop ::
  "section_ctx \<Rightarrow> sample_loop \<Rightarrow> (cpp_error + sample_loop) option" where
  "sampleLoop ctx s =
     (if \<not> sl_done s \<and> sl_i s < length (section_samples (ctx_section ctx)) + ctx_step ctx
      then
        (case sampleBody ctx s of
           Inl e \<Rightarrow> Some (Inl e)
         | Inr s' \<Rightarrow> sampleLoop ctx (s'\<lparr>sl_i := sl_i s' + ctx_step ctx\<rparr>))
      else Some (Inr s))"

text \<open>
  The variables of \<^verbatim>\<open>_importMorphology\<close> that live across sections: the containers, the
  current offset, the largest distance to the soma and the number of sections processed.
\<close>

record import_state =
  is_geometry :: Geometry
  is_offset :: real
  is_maxDistanceToSoma :: real
  is_sectionId :: nat

definition sectionStep :: "GeometryParameters \<Rightarrow> nat \<Rightarrow> nat" where
  "sectionStep p n =
     (case geometryQuality p of
        GQ_low \<Rightarrow> n - 1
      | GQ_medium \<Rightarrow> (if n div 2 = 0 then 1 else n div 2)
      | GQ_high \<Rightarrow> 1)"

text \<open>
  The context of the sample loop for one section, and one iteration of the loop over the
  sections: a section without samples is skipped, and is not counted.
\<close>

definition sectionContext ::
  "LoaderConsts \<Rightarrow> GeometryParameters \<Rightarrow> SimulationInformation option \<Rightarrow> nat \<Rightarrow> nat \<Rightarrow> nat \<Rightarrow>
   vec3f \<Rightarrow> Section \<Rightarrow> nat \<Rightarrow> real \<Rightarrow> section_ctx" where
  "sectionContext c p simulationInformation simulationOffset morphologyIndex forcedMaterial
     translation section sectionId segStep =
     \<lparr>ctx_params = p,
      ctx_simulationInformation = simulationInformation,
      ctx_simulationOffset = simulationOffset,
      ctx_section = section,
      ctx_material =
        getMaterialFromSectionType c morphologyIndex forcedMaterial (section_type section)
          (colorScheme p),
      ctx_translation = translation,
      ctx_step = sectionStep p (length (section_samples section)),
      ctx_segmentStep = segStep,
      ctx_sectionId = sectionId\<rparr>"

definition processSection ::
  "LoaderConsts \<Rightarrow> GeometryParameters \<Rightarrow> SimulationInformation option \<Rightarrow> nat \<Rightarrow> nat \<Rightarrow> nat \<Rightarrow>
   vec3f \<Rightarrow> Section \<Rightarrow> import_state \<Rightarrow> (cpp_error + import_state) option" where
  "processSection c p simulationInformation simulationOffset morphologyIndex forcedMaterial
     translation section st =
     (let samples = section_samples section
      in if samples = [] then Some (Inr st)
         else
           (case segmentStep simulationInformation samples (is_sectionId st) of
              Inl e \<Rightarrow> Some (Inl e)
            | Inr segStep \<Rightarrow>
                (let ctx = sectionContext c p simulationInformation simulationOffset
                             morphologyIndex forcedMaterial translation section
                             (is_sectionId st) segStep
                 in case sampleLoop ctx
                           \<lparr>sl_i = ctx_step ctx, sl_done = False,
                            sl_previousSample = hd samples,
                            sl_offset = is_offset st,
                            sl_maxDistanceToSoma = is_maxDistanceToSoma st,
                            sl_geometry = is_geometry st\<rparr> of
                      None \<Rightarrow> None
                    | Some (Inl e) \<Rightarrow> Some (Inl e)
                    | Some (Inr s) \<Rightarrow>
                        Some (Inr \<lparr>is_geometry = sl_geometry s,
                                   is_offset = sl_offset s,
                                   is_maxDistanceToSoma = sl_maxDistanceToSoma s,
                                   is_sectionId = is_sectionId st + 1\<rparr>))))"

fun sectionsLoop ::
  "LoaderConsts \<Rightarrow> GeometryParameters \<Rightarrow> SimulationInformation option \<Rightarrow> nat \<Rightarrow> nat \<Rightarrow> nat \<Rightarrow>
   vec3f \<Rightarrow> Section list \<Rightarrow> import_state \<Rightarrow> (cpp_error + import_state) option" where
  "sectionsLoop c p info simulationOffset morphologyIndex forcedMaterial translation [] st =
     Some (Inr st)"
| "sectionsLoop c p info simulationOffset morphologyIndex forcedMaterial translation
     (section # rest) st =
     (case processSection c p info simulationOffset morphologyIndex forcedMaterial translation
             section st of
        None \<Rightarrow> None
      | Some (Inl e) \<Rightarrow> Some (Inl e)
      | Some (Inr st') \<Rightarrow>
          sectionsLoop c p info simulationOffset morphologyIndex forcedMaterial translation
            rest st')"

text \<open>
  What the loader calls outside its own file: the constructor of
  \<^verbatim>\<open>brain::neuron::Morphology\<close>, which reads a morphology from a URI with a transformation
  and may throw, and the mesh generation of \<^verbatim>\<open>MetaballsGenerator\<close>, which adds a mesh to the
  triangle meshes of the scene. A transformation and a triangle mesh are handles.
\<close>

type_synonym Matrix4f = nat
type_synonym URI = string

record MorphologyReader =
  readMorphology :: "URI \<Rightarrow> Matrix4f \<Rightarrow> cpp_error + Morphology"
  generateMesh :: "Sphere list \<Rightarrow> nat \<Rightarrow> real \<Rightarrow> nat \<Rightarrow> nat list \<Rightarrow> cpp_error + nat list"
  identity_Matrix4f :: Matrix4f

text \<open>The translation that places the morphology in the layout grid.\<close>

definition layoutTranslation :: "GeometryParameters \<Rightarrow> Morphology \<Rightarrow> nat \<Rightarrow> vec3f" where
  "layoutTranslation p morphology morphologyIndex =
     (let layout = morphologyLayout p
      in if nbColumns layout \<noteq> 0
         then
           (let morphologyAABB = foldl merge_point None (map xyz (morph_points morphology));
                positionInGrid =
                  Vec3f (-1 * horizontalSpacing layout *
                           real (morphologyIndex mod nbColumns layout))
                        (-1 * verticalSpacing layout *
                           real (morphologyIndex div nbColumns layout))
                        0
            in sub3 positionInGrid (getCenter morphologyAABB))
         else Vec3f 0 0 0)"

text \<open>
  The cones between the soma and the first sample of each of its children, over the
  children that are left.
\<close>

fun somaCones ::
  "GeometryParameters \<Rightarrow> nat \<Rightarrow> vec3f \<Rightarrow> real \<Rightarrow> real \<Rightarrow> Section list \<Rightarrow> Geometry \<Rightarrow>
   cpp_error + Geometry" where
  "somaCones p material somaPosition radius offset [] g = Inr g"
| "somaCones p material somaPosition radius offset (child # rest) g =
     (case vec_at (section_samples child) 0 of
        Inl e \<Rightarrow> Inl e
      | Inr s0 \<Rightarrow>
          (let sample = xyz s0
           in somaCones p material somaPosition radius offset rest
                (g\<lparr>g_cones :=
                     push_back (g_cones g) material
                       \<lparr>cone_material = material, cone_center = somaPosition,
                        cone_up = sample, cone_centerRadius = radius,
                        cone_upRadius = w4 s0 * 0.5 * radiusMultiplier p,
                        cone_timestamp = 0, cone_offset = offset\<rparr>,
                   g_bounds := merge_point (g_bounds g) sample\<rparr>)))"

definition somaGeometry ::
  "LoaderConsts \<Rightarrow> GeometryParameters \<Rightarrow> Morphology \<Rightarrow> nat \<Rightarrow> nat \<Rightarrow> vec3f \<Rightarrow> real \<Rightarrow>
   Geometry \<Rightarrow> cpp_error + Geometry" where
  "somaGeometry c p morphology morphologyIndex forcedMaterial translation offset g =
     (if \<not> useMetaballs p \<and> MST_SOMA p
      then
        (let soma = morph_soma morphology;
             material = getMaterialFromSectionType c morphologyIndex forcedMaterial ST_soma
                          (colorScheme p);
             somaPosition = add3 (soma_centroid soma) translation;
             radius = (if radiusCorrection p \<noteq> 0 then radiusCorrection p
                       else soma_meanRadius soma * radiusMultiplier p);
             g = g\<lparr>g_spheres :=
                     push_back (g_spheres g) material
                       \<lparr>sphere_material = material, sphere_center = somaPosition,
                        sphere_radius = radius, sphere_timestamp = 0,
                        sphere_offset = offset\<rparr>,
                   g_bounds := merge_point (g_bounds g) somaPosition\<rparr>
         in if useSimulationModel p
            then somaCones p material somaPosition radius offset (soma_children soma) g
            else Inr g)
      else Inr g)"

text \<open>
  \<^verbatim>\<open>_importMorphology\<close>. It returns its boolean with the containers as it leaves them, the
  largest distance to the soma and the lines it wrote to the error log; a
  \<^verbatim>\<open>std::runtime_error\<close> is caught, logged and turned into \<open>False\<close>, any other exception
  leaves the function.
\<close>

definition private_importMorphology ::
  "LoaderConsts \<Rightarrow> GeometryParameters \<Rightarrow> MorphologyReader \<Rightarrow> URI \<Rightarrow> nat \<Rightarrow> Matrix4f \<Rightarrow>
   SimulationInformation option \<Rightarrow> Geometry \<Rightarrow> nat \<Rightarrow> nat \<Rightarrow>
   (cpp_error + (bool \<times> Geometry \<times> real \<times> string list)) option" where
  "private_importMorphology c p lib source morphologyIndex transformation
     simulationInformation g simulationOffset forcedMaterial =
     (case readMorphology lib source transformation of
        Inl (RuntimeError what) \<Rightarrow> Some (Inr (False, g, 0, [what]))
      | Inl e \<Rightarrow> Some (Inl e)
      | Inr morphology \<Rightarrow>
          (let translation = layoutTranslation p morphology morphologyIndex;
               sections = getSections morphology (getSectionTypes p)
           in case (case simulationInformation of
                      Some info \<Rightarrow>
                        (case vec_at (compartmentOffsets info) 0 of
                           Inl e \<Rightarrow> Inl e
                         | Inr off \<Rightarrow> Inr (real (unat off)))
                    | None \<Rightarrow>
                        Inr (if simulationOffset \<noteq> 0 then real simulationOffset else 0)) of
                Inl e \<Rightarrow> Some (Inl e)
              | Inr offset \<Rightarrow>
                  (case somaGeometry c p morphology morphologyIndex forcedMaterial translation
                          offset g of
                     Inl e \<Rightarrow> Some (Inl e)
                   | Inr g1 \<Rightarrow>
                       (case sectionsLoop c p simulationInformation simulationOffset
                               morphologyIndex forcedMaterial translation sections
                               \<lparr>is_geometry = g1, is_offset = offset,
                                is_maxDistanceToSoma = 0, is_sectionId = 0\<rparr> of
                          None \<Rightarrow> None
                        | Some (Inl e) \<Rightarrow> Some (Inl e)
                        | Some (Inr st) \<Rightarrow>
                            Some (Inr (True, is_geometry st, is_maxDistanceToSoma st, []))))))"

subsection \<open>Importing one morphology as a mesh\<close>

text \<open>
  The metaballs of the samples of one section next to the soma, with the positions that
  are merged into the bounds, in the order of the merges.
\<close>

definition sectionMetaballs ::
  "GeometryParameters \<Rightarrow> nat \<Rightarrow> vec4f list \<Rightarrow> Sphere list \<times> vec3f list \<Rightarrow>
   Sphere list \<times> vec3f list" where
  "sectionMetaballs p material samples acc =
     foldl (\<lambda>(metaballs, merged) sample.
              (let position = xyz sample;
                   radius = sampleRadius p (w4 sample)
               in ((if radius > 0
                    then metaballs @
                           [\<lparr>sphere_material = material, sphere_center = position,
                             sphere_radius = radius, sphere_timestamp = 0,
                             sphere_offset = 0\<rparr>]
                    else metaballs),
                   merged @ [position])))
       acc (take (min (metaballsSamplesFromSoma p) (length samples)) samples)"

definition morphologyMetaballs ::
  "LoaderConsts \<Rightarrow> GeometryParameters \<Rightarrow> Morphology \<Rightarrow> nat \<Rightarrow> nat \<Rightarrow>
   Sphere list \<times> vec3f list" where
  "morphologyMetaballs c p morphology morphologyIndex forcedMaterial =
     (let sections = getSections morphology (getSectionTypes p);
          start =
            (if MST_SOMA p
             then
               (let soma = morph_soma morphology;
                    material = getMaterialFromSectionType c morphologyIndex forcedMaterial
                                 ST_soma (colorScheme p);
                    center = soma_centroid soma;
                    radius = (if radiusCorrection p \<noteq> 0 then radiusCorrection p
                              else soma_meanRadius soma * radiusMultiplier p)
                in ([\<lparr>sphere_material = material, sphere_center = center,
                      sphere_radius = radius, sphere_timestamp = 0, sphere_offset = 0\<rparr>],
                    [center]))
             else ([], []))
      in foldl (\<lambda>acc section.
                  if section_parentType section \<noteq> None \<and>
                     section_parentType section \<noteq> Some ST_soma
                  then acc
                  else if section_samples section = [] then acc
                  else sectionMetaballs p
                         (getMaterialFromSectionType c morphologyIndex forcedMaterial
                            (section_type section) (colorScheme p))
                         (section_samples section) acc)
           start sections)"

text \<open>
  \<^verbatim>\<open>_importMorphologyAsMesh\<close> returns its boolean with the triangle meshes and the bounds
  as it leaves them and the lines it wrote to the error log. The bounds have every
  position merged into them when the mesh is generated.
\<close>

definition private_importMorphologyAsMesh ::
  "LoaderConsts \<Rightarrow> GeometryParameters \<Rightarrow> MorphologyReader \<Rightarrow> URI \<Rightarrow> nat \<Rightarrow> Matrix4f \<Rightarrow>
   nat list \<Rightarrow> Boxf \<Rightarrow> nat \<Rightarrow> cpp_error + (bool \<times> nat list \<times> Boxf \<times> string list)" where
  "private_importMorphologyAsMesh c p lib source morphologyIndex transformation meshes bounds
     forcedMaterial =
     (case readMorphology lib source transformation of
        Inl (RuntimeError what) \<Rightarrow> Inr (False, meshes, bounds, [what])
      | Inl e \<Rightarrow> Inl e
      | Inr morphology \<Rightarrow>
          (case morphologyMetaballs c p morphology morphologyIndex forcedMaterial of
             (metaballs, merged) \<Rightarrow>
               (let bounds' = foldl merge_point bounds merged
                in case generateMesh lib metaballs (metaballsGridSize p)
                          (metaballsThreshold p)
                          (getMaterialFromSectionType c morphologyIndex forcedMaterial ST_soma
                             (colorScheme p))
                          meshes of
                     Inl (RuntimeError what) \<Rightarrow> Inr (False, meshes, bounds', [what])
                   | Inl e \<Rightarrow> Inl e
                   | Inr meshes' \<Rightarrow> Inr (True, meshes', bounds', []))))"

subsection \<open>The scene and the entry point for one morphology\<close>

record Scene =
  scene_geometry :: Geometry
  triangleMeshes :: "nat list"

text \<open>
  An entry point returns its boolean with the scene as it leaves it and the lines it wrote
  to the error log.
\<close>

definition importMorphology ::
  "LoaderConsts \<Rightarrow> GeometryParameters \<Rightarrow> MorphologyReader \<Rightarrow> URI \<Rightarrow> nat \<Rightarrow> Scene \<Rightarrow>
   (cpp_error + (bool \<times> Scene \<times> string list)) option" where
  "importMorphology c p lib uri morphologyIndex scene =
     (case (if useMetaballs p
            then private_importMorphologyAsMesh c p lib uri morphologyIndex
                   (identity_Matrix4f lib) (triangleMeshes scene)
                   (g_bounds (scene_geometry scene)) (forcedMaterial_default c)
            else Inr (True, triangleMeshes scene, g_bounds (scene_geometry scene), [])) of
        Inl e \<Rightarrow> Some (Inl e)
      | Inr (returnValue, meshes, bounds, errors) \<Rightarrow>
          (let scene1 = scene\<lparr>triangleMeshes := meshes,
                               scene_geometry := (scene_geometry scene)\<lparr>g_bounds := bounds\<rparr>\<rparr>
           in if returnValue
              then
                (case private_importMorphology c p lib uri morphologyIndex
                        (identity_Matrix4f lib) None (scene_geometry scene1) 0
                        (forcedMaterial_default c) of
                   None \<Rightarrow> None
                 | Some (Inl e) \<Rightarrow> Some (Inl e)
                 | Some (Inr (ok, g, maxDistanceToSoma, errors2)) \<Rightarrow>
                     Some (Inr (ok, scene1\<lparr>scene_geometry := g\<rparr>, errors @ errors2)))
              else Some (Inr (False, scene1, errors))))"

text \<open>
  A container map has grown by appending when every list in it is the old list followed
  by new elements; \<^verbatim>\<open>appended P\<close> also says that every new element satisfies \<open>P\<close>. For
  the three containers of a geometry, \<open>P\<close> is a property of the simulation offset of a
  primitive.
\<close>

definition appended :: "('a \<Rightarrow> bool) \<Rightarrow> (nat \<rightharpoonup> 'a list) \<Rightarrow> (nat \<rightharpoonup> 'a list) \<Rightarrow> bool" where
  "appended P m m' = (\<forall>k. \<exists>new. at_key m' k = at_key m k @ new \<and> list_all P new)"

definition geometry_appended :: "(real \<Rightarrow> bool) \<Rightarrow> Geometry \<Rightarrow> Geometry \<Rightarrow> bool" where
  "geometry_appended P g g' =
     (appended (\<lambda>s. P (sphere_offset s)) (g_spheres g) (g_spheres g') \<and>
      appended (\<lambda>c. P (cylinder_offset c)) (g_cylinders g) (g_cylinders g') \<and>
      appended (\<lambda>c. P (cone_offset c)) (g_cones g) (g_cones g'))"

text \<open>
  With simulation information and a segment step of \<open>0\<close>, the sample loop only appends
  primitives whose offset is the compartment offset of the section.
\<close>

definition section_offset_only :: "section_ctx \<Rightarrow> sample_loop \<Rightarrow> sample_loop \<Rightarrow> bool" where
  "section_offset_only ctx s s' =
     (\<forall>info. ctx_simulationInformation ctx = Some info \<and> ctx_segmentStep ctx = 0 \<longrightarrow>
        geometry_appended
          (\<lambda>x. \<exists>off. vec_at (compartmentOffsets info) (ctx_sectionId ctx) = Inr off \<and>
                     x = real (unat off))
          (sl_geometry s) (sl_geometry s'))"

subsection \<open>Single precision arithmetic of the loader\<close>

text \<open>
  A \<^verbatim>\<open>float\<close> is an IEEE 754 binary32 number and an operation on floats rounds its exact
  result to the nearest float, to the one with an even significand when two are equally
  near. \<^verbatim>\<open>round32\<close> is that rounding on the reals, with the exponent not bounded above; the
  spacing of the floats near \<open>x\<close> is \<^verbatim>\<open>float_ulp x\<close>, from the binade of \<open>x\<close> and
  never below \<open>2\<^sup>-\<^sup>1\<^sup>4\<^sup>9\<close>. A rounded value of magnitude \<open>2\<^sup>1\<^sup>2\<^sup>8\<close> or more is an
  infinity.
\<close>

definition float_ulp :: "real \<Rightarrow> real" where
  "float_ulp x = 2 powr (real_of_int (max \<lfloor>log 2 \<bar>x\<bar>\<rfloor> (- 126)) - 23)"

definition round_half_even :: "real \<Rightarrow> int" where
  "round_half_even q =
     (let n = \<lfloor>q\<rfloor>
      in if q - real_of_int n < 1 / 2 then n
         else if 1 / 2 < q - real_of_int n then n + 1
         else if even n then n else n + 1)"

definition round32 :: "real \<Rightarrow> real" where
  "round32 x =
     (if x = 0 then 0 else real_of_int (round_half_even (x / float_ulp x)) * float_ulp x)"

datatype float32 = Float real | PlusInfinity | MinusInfinity

definition to_float :: "real \<Rightarrow> float32" where
  "to_float x =
     (if 2 ^ 128 \<le> round32 x then PlusInfinity
      else if round32 x \<le> - (2 ^ 128) then MinusInfinity
      else Float (round32 x))"

subsection \<open>Circuits, compartment reports and the simulation cache\<close>

text \<open>
  What the loader reads through the data access library. A circuit gives the cell
  identifiers (GIDs) of a target (of the whole circuit for the empty target name) as a
  list in increasing order, and the transformations and morphology URIs of a list of
  GIDs. A compartment report gives its time range and step, its frame size, the GIDs it
  covers, the compartment counts and offsets of each of them, and the values of the frame
  at a time. Opening a configuration, a circuit, a target or a report may throw.
\<close>

record Circuit =
  getGIDs :: "string \<Rightarrow> cpp_error + nat list"
  getTransforms :: "nat list \<Rightarrow> Matrix4f list"
  getMorphologyURIs :: "nat list \<Rightarrow> URI list"

record CompartmentReport =
  getStartTime :: real
  getEndTime :: real
  getTimestep :: real
  getFrameSize :: nat
  report_GIDs :: "nat list"
  getCompartmentCounts :: "16 word list list"
  getOffsets :: "64 word list list"
  loadFrame :: "float32 \<Rightarrow> real list"

text \<open>
  The library as a whole, with the mesh loader and \<^verbatim>\<open>boost::lexical_cast\<close>. A circuit
  configuration (\<^verbatim>\<open>brion::BlueConfig\<close>) is a handle. \<^verbatim>\<open>neuronMatrix\<close> is the column that
  \<^verbatim>\<open>brion::Circuit::get\<close> returns for a neuron attribute, \<open>None\<close> when opening or reading
  that circuit throws. \<^verbatim>\<open>importMeshFromFile\<close> returns the triangle meshes of the scene
  with the mesh of the file added.
\<close>

record Library =
  morphologyReader :: MorphologyReader
  openBlueConfig :: "string \<Rightarrow> cpp_error + nat"
  openCircuit :: "nat \<Rightarrow> cpp_error + Circuit"
  openCompartmentReport :: "nat \<Rightarrow> string \<Rightarrow> nat list \<Rightarrow> cpp_error + CompartmentReport"
  neuronMatrix :: "nat \<Rightarrow> nat list \<Rightarrow> ColorScheme \<Rightarrow> string list option"
  lexical_cast :: "string \<Rightarrow> cpp_error + nat"
  importMeshFromFile ::
    "string \<Rightarrow> GeometryQuality \<Rightarrow> Matrix4f \<Rightarrow> nat \<Rightarrow> nat list \<Rightarrow> cpp_error + nat list"
  stem :: "URI \<Rightarrow> string"

text \<open>
  The file system as \<^verbatim>\<open>importSimulationData\<close> sees it: whether a simulation handler can
  attach to an existing cache file, and whether a file can be created. A cache file that
  is written is the list of the write calls of \<^verbatim>\<open>CircuitSimulationHandler\<close> on it: the
  header (with the number of frames and the frame size set before) and the frames.
\<close>

record FileSystem =
  attachSimulationToCacheFile :: "string \<Rightarrow> bool"
  can_create :: "string \<Rightarrow> bool"

datatype cache_write = WriteHeader nat nat | WriteFrame "real list"

text \<open>
  The value of a \<^verbatim>\<open>float\<close> converted to \<^verbatim>\<open>uint64_t\<close>: the fraction is dropped; a value
  that then does not fit has no defined result.
\<close>

definition float_to_uint64 :: "real \<Rightarrow> cpp_error + nat" where
  "float_to_uint64 v =
     (if - 1 < v \<and> v < 2 ^ 64 then Inr (nat \<lfloor>v\<rfloor>) else Inl FloatToIntOverflow)"

text \<open>
  \<^verbatim>\<open>nbFrames = (lastFrame - firstFrame) / step\<close>: a float subtraction, a float division
  and the conversion to \<^verbatim>\<open>uint64_t\<close>. A division by zero gives an infinity or a NaN,
  which do not fit, and neither does the quotient of an infinity.
\<close>

definition nbFramesOf :: "real \<Rightarrow> real \<Rightarrow> real \<Rightarrow> cpp_error + nat" where
  "nbFramesOf firstFrame lastFrame step =
     (if step = 0 then Inl FloatToIntOverflow
      else
        (case to_float (lastFrame - firstFrame) of
           Float d \<Rightarrow>
             (case to_float (d / step) of
                Float q \<Rightarrow> float_to_uint64 q
              | _ \<Rightarrow> Inl FloatToIntOverflow)
         | _ \<Rightarrow> Inl FloatToIntOverflow))"

text \<open>
  \<^verbatim>\<open>frameTime = firstFrame + step * frame\<close>: the frame number is converted to \<^verbatim>\<open>float\<close>,
  then a float multiplication and a float addition.
\<close>

definition frameTime :: "real \<Rightarrow> real \<Rightarrow> nat \<Rightarrow> float32" where
  "frameTime firstFrame step frame =
     (case to_float (step * round32 (real frame)) of
        Float m \<Rightarrow> to_float (firstFrame + m)
      | PlusInfinity \<Rightarrow> PlusInfinity
      | MinusInfinity \<Rightarrow> MinusInfinity)"

text \<open>
  The loop that writes the frames, from frame \<open>frame\<close> on, with the number of frames
  that are left.
\<close>

fun writeFrames ::
  "CompartmentReport \<Rightarrow> real \<Rightarrow> real \<Rightarrow> nat \<Rightarrow> nat \<Rightarrow> cache_write list \<Rightarrow> cache_write list" where
  "writeFrames report firstFrame step frame 0 file = file"
| "writeFrames report firstFrame step frame (Suc left) file =
     (let values = loadFrame report (frameTime firstFrame step frame)
      in writeFrames report firstFrame step (frame + 1) left (file @ [WriteFrame values]))"

text \<open>
  The GIDs of a target, shared by the three circuit entry points: the configuration and
  the circuit are opened and the target is read, none of it inside a \<^verbatim>\<open>try\<close>.
\<close>

definition openTarget ::
  "Library \<Rightarrow> string \<Rightarrow> string \<Rightarrow> cpp_error + (nat \<times> Circuit \<times> nat list)" where
  "openTarget lib circuitConfig target =
     (case openBlueConfig lib circuitConfig of
        Inl e \<Rightarrow> Inl e
      | Inr bc \<Rightarrow>
          (case openCircuit lib bc of
             Inl e \<Rightarrow> Inl e
           | Inr circuit \<Rightarrow>
               (case getGIDs circuit target of
                  Inl e \<Rightarrow> Inl e
                | Inr gids \<Rightarrow> Inr (bc, circuit, gids))))"

text \<open>
  \<^verbatim>\<open>importSimulationData\<close> returns its boolean with the lines it wrote to the error log and
  the cache file it wrote, if any. (It also hands a new simulation handler to the scene,
  of which nothing else is read here.)
\<close>

definition importSimulationData ::
  "GeometryParameters \<Rightarrow> Library \<Rightarrow> FileSystem \<Rightarrow> string \<Rightarrow> string \<Rightarrow> string \<Rightarrow>
   cpp_error + (bool \<times> string list \<times> cache_write list option)" where
  "importSimulationData p lib fs circuitConfig target report =
     (case openTarget lib circuitConfig target of
        Inl e \<Rightarrow> Inl e
      | Inr (bc, circuit, gids) \<Rightarrow>
          (if gids = []
           then Inr (False, [''Circuit does not contain any cells''], None)
           else
             (case openCompartmentReport lib bc report gids of
                Inl e \<Rightarrow> Inl e
              | Inr compartmentReport \<Rightarrow>
                  (let cacheFile = simulationCacheFile p
                   in if attachSimulationToCacheFile fs cacheFile
                      then Inr (True, [], None)
                      else if \<not> can_create fs cacheFile
                      then Inr (False, [''Failed to create cache file''], None)
                      else
                        (let start = getStartTime compartmentReport;
                             end_time = getEndTime compartmentReport;
                             step = getTimestep compartmentReport;
                             firstFrame = max start (startSimulationTime p);
                             lastFrame = min end_time (endSimulationTime p);
                             frameSize = getFrameSize compartmentReport
                         in case nbFramesOf firstFrame lastFrame step of
                              Inl e \<Rightarrow> Inl e
                            | Inr nbFrames \<Rightarrow>
                                Inr (True, [],
                                     Some (writeFrames compartmentReport firstFrame step 0
                                             nbFrames [WriteHeader nbFrames frameSize])))))))"

subsection \<open>OpenMP parallel regions of the circuit import\<close>

text \<open>
  Each parallel region of \<^verbatim>\<open>importCircuit\<close> has the same shape: every thread owns private
  containers, runs the iterations of the \<^verbatim>\<open>omp for nowait\<close> loop that are assigned to it,
  then appends its private spheres, cylinders and cones to those of the scene, each in a
  \<^verbatim>\<open>critical\<close> section, and last merges its private bounds into the world bounds, outside
  any critical section.

  The model runs the threads one step at a time, in the order a schedule gives. A step of
  a thread holds at most one access to a shared variable (a read or a write), so that the
  accesses of the threads interleave freely; a critical section is one step. The shared
  variables of a region are the scene, \<^verbatim>\<open>simulationOffset\<close>, \<^verbatim>\<open>morphologyOffsets\<close>,
  \<^verbatim>\<open>simulatedCells\<close> and the error log; the progress counter, which is only printed,
  is left out.
\<close>

datatype phase =
  InLoop | AtSpheres | AtCylinders | AtCones | AtBounds | BoundsRead Boxf | Finished

record shared =
  sh_scene :: Scene
  sh_simulationOffset :: nat
  sh_morphologyOffsets :: "nat \<rightharpoonup> real"
  sh_simulatedCells :: nat
  sh_errors :: "string list"

text \<open>
  One iteration of the loop, as what is left of it: it has completed with the private
  containers as it leaves them, an exception or an operation without defined result has
  ended it, it does not return, or its next access to the shared variables is due. An
  access gives the shared variables after it (a read leaves them as they are) and the
  rest of the iteration, which depends on what was read.
\<close>

datatype iteration =
    Completed Geometry
  | Raised cpp_error
  | Diverged
  | Access "shared \<Rightarrow> shared" "shared \<Rightarrow> iteration"

definition read_shared :: "(shared \<Rightarrow> 'a) \<Rightarrow> ('a \<Rightarrow> iteration) \<Rightarrow> iteration" where
  "read_shared variable rest = Access (\<lambda>sh. sh) (\<lambda>sh. rest (variable sh))"

definition write_shared :: "(shared \<Rightarrow> shared) \<Rightarrow> iteration \<Rightarrow> iteration" where
  "write_shared update rest = Access update (\<lambda>sh. rest)"

text \<open>Writing lines to the error log, one access for each line.\<close>

fun log_errors :: "string list \<Rightarrow> iteration \<Rightarrow> iteration" where
  "log_errors [] rest = rest"
| "log_errors (line # lines) rest =
     write_shared (\<lambda>sh. sh\<lparr>sh_errors := sh_errors sh @ [line]\<rparr>) (log_errors lines rest)"

text \<open>
  A thread: the iterations it has not begun, its private containers, the iteration it is
  in (if any, waiting at its next access), and where it is in the region.
\<close>

record thread =
  t_todo :: "nat list"
  t_private :: Geometry
  t_current :: "iteration option"
  t_phase :: phase

record region =
  r_threads :: "thread list"
  r_shared :: shared

text \<open>
  Appending a private container map to that of the scene: for every key of the private
  map, its list goes to the end of the list of the scene under that key.
\<close>

definition merge_container :: "(nat \<rightharpoonup> 'a list) \<Rightarrow> (nat \<rightharpoonup> 'a list) \<Rightarrow> (nat \<rightharpoonup> 'a list)" where
  "merge_container scene_map private_map =
     (\<lambda>k. case private_map k of
             None \<Rightarrow> scene_map k
           | Some xs \<Rightarrow> Some (at_key scene_map k @ xs))"

definition map_scene_geometry :: "(Geometry \<Rightarrow> Geometry) \<Rightarrow> shared \<Rightarrow> shared" where
  "map_scene_geometry f sh =
     sh\<lparr>sh_scene := (sh_scene sh)\<lparr>scene_geometry := f (scene_geometry (sh_scene sh))\<rparr>\<rparr>"

text \<open>
  An exception that leaves the loop body leaves a structured block of the parallel
  region: the program is terminated. An operation without defined result stays what it
  is.
\<close>

definition escaped :: "cpp_error \<Rightarrow> cpp_error" where
  "escaped e =
     (case e of
        RuntimeError what \<Rightarrow> Terminated
      | OtherException what \<Rightarrow> Terminated
      | _ \<Rightarrow> e)"

text \<open>
  What a thread does with what is left of its iteration after a step: with a completed
  iteration it takes over the private containers and is between two iterations; before an
  access it waits for its next step.
\<close>

definition proceed :: "region \<Rightarrow> nat \<Rightarrow> thread \<Rightarrow> iteration \<Rightarrow> (cpp_error + region) option" where
  "proceed r t th it =
     (case it of
        Completed g \<Rightarrow>
          Some (Inr (r\<lparr>r_threads := (r_threads r)[t := th\<lparr>t_private := g, t_current := None\<rparr>]\<rparr>))
      | Raised e \<Rightarrow> Some (Inl (escaped e))
      | Diverged \<Rightarrow> None
      | Access update rest \<Rightarrow>
          Some (Inr (r\<lparr>r_threads := (r_threads r)[t := th\<lparr>t_current := Some it\<rparr>]\<rparr>)))"

text \<open>
  One step of thread \<open>t\<close>. \<open>cell\<close> is the body of the loop: from the iteration index
  and the private containers to the iteration. In the loop, a thread that is in an
  iteration performs its next access; a thread between two iterations begins the next one
  and runs it up to its first access, or leaves the loop when none is left.
\<close>

type_synonym cell_body = "nat \<Rightarrow> Geometry \<Rightarrow> iteration"

definition thread_step :: "cell_body \<Rightarrow> nat \<Rightarrow> region \<Rightarrow> (cpp_error + region) option" where
  "thread_step cell t r =
     (if t < length (r_threads r)
      then
        (let th = r_threads r ! t
         in case t_phase th of
              InLoop \<Rightarrow>
                (case t_current th of
                   Some (Access update rest) \<Rightarrow>
                     proceed (r\<lparr>r_shared := update (r_shared r)\<rparr>) t th (rest (r_shared r))
                 | Some it \<Rightarrow> proceed r t th it
                 | None \<Rightarrow>
                     (case t_todo th of
                        [] \<Rightarrow>
                          Some (Inr (r\<lparr>r_threads :=
                                         (r_threads r)[t := th\<lparr>t_phase := AtSpheres\<rparr>]\<rparr>))
                      | i # left \<Rightarrow> proceed r t (th\<lparr>t_todo := left\<rparr>) (cell i (t_private th))))
            | AtSpheres \<Rightarrow>
                Some (Inr (r\<lparr>r_shared :=
                               map_scene_geometry
                                 (\<lambda>g. g\<lparr>g_spheres :=
                                          merge_container (g_spheres g)
                                            (g_spheres (t_private th))\<rparr>)
                                 (r_shared r),
                             r_threads := (r_threads r)[t := th\<lparr>t_phase := AtCylinders\<rparr>]\<rparr>))
            | AtCylinders \<Rightarrow>
                Some (Inr (r\<lparr>r_shared :=
                               map_scene_geometry
                                 (\<lambda>g. g\<lparr>g_cylinders :=
                                          merge_container (g_cylinders g)
                                            (g_cylinders (t_private th))\<rparr>)
                                 (r_shared r),
                             r_threads := (r_threads r)[t := th\<lparr>t_phase := AtCones\<rparr>]\<rparr>))
            | AtCones \<Rightarrow>
                Some (Inr (r\<lparr>r_shared :=
                               map_scene_geometry
                                 (\<lambda>g. g\<lparr>g_cones :=
                                          merge_container (g_cones g)
                                            (g_cones (t_private th))\<rparr>)
                                 (r_shared r),
                             r_threads := (r_threads r)[t := th\<lparr>t_phase := AtBounds\<rparr>]\<rparr>))
            | AtBounds \<Rightarrow>
                Some (Inr (r\<lparr>r_threads :=
                               (r_threads r)
                                 [t := th\<lparr>t_phase :=
                                            BoundsRead
                                              (g_bounds (scene_geometry
                                                 (sh_scene (r_shared r))))\<rparr>]\<rparr>))
            | BoundsRead b \<Rightarrow>
                Some (Inr (r\<lparr>r_shared :=
                               map_scene_geometry
                                 (\<lambda>g. g\<lparr>g_bounds := merge_box b (g_bounds (t_private th))\<rparr>)
                                 (r_shared r),
                             r_threads := (r_threads r)[t := th\<lparr>t_phase := Finished\<rparr>]\<rparr>))
            | Finished \<Rightarrow> Some (Inr r))
      else Some (Inr r))"

text \<open>The steps of a schedule, one after the other.\<close>

fun run_schedule :: "cell_body \<Rightarrow> nat list \<Rightarrow> region \<Rightarrow> (cpp_error + region) option" where
  "run_schedule cell [] r = Some (Inr r)"
| "run_schedule cell (t # ts) r =
     (case thread_step cell t r of
        None \<Rightarrow> None
      | Some (Inl e) \<Rightarrow> Some (Inl e)
      | Some (Inr r') \<Rightarrow> run_schedule cell ts r')"

text \<open>
  A thread taking steps until it has left the region, and the threads of a list doing so
  one after the other.
\<close>

partial_function (option) finish_thread ::
  "cell_body \<Rightarrow> nat \<Rightarrow> region \<Rightarrow> (cpp_error + region) option" where
  "finish_thread cell t r =
     (if t < length (r_threads r) \<and> t_phase (r_threads r ! t) \<noteq> Finished
      then
        (case thread_step cell t r of
           None \<Rightarrow> None
         | Some (Inl e) \<Rightarrow> Some (Inl e)
         | Some (Inr r') \<Rightarrow> finish_thread cell t r')
      else Some (Inr r))"

fun finish_threads :: "cell_body \<Rightarrow> nat list \<Rightarrow> region \<Rightarrow> (cpp_error + region) option" where
  "finish_threads cell [] r = Some (Inr r)"
| "finish_threads cell (t # ts) r =
     (case finish_thread cell t r of
        None \<Rightarrow> None
      | Some (Inl e) \<Rightarrow> Some (Inl e)
      | Some (Inr r') \<Rightarrow> finish_threads cell ts r')"

text \<open>
  An execution of a region: the threads start with empty private containers and with the
  iterations that the assignment \<open>owner\<close> gives them, in increasing order; they take
  steps as the schedule says; when the schedule is used up, the threads that have not
  finished run to their end one after the other. Every interleaving of the steps of the
  threads is the execution of some schedule.
\<close>

record omp =
  omp_num_threads :: nat
  omp_owner :: "nat \<Rightarrow> nat"
  omp_schedule :: "nat list"

definition num_threads :: "omp \<Rightarrow> nat" where
  "num_threads run = max 1 (omp_num_threads run)"

definition initial_threads :: "omp \<Rightarrow> nat \<Rightarrow> thread list" where
  "initial_threads run n =
     map (\<lambda>t. \<lparr>t_todo = filter (\<lambda>i. omp_owner run i mod num_threads run = t) [0..<n],
               t_private = empty_geometry, t_current = None, t_phase = InLoop\<rparr>)
       [0..<num_threads run]"

definition parallel_region ::
  "cell_body \<Rightarrow> omp \<Rightarrow> nat \<Rightarrow> shared \<Rightarrow> (cpp_error + region) option" where
  "parallel_region cell run n sh =
     (case run_schedule cell (omp_schedule run)
             \<lparr>r_threads = initial_threads run n, r_shared = sh\<rparr> of
        None \<Rightarrow> None
      | Some (Inl e) \<Rightarrow> Some (Inl e)
      | Some (Inr r) \<Rightarrow> finish_threads cell [0..<length (r_threads r)] r)"

subsection \<open>Importing a circuit\<close>

text \<open>
  \<^verbatim>\<open>getNeuronMatrix\<close> returns whether the colour scheme is by layer, m-type or e-type and
  the circuit could be read, with the matrix it filled.
\<close>

definition getNeuronMatrix ::
  "Library \<Rightarrow> nat \<Rightarrow> nat list \<Rightarrow> ColorScheme \<Rightarrow> bool \<times> string list" where
  "getNeuronMatrix lib bc gids scheme =
     (if scheme = neuron_by_layer \<or> scheme = neuron_by_mtype \<or> scheme = neuron_by_etype
      then (case neuronMatrix lib bc gids scheme of
              Some matrix \<Rightarrow> (True, matrix)
            | None \<Rightarrow> (False, []))
      else (False, []))"

definition skipped :: "nat \<Rightarrow> nat \<Rightarrow> bool" where
  "skipped nbSkipped i = (nbSkipped \<noteq> 0 \<and> i mod nbSkipped \<noteq> 0)"

text \<open>
  The sequential loop that loads the meshes of the morphologies from a folder, over the
  indices that are left. The value \<^verbatim>\<open>importMeshFromFile\<close> returns is not read.
\<close>

fun meshLoop ::
  "LoaderConsts \<Rightarrow> GeometryParameters \<Rightarrow> Library \<Rightarrow> URI list \<Rightarrow> Matrix4f list \<Rightarrow> bool \<Rightarrow>
   string list \<Rightarrow> nat \<Rightarrow> nat list \<Rightarrow> nat list \<Rightarrow> cpp_error + nat list" where
  "meshLoop c p lib uris transforms mvd3Support matrix nbSkipped [] meshes = Inr meshes"
| "meshLoop c p lib uris transforms mvd3Support matrix nbSkipped (i # rest) meshes =
     (if skipped nbSkipped i
      then meshLoop c p lib uris transforms mvd3Support matrix nbSkipped rest meshes
      else
        (case (if mvd3Support
               then (case vec_at matrix i of Inl e \<Rightarrow> Inl e | Inr s \<Rightarrow> lexical_cast lib s)
               else Inr (getMaterialFromSectionType c i (NO_MATERIAL c) ST_undefined
                           (colorScheme p))) of
           Inl e \<Rightarrow> Inl e
         | Inr material \<Rightarrow>
             (case vec_at uris i of
                Inl e \<Rightarrow> Inl e
              | Inr uri \<Rightarrow>
                  (case vec_at transforms i of
                     Inl e \<Rightarrow> Inl e
                   | Inr transformation \<Rightarrow>
                       (case importMeshFromFile lib
                               (meshedMorphologiesFolder p @ ''/'' @ stem lib uri @
                                ''.h5.bin_decimated.off'')
                               (geometryQuality p) transformation material meshes of
                          Inl e \<Rightarrow> Inl e
                        | Inr meshes' \<Rightarrow>
                            meshLoop c p lib uris transforms mvd3Support matrix nbSkipped rest
                              meshes')))))"

text \<open>
  The material of cell \<open>i\<close> in the parallel loops.
\<close>

definition cellMaterial ::
  "LoaderConsts \<Rightarrow> Library \<Rightarrow> bool \<Rightarrow> string list \<Rightarrow> nat \<Rightarrow> cpp_error + nat" where
  "cellMaterial c lib mvd3Support matrix i =
     (if mvd3Support
      then (case vec_at matrix i of Inl e \<Rightarrow> Inl e | Inr s \<Rightarrow> lexical_cast lib s)
      else Inr (NO_MATERIAL c))"

text \<open>
  The mesh import with metaballs from inside a loop body, on the triangle meshes and the
  world bounds of the scene: \<^verbatim>\<open>_importMorphologyAsMesh\<close> with its accesses to the scene as
  steps. Every merge of a position into the world bounds is a read and a write of the
  bounds, and the generation of the mesh a read and a write of the triangle meshes. Its
  boolean is not read, its error lines are written to the log.
\<close>

fun merge_points :: "vec3f list \<Rightarrow> iteration \<Rightarrow> iteration" where
  "merge_points [] rest = rest"
| "merge_points (position # positions) rest =
     read_shared (\<lambda>sh. g_bounds (scene_geometry (sh_scene sh)))
       (\<lambda>bounds.
          write_shared (map_scene_geometry (\<lambda>g. g\<lparr>g_bounds := merge_point bounds position\<rparr>))
            (merge_points positions rest))"

definition cellMetaballs ::
  "LoaderConsts \<Rightarrow> GeometryParameters \<Rightarrow> Library \<Rightarrow> URI \<Rightarrow> nat \<Rightarrow> Matrix4f list \<Rightarrow> nat \<Rightarrow>
   iteration \<Rightarrow> iteration" where
  "cellMetaballs c p lib uri i transforms material rest =
     (if useMetaballs p
      then
        (case vec_at transforms i of
           Inl e \<Rightarrow> Raised e
         | Inr transformation \<Rightarrow>
             (case readMorphology (morphologyReader lib) uri transformation of
                Inl (RuntimeError what) \<Rightarrow> log_errors [what] rest
              | Inl e \<Rightarrow> Raised e
              | Inr morphology \<Rightarrow>
                  (case morphologyMetaballs c p morphology i material of
                     (metaballs, merged) \<Rightarrow>
                       merge_points merged
                         (read_shared (\<lambda>sh. triangleMeshes (sh_scene sh))
                            (\<lambda>meshes.
                               case generateMesh (morphologyReader lib) metaballs
                                      (metaballsGridSize p) (metaballsThreshold p)
                                      (getMaterialFromSectionType c i material ST_soma
                                         (colorScheme p))
                                      meshes of
                                 Inl (RuntimeError what) \<Rightarrow> log_errors [what] rest
                               | Inl e \<Rightarrow> Raised e
                               | Inr meshes' \<Rightarrow>
                                   write_shared
                                     (\<lambda>sh. sh\<lparr>sh_scene :=
                                               (sh_scene sh)\<lparr>triangleMeshes := meshes'\<rparr>\<rparr>)
                                     rest)))))
      else rest)"

text \<open>
  \<^verbatim>\<open>simulationOffset += maxDistanceToSoma\<close> on a \<^verbatim>\<open>size_t\<close> and a \<^verbatim>\<open>float\<close>: the offset is
  converted to \<^verbatim>\<open>float\<close>, the sum is a float addition, and the result is converted back.
\<close>

definition add_offset :: "nat \<Rightarrow> real \<Rightarrow> cpp_error + nat" where
  "add_offset simulationOffset maxDistanceToSoma =
     (case to_float (round32 (real simulationOffset) + maxDistanceToSoma) of
        Float v \<Rightarrow> float_to_uint64 v
      | _ \<Rightarrow> Inl FloatToIntOverflow)"

text \<open>
  The body of the parallel loop of the first overload (no report). The simulation offset
  is read when \<^verbatim>\<open>_importMorphology\<close> is called, which takes it by value. A cell whose import
  succeeds records its largest distance to the soma in \<^verbatim>\<open>morphologyOffsets\<close> and advances
  the shared simulation offset, by a read and a write; none of these accesses is
  synchronised. A cell whose import fails is only logged.
\<close>

definition circuitCell ::
  "LoaderConsts \<Rightarrow> GeometryParameters \<Rightarrow> Library \<Rightarrow> URI list \<Rightarrow> Matrix4f list \<Rightarrow> bool \<Rightarrow>
   string list \<Rightarrow> nat \<Rightarrow> cell_body" where
  "circuitCell c p lib uris transforms mvd3Support matrix nbSkipped i g =
     (if skipped nbSkipped i then Completed g
      else
        (case vec_at uris i of
           Inl e \<Rightarrow> Raised e
         | Inr uri \<Rightarrow>
        (case cellMaterial c lib mvd3Support matrix i of
           Inl e \<Rightarrow> Raised e
         | Inr material \<Rightarrow>
        cellMetaballs c p lib uri i transforms material
        (case vec_at transforms i of
           Inl e \<Rightarrow> Raised e
         | Inr transformation \<Rightarrow>
        read_shared sh_simulationOffset
          (\<lambda>simulationOffset.
             case private_importMorphology c p (morphologyReader lib) uri i transformation
                    None g simulationOffset material of
               None \<Rightarrow> Diverged
             | Some (Inl e) \<Rightarrow> Raised e
             | Some (Inr (ok, g', maxDistanceToSoma, errors)) \<Rightarrow>
                 log_errors errors
                   (if ok
                    then
                      write_shared
                        (\<lambda>sh. sh\<lparr>sh_morphologyOffsets :=
                                  (sh_morphologyOffsets sh)
                                    (sh_simulatedCells sh \<mapsto> maxDistanceToSoma)\<rparr>)
                        (read_shared sh_simulationOffset
                           (\<lambda>simulationOffset.
                              case add_offset simulationOffset maxDistanceToSoma of
                                Inl e \<Rightarrow> Raised e
                              | Inr offset \<Rightarrow>
                                  write_shared (\<lambda>sh. sh\<lparr>sh_simulationOffset := offset\<rparr>)
                                    (Completed g')))
                    else Completed g'))))))"

definition initial_shared :: "Scene \<Rightarrow> shared" where
  "initial_shared scene =
     \<lparr>sh_scene = scene, sh_simulationOffset = 1, sh_morphologyOffsets = Map.empty,
      sh_simulatedCells = 0, sh_errors = []\<rparr>"

text \<open>
  The first overload of \<^verbatim>\<open>importCircuit\<close>, up to its parallel region: it returns either
  an early result or the cell body, the number of iterations and the shared variables
  with which the region starts.
\<close>

definition importCircuit_prepare ::
  "LoaderConsts \<Rightarrow> GeometryParameters \<Rightarrow> Library \<Rightarrow> string \<Rightarrow> string \<Rightarrow> Scene \<Rightarrow>
   cpp_error + ((bool \<times> Scene \<times> string list) + (cell_body \<times> nat \<times> shared))" where
  "importCircuit_prepare c p lib circuitConfig target scene =
     (case openTarget lib circuitConfig target of
        Inl e \<Rightarrow> Inl e
      | Inr (bc, circuit, gids) \<Rightarrow>
          (if gids = []
           then Inr (Inl (False, scene, [''Circuit does not contain any cells'']))
           else
             (let transforms = getTransforms circuit gids;
                  uris = getMorphologyURIs circuit gids;
                  (mvd3Support, matrix) = getNeuronMatrix lib bc gids (colorScheme p)
              in case nbSkippedCells (of_nat (length uris)) (circuitDensity p) of
                   Inl e \<Rightarrow> Inl e
                 | Inr nb \<Rightarrow>
                     (let nbSkipped = unat nb
                      in case (if meshedMorphologiesFolder p \<noteq> []
                               then meshLoop c p lib uris transforms mvd3Support matrix
                                      nbSkipped [0..<length uris] (triangleMeshes scene)
                               else Inr (triangleMeshes scene)) of
                           Inl e \<Rightarrow> Inl e
                         | Inr meshes \<Rightarrow>
                             (let scene1 = scene\<lparr>triangleMeshes := meshes\<rparr>;
                                  loadParametricGeometry =
                                    (if meshedMorphologiesFolder p \<noteq> []
                                     then useSimulationModel p else True)
                              in if loadParametricGeometry
                                 then Inr (Inr (circuitCell c p lib uris transforms mvd3Support
                                                  matrix nbSkipped,
                                                length uris, initial_shared scene1))
                                 else Inr (Inl (True, scene1, [])))))))"

text \<open>
  The first overload of \<^verbatim>\<open>importCircuit\<close>. It returns its boolean with the scene as it
  leaves it and the lines written to the error log.
\<close>

definition importCircuit ::
  "LoaderConsts \<Rightarrow> GeometryParameters \<Rightarrow> Library \<Rightarrow> omp \<Rightarrow> string \<Rightarrow> string \<Rightarrow> Scene \<Rightarrow>
   (cpp_error + (bool \<times> Scene \<times> string list)) option" where
  "importCircuit c p lib run circuitConfig target scene =
     (case importCircuit_prepare c p lib circuitConfig target scene of
        Inl e \<Rightarrow> Some (Inl e)
      | Inr (Inl result) \<Rightarrow> Some (Inr result)
      | Inr (Inr (cell, n, sh)) \<Rightarrow>
          (case parallel_region cell run n sh of
             None \<Rightarrow> None
           | Some (Inl e) \<Rightarrow> Some (Inl e)
           | Some (Inr r) \<Rightarrow>
               Some (Inr (True, sh_scene (r_shared r), sh_errors (r_shared r)))))"

subsection \<open>Importing a circuit with a compartment report\<close>

text \<open>
  The URIs of the cells of the report: for each GID of the report, the URI at the position
  of that GID among the GIDs of the target (\<^verbatim>\<open>std::find\<close> and \<^verbatim>\<open>std::distance\<close>); a GID
  that is not found gives the position past the end.
\<close>

definition position_of :: "nat list \<Rightarrow> nat \<Rightarrow> nat" where
  "position_of gids gid = length (takeWhile (\<lambda>g. g \<noteq> gid) gids)"

fun reportUris :: "URI list \<Rightarrow> nat list \<Rightarrow> nat list \<Rightarrow> cpp_error + URI list" where
  "reportUris uris gids [] = Inr []"
| "reportUris uris gids (cr_gid # rest) =
     (case vec_at uris (position_of gids cr_gid) of
        Inl e \<Rightarrow> Inl e
      | Inr uri \<Rightarrow>
          (case reportUris uris gids rest of
             Inl e \<Rightarrow> Inl e
           | Inr cr_uris \<Rightarrow> Inr (uri # cr_uris)))"

text \<open>
  The body of the parallel loop over the cells of the report. The boolean of
  \<^verbatim>\<open>_importMorphology\<close> is not read.
\<close>

definition reportCell ::
  "LoaderConsts \<Rightarrow> GeometryParameters \<Rightarrow> Library \<Rightarrow> CompartmentReport \<Rightarrow> URI list \<Rightarrow>
   Matrix4f list \<Rightarrow> bool \<Rightarrow> string list \<Rightarrow> nat \<Rightarrow> cell_body" where
  "reportCell c p lib report cr_uris transforms mvd3Support matrix nbSkipped i g =
     (if skipped nbSkipped i then Completed g
      else
        (case vec_at cr_uris i of
           Inl e \<Rightarrow> Raised e
         | Inr uri \<Rightarrow>
        (case vec_at (getCompartmentCounts report) i of
           Inl e \<Rightarrow> Raised e
         | Inr counts \<Rightarrow>
        (case vec_at (getOffsets report) i of
           Inl e \<Rightarrow> Raised e
         | Inr offsets \<Rightarrow>
        (case cellMaterial c lib mvd3Support matrix i of
           Inl e \<Rightarrow> Raised e
         | Inr material \<Rightarrow>
        cellMetaballs c p lib uri i transforms material
        (case vec_at transforms i of
           Inl e \<Rightarrow> Raised e
         | Inr transformation \<Rightarrow>
        (case private_importMorphology c p (morphologyReader lib) uri i transformation
                (Some \<lparr>compartmentCounts = counts, compartmentOffsets = offsets\<rparr>) g 0
                material of
           None \<Rightarrow> Diverged
         | Some (Inl e) \<Rightarrow> Raised e
         | Some (Inr (ok, g', maxDistanceToSoma, errors)) \<Rightarrow>
             log_errors errors (Completed g'))))))))"

text \<open>
  The URIs of the cells of the circuit that the report does not cover, and the body of the
  parallel loop over the non-simulated cells. With a folder of meshes the loop loads a
  mesh into the scene, by a read and a write of its triangle meshes; without, it imports
  the morphology into the private containers.
\<close>

definition nonSimulatedUris :: "URI list \<Rightarrow> nat list \<Rightarrow> nat list \<Rightarrow> URI list" where
  "nonSimulatedUris allUris allGids cr_gids =
     map fst (filter (\<lambda>(uri, gid). gid \<notin> set cr_gids) (zip allUris allGids))"

definition nonSimulatedCell ::
  "LoaderConsts \<Rightarrow> GeometryParameters \<Rightarrow> Library \<Rightarrow> URI list \<Rightarrow> Matrix4f list \<Rightarrow>
   Matrix4f list \<Rightarrow> bool \<Rightarrow> string list \<Rightarrow> nat \<Rightarrow> cell_body" where
  "nonSimulatedCell c p lib allUris allTransforms transforms mvd3Support matrix nbSkipped
     i g =
     (if skipped nbSkipped i then Completed g
      else
        (case vec_at allUris i of
           Inl e \<Rightarrow> Raised e
         | Inr uri \<Rightarrow>
        (case (if mvd3Support
               then (case vec_at matrix i of
                       Inl e \<Rightarrow> Inl e
                     | Inr s \<Rightarrow>
                         (case vec_at s 0 of
                            Inl e \<Rightarrow> Inl e
                          | Inr ch \<Rightarrow> lexical_cast lib [ch]))
               else Inr (NO_MATERIAL c)) of
           Inl e \<Rightarrow> Raised e
         | Inr material \<Rightarrow>
             (if meshedMorphologiesFolder p \<noteq> []
              then
                (case vec_at transforms i of
                   Inl e \<Rightarrow> Raised e
                 | Inr transformation \<Rightarrow>
                     read_shared (\<lambda>sh. triangleMeshes (sh_scene sh))
                       (\<lambda>meshes.
                          case importMeshFromFile lib
                                 (meshedMorphologiesFolder p @ stem lib uri @ ''.off'')
                                 (geometryQuality p) transformation material meshes of
                            Inl e \<Rightarrow> Raised e
                          | Inr meshes' \<Rightarrow>
                              write_shared
                                (\<lambda>sh. sh\<lparr>sh_scene :=
                                          (sh_scene sh)\<lparr>triangleMeshes := meshes'\<rparr>\<rparr>)
                                (Completed g)))
              else
                (case vec_at allTransforms i of
                   Inl e \<Rightarrow> Raised e
                 | Inr transformation \<Rightarrow>
                     (case private_importMorphology c p (morphologyReader lib) uri i
                             transformation None g 0 material of
                        None \<Rightarrow> Diverged
                      | Some (Inl e) \<Rightarrow> Raised e
                      | Some (Inr (ok, g', maxDistanceToSoma, errors)) \<Rightarrow>
                          log_errors errors (Completed g')))))))"

text \<open>
  The second overload of \<^verbatim>\<open>importCircuit\<close>, with the executions of its two parallel
  regions.
\<close>

definition importCircuit_report ::
  "LoaderConsts \<Rightarrow> GeometryParameters \<Rightarrow> Library \<Rightarrow> omp \<Rightarrow> omp \<Rightarrow> string \<Rightarrow> string \<Rightarrow> string \<Rightarrow>
   Scene \<Rightarrow> (cpp_error + (bool \<times> Scene \<times> string list)) option" where
  "importCircuit_report c p lib run1 run2 circuitConfig target report scene =
     (case openTarget lib circuitConfig target of
        Inl e \<Rightarrow> Some (Inl e)
      | Inr (bc, circuit, gids) \<Rightarrow>
     (if gids = []
      then Some (Inr (False, scene, [''Circuit does not contain any cells'']))
      else
     (let transforms = getTransforms circuit gids;
          uris = getMorphologyURIs circuit gids
      in case openCompartmentReport lib bc report gids of
           Inl e \<Rightarrow> Some (Inl e)
         | Inr compartmentReport \<Rightarrow>
     (let cr_gids = report_GIDs compartmentReport;
          (mvd3Support, matrix) = getNeuronMatrix lib bc gids (colorScheme p)
      in case reportUris uris gids cr_gids of
           Inl e \<Rightarrow> Some (Inl e)
         | Inr cr_uris \<Rightarrow>
     (case nbSkippedCells (of_nat (length uris)) (circuitDensity p) of
        Inl e \<Rightarrow> Some (Inl e)
      | Inr nb \<Rightarrow>
     (let nbSkipped = unat nb
      in case (if meshedMorphologiesFolder p \<noteq> []
               then meshLoop c p lib uris transforms mvd3Support matrix nbSkipped
                      [0..<length uris] (triangleMeshes scene)
               else Inr (triangleMeshes scene)) of
           Inl e \<Rightarrow> Some (Inl e)
         | Inr meshes \<Rightarrow>
     (let scene1 = scene\<lparr>triangleMeshes := meshes\<rparr>;
          loadParametricGeometry =
            (if meshedMorphologiesFolder p \<noteq> [] then useSimulationModel p else True)
      in case (if loadParametricGeometry
               then
                 (case parallel_region
                         (reportCell c p lib compartmentReport cr_uris transforms mvd3Support
                            matrix nbSkipped)
                         run1 (length cr_uris) (initial_shared scene1) of
                    None \<Rightarrow> None
                  | Some (Inl e) \<Rightarrow> Some (Inl e)
                  | Some (Inr r) \<Rightarrow> Some (Inr (r_shared r)))
               else Some (Inr (initial_shared scene1))) of
           None \<Rightarrow> None
         | Some (Inl e) \<Rightarrow> Some (Inl e)
         | Some (Inr sh) \<Rightarrow>
     (if nonSimulatedCells p \<noteq> 0
      then
        (case getGIDs circuit [] of
           Inl e \<Rightarrow> Some (Inl e)
         | Inr allGids \<Rightarrow>
             (let allUris = getMorphologyURIs circuit allGids;
                  allTransforms = getTransforms circuit allGids;
                  cr_uris2 = nonSimulatedUris allUris allGids cr_gids;
                  n = min (nonSimulatedCells p) (length cr_uris2)
              in case parallel_region
                        (nonSimulatedCell c p lib allUris allTransforms transforms mvd3Support
                           matrix nbSkipped)
                        run2 n sh of
                   None \<Rightarrow> None
                 | Some (Inl e) \<Rightarrow> Some (Inl e)
                 | Some (Inr r) \<Rightarrow>
                     Some (Inr (True, sh_scene (r_shared r), sh_errors (r_shared r)))))
      else Some (Inr (True, sh_scene sh, sh_errors sh))))))))))"

subsection \<open>The entry points in a build without the data access library\<close>

text \<open>
  Without \<^verbatim>\<open>BRAYNS_USE_BRION\<close> each entry point writes one error line and returns false;
  the scene stays as it is.
\<close>

definition importMorphology_noBrion :: "Scene \<Rightarrow> bool \<times> Scene \<times> string list" where
  "importMorphology_noBrion scene = (False, scene, [''Brion is required to load morphologies''])"

definition importCircuit_noBrion :: "Scene \<Rightarrow> bool \<times> Scene \<times> string list" where
  "importCircuit_noBrion scene = (False, scene, [''Brion is required to load circuits''])"

definition importCircuit_report_noBrion :: "Scene \<Rightarrow> bool \<times> Scene \<times> string list" where
  "importCircuit_report_noBrion scene = (False, scene, [''Brion is required to load circuits''])"

definition importSimulationData_noBrion :: "Scene \<Rightarrow> bool \<times> Scene \<times> string list" where
  "importSimulationData_noBrion scene = (False, scene, [''Brion is required to load circuits''])"

subsection \<open>Example data for the loader\<close>

definition example_consts :: LoaderConsts where
  "example_consts =
     \<lparr>NO_MATERIAL = 1000, NB_MAX_MATERIALS = 200, NB_SYSTEM_MATERIALS = 6,
      forcedMaterial_default = 1000\<rparr>"

definition example_parameters :: GeometryParameters where
  "example_parameters =
     \<lparr>MST_SOMA = True, MST_AXON = True, MST_DENDRITE = True, MST_APICAL_DENDRITE = True,
      colorScheme = CS_none, radiusCorrection = 0, radiusMultiplier = 1,
      geometryQuality = GQ_high, useSimulationModel = False, useMetaballs = False,
      morphologyLayout = \<lparr>nbColumns = 0, verticalSpacing = 0, horizontalSpacing = 0\<rparr>,
      metaballsSamplesFromSoma = 3, metaballsGridSize = 10, metaballsThreshold = 1,
      circuitDensity = 100, meshedMorphologiesFolder = [], nonSimulatedCells = 0,
      startSimulationTime = 0, endSimulationTime = 10, simulationCacheFile = ''cache''\<rparr>"

text \<open>
  A section of three samples on the \<open>z\<close> axis, and the simulation information of a cell
  with one section of three compartments at offset \<open>7\<close>.
\<close>

definition example_section :: Section where
  "example_section =
     \<lparr>section_type = ST_axon,
      section_samples = [Vec4f 0 0 0 2, Vec4f 0 0 1 2, Vec4f 0 0 2 4],
      section_distanceToSoma = 5,
      section_sampleDistancesToSoma = [0, 1, 2],
      section_parentType = None\<rparr>"

definition example_information :: SimulationInformation where
  "example_information = \<lparr>compartmentCounts = [3], compartmentOffsets = [7]\<rparr>"

definition example_import_state :: import_state where
  "example_import_state =
     \<lparr>is_geometry = empty_geometry, is_offset = 7, is_maxDistanceToSoma = 0,
      is_sectionId = 0\<rparr>"

text \<open>
  A morphology with a soma and the one example section, a library that reads it for every
  URI, a circuit of three cells of which the target \<^verbatim>\<open>"two"\<close> holds two and the target
  \<^verbatim>\<open>"none"\<close> none, a compartment report from time \<open>0\<close> to \<open>10\<close> in steps of \<open>2\<close>
  whose frame at time \<open>t\<close> is \<open>[t, t + 1]\<close>, a report \<^verbatim>\<open>"tenth"\<close> from time \<open>0\<close> to
  \<open>1\<close> whose step is the float nearest to one tenth, \<open>13421773 / 2\<^sup>2\<^sup>7\<close>, and a file
  system without a cache file.
\<close>

definition example_morphology :: Morphology where
  "example_morphology =
     \<lparr>morph_points = section_samples example_section,
      morph_soma = \<lparr>soma_centroid = Vec3f 0 0 0, soma_meanRadius = 1, soma_children = []\<rparr>,
      morph_sections = [example_section]\<rparr>"

definition example_reader :: MorphologyReader where
  "example_reader =
     \<lparr>readMorphology = (\<lambda>uri transformation. Inr example_morphology),
      generateMesh = (\<lambda>metaballs gridSize threshold material meshes. Inr meshes),
      identity_Matrix4f = 0\<rparr>"

definition example_circuit :: Circuit where
  "example_circuit =
     \<lparr>getGIDs = (\<lambda>target. if target = [] then Inr [1, 2, 3]
                         else if target = ''two'' then Inr [1, 2]
                         else if target = ''none'' then Inr []
                         else Inl (RuntimeError ''unknown target'')),
      getTransforms = map (\<lambda>gid. 0),
      getMorphologyURIs = map (\<lambda>gid. ''morphology'')\<rparr>"

definition example_report :: CompartmentReport where
  "example_report =
     \<lparr>getStartTime = 0, getEndTime = 10, getTimestep = 2, getFrameSize = 2,
      report_GIDs = [1, 2],
      getCompartmentCounts = [[3], [3]],
      getOffsets = [[7], [10]],
      loadFrame = (\<lambda>t. case t of Float x \<Rightarrow> [x, x + 1] | _ \<Rightarrow> [])\<rparr>"

definition tenth_report :: CompartmentReport where
  "tenth_report =
     example_report\<lparr>getEndTime := 1, getTimestep := 13421773 / 134217728\<rparr>"

definition example_library :: Library where
  "example_library =
     \<lparr>morphologyReader = example_reader,
      openBlueConfig = (\<lambda>path. if path = ''BlueConfig'' then Inr 0
                               else Inl (RuntimeError ''Cannot open BlueConfig file'')),
      openCircuit = (\<lambda>bc. Inr example_circuit),
      openCompartmentReport =
        (\<lambda>bc report gids. Inr (if report = ''tenth'' then tenth_report else example_report)),
      neuronMatrix = (\<lambda>bc gids scheme. None),
      lexical_cast = (\<lambda>s. Inr 0),
      importMeshFromFile = (\<lambda>file quality transformation material meshes. Inr meshes),
      stem = (\<lambda>uri. uri)\<rparr>"

definition example_fs :: FileSystem where
  "example_fs = \<lparr>attachSimulationToCacheFile = (\<lambda>file. False), can_create = (\<lambda>file. True)\<rparr>"

text \<open>
  A reader for which every morphology fails with a \<^verbatim>\<open>std::runtime_error\<close>, the library
  with that reader, an empty scene, and an execution of a parallel region on two threads
  that take turns.
\<close>

definition failing_reader :: MorphologyReader where
  "failing_reader =
     example_reader
       \<lparr>readMorphology := (\<lambda>uri transformation. Inl (RuntimeError ''Cannot read morphology''))\<rparr>"

definition failing_library :: Library where
  "failing_library = example_library\<lparr>morphologyReader := failing_reader\<rparr>"

definition example_scene :: Scene where
  "example_scene = \<lparr>scene_geometry = empty_geometry, triangleMeshes = []\<rparr>"

definition example_omp :: omp where
  "example_omp = \<lparr>omp_num_threads = 2, omp_owner = (\<lambda>i. i), omp_schedule = [0, 1, 1, 0]\<rparr>"

text \<open>
  A circuit whose second cell lies ten units further along the \<open>z\<close> axis than the first,
  and an execution on two threads in which each thread imports its cell, appends its
  containers and reads the world bounds before either of them writes the bounds back.
\<close>

definition far_morphology :: Morphology where
  "far_morphology =
     \<lparr>morph_points = [Vec4f 0 0 10 2, Vec4f 0 0 11 2, Vec4f 0 0 12 4],
      morph_soma = \<lparr>soma_centroid = Vec3f 0 0 10, soma_meanRadius = 1, soma_children = []\<rparr>,
      morph_sections =
        [example_section\<lparr>section_samples := [Vec4f 0 0 10 2, Vec4f 0 0 11 2, Vec4f 0 0 12 4]\<rparr>]\<rparr>"

definition far_library :: Library where
  "far_library =
     example_library
       \<lparr>morphologyReader :=
          example_reader
            \<lparr>readMorphology :=
               (\<lambda>uri transformation.
                  Inr (if uri = ''far'' then far_morphology else example_morphology))\<rparr>,
        openCircuit :=
          (\<lambda>bc. Inr (example_circuit
                        \<lparr>getMorphologyURIs :=
                           map (\<lambda>gid. if gid = 2 then ''far'' else ''morphology'')\<rparr>))\<rparr>"

definition racing_omp :: omp where
  "racing_omp =
     \<lparr>omp_num_threads = 2, omp_owner = (\<lambda>i. i),
      omp_schedule =
        [0, 0, 0, 0, 0, 0, 0, 0, 0, 0, 1, 1, 1, 1, 1, 1, 1, 1, 1, 1, 0, 1]\<rparr>"

definition sequential_omp :: omp where
  "sequential_omp = \<lparr>omp_num_threads = 2, omp_owner = (\<lambda>i. i), omp_schedule = []\<rparr>"

definition early_omp :: omp where
  "early_omp = \<lparr>omp_num_threads = 2, omp_owner = (\<lambda>i. i), omp_schedule = [0, 0, 1, 1]\<rparr>"

section \<open>Properties\<close>

subsection \<open>Keyboard shortcuts\<close>

lemma alreadyRegisteredMessage_97:
  "alreadyRegisteredMessage 97 = ''a is already registered''"
  by code_simp

text \<open>
  C8. Registering a key that is already registered writes one error line and leaves the
  shortcut map as it was, so the earlier description and functor stay; registering a new
  key adds exactly that binding, changes the binding of no other key and writes no error.
\<close>

theorem registerKeyboardShortcut_spec:
  "(registeredShortcuts h key \<noteq> None \<longrightarrow>
      registeredShortcuts (registerKeyboardShortcut key descr f h) = registeredShortcuts h \<and>
      errorLog (registerKeyboardShortcut key descr f h) =
        errorLog h @ [alreadyRegisteredMessage key]) \<and>
   (registeredShortcuts h key = None \<longrightarrow>
      registeredShortcuts (registerKeyboardShortcut key descr f h) key =
        Some \<lparr>description = descr, functor_fn = f\<rparr> \<and>
      (\<forall>k. k \<noteq> key \<longrightarrow>
         registeredShortcuts (registerKeyboardShortcut key descr f h) k =
           registeredShortcuts h k) \<and>
      dom (registeredShortcuts (registerKeyboardShortcut key descr f h)) =
        insert key (dom (registeredShortcuts h)) \<and>
      errorLog (registerKeyboardShortcut key descr f h) = errorLog h)"
  by (auto simp: registerKeyboardShortcut_def)

theorem registerKeyboardShortcut_spec_witness:
  "registeredShortcuts
     (registerKeyboardShortcut 97 ''new'' (2::nat)
        \<lparr>registeredShortcuts = [97 \<mapsto> \<lparr>description = ''old'', functor_fn = 1\<rparr>],
         errorLog = [], infoLog = []\<rparr>) 97 =
     Some \<lparr>description = ''old'', functor_fn = 1\<rparr> \<and>
   errorLog
     (registerKeyboardShortcut 97 ''new'' (2::nat)
        \<lparr>registeredShortcuts = [97 \<mapsto> \<lparr>description = ''old'', functor_fn = 1\<rparr>],
         errorLog = [], infoLog = []\<rparr>) = [''a is already registered''] \<and>
   registeredShortcuts
     (registerKeyboardShortcut 98 ''new'' (2::nat)
        \<lparr>registeredShortcuts = [97 \<mapsto> \<lparr>description = ''old'', functor_fn = 1\<rparr>],
         errorLog = [], infoLog = []\<rparr>) 98 =
     Some \<lparr>description = ''new'', functor_fn = 2\<rparr> \<and>
   registeredShortcuts
     (registerKeyboardShortcut 98 ''new'' (2::nat)
        \<lparr>registeredShortcuts = [97 \<mapsto> \<lparr>description = ''old'', functor_fn = 1\<rparr>],
         errorLog = [], infoLog = []\<rparr>) 97 =
     Some \<lparr>description = ''old'', functor_fn = 1\<rparr>"
  using registerKeyboardShortcut_spec
          [of "\<lparr>registeredShortcuts = [97 \<mapsto> \<lparr>description = ''old'', functor_fn = 1::nat\<rparr>],
                errorLog = [], infoLog = []\<rparr>" 97 "''new''" 2]
        registerKeyboardShortcut_spec
          [of "\<lparr>registeredShortcuts = [97 \<mapsto> \<lparr>description = ''old'', functor_fn = 1::nat\<rparr>],
                errorLog = [], infoLog = []\<rparr>" 98 "''new''" 2]
        alreadyRegisteredMessage_97
  by simp

subsection \<open>The number of skipped cells\<close>

lemma small_product_div_100:
  fixes n d :: "64 word"
  assumes "unat n * unat d < 100"
  shows "n * d div 100 = 0"
proof -
  have "unat (n * d) = unat n * unat d"
    using assms by (simp add: unat_mult_lem [THEN iffD1])
  then have "unat (n * d div 100) = 0"
    using assms by (simp add: unat_div)
  then show ?thesis by (simp add: unat_eq_0)
qed

text \<open>
  C10. The computation of the number of skipped cells divides by zero exactly when
  \<^verbatim>\<open>uris.size() * circuitDensity / 100\<close> is \<open>0\<close> in integer arithmetic, and yields a
  value exactly when that quotient is positive. A density of \<open>0\<close> always divides by zero,
  and so does every circuit whose cell count times the density is below \<open>100\<close>.
\<close>

theorem nbSkippedCells_division_by_zero:
  "(nbSkippedCells n d = Inl DivisionByZero) = (n * d div 100 = 0) \<and>
   (\<exists>v. nbSkippedCells n d = Inr v) = (0 < n * d div 100) \<and>
   nbSkippedCells n 0 = Inl DivisionByZero \<and>
   (unat n * unat d < 100 \<longrightarrow> nbSkippedCells n d = Inl DivisionByZero)"
  by (auto simp: nbSkippedCells_def Let_def word_neq_0_conv small_product_div_100)

theorem nbSkippedCells_division_by_zero_witness:
  "unat (3 :: 64 word) * unat (10 :: 64 word) < 100 \<and>
   nbSkippedCells 3 10 = Inl DivisionByZero \<and>
   nbSkippedCells 50 10 = Inr 10"
  using nbSkippedCells_division_by_zero [of 3 10]
  by (simp add: nbSkippedCells_def)

subsection \<open>The choice between refraction and reflection\<close>



subsection \<open>The bound on the number of bounces\<close>

lemma shadeRay_loop_Some:
  "shadeRay_loop h self s = Some s' \<Longrightarrow>
     \<exists>k. shadeRay_iterations k h self s = Some s' \<and>
         unat (s_depth s') = unat (s_depth s) + k \<and>
         (unat (s_depth s) \<le> unat (NB_MAX_REBOUNDS h) \<longrightarrow>
            unat (s_depth s') \<le> unat (NB_MAX_REBOUNDS h)) \<and>
         \<not> shadeRay_continues h s' \<and>
         (\<forall>j<k. \<exists>sj. shadeRay_iterations j h self s = Some sj \<and> shadeRay_continues h sj)"
proof (induction h self s rule: shadeRay_loop.induct)
  case (1 h self s)
  show ?case
  proof (cases "shadeRay_continues h s")
    case False
    with "1.prems" have "s' = s" by (subst (asm) shadeRay_loop.simps) simp
    with False show ?thesis by (intro exI [of _ 0]) simp
  next
    case True
    with "1.prems" obtain s1 where it: "shadeRay_iteration h self s = Some s1"
      and rest: "shadeRay_loop h self s1 = Some s'"
      by (subst (asm) shadeRay_loop.simps) (auto split: option.splits)
    from "1.IH" [OF True it rest] obtain k where
      k: "shadeRay_iterations k h self s1 = Some s'"
         "unat (s_depth s') = unat (s_depth s1) + k"
         "unat (s_depth s1) \<le> unat (NB_MAX_REBOUNDS h) \<longrightarrow>
            unat (s_depth s') \<le> unat (NB_MAX_REBOUNDS h)"
         "\<not> shadeRay_continues h s'"
         "\<forall>j<k. \<exists>sj. shadeRay_iterations j h self s1 = Some sj \<and> shadeRay_continues h sj"
      by blast
    from True have lt: "s_depth s < NB_MAX_REBOUNDS h" by (simp add: shadeRay_continues_def)
    then have "unat (s_depth s + 1) = unat (s_depth s) + 1" by (rule unat_succ_below)
    with shadeRay_iteration_depth [OF it] have d: "unat (s_depth s1) = unat (s_depth s) + 1"
      by simp
    from lt d have b: "unat (s_depth s1) \<le> unat (NB_MAX_REBOUNDS h)"
      by (simp add: word_less_nat_alt)
    have "\<forall>j<Suc k. \<exists>sj. shadeRay_iterations j h self s = Some sj \<and> shadeRay_continues h sj"
    proof (intro allI impI)
      fix j assume "j < Suc k"
      show "\<exists>sj. shadeRay_iterations j h self s = Some sj \<and> shadeRay_continues h sj"
      proof (cases j)
        case 0
        with True show ?thesis by simp
      next
        case (Suc i)
        with \<open>j < Suc k\<close> k(5) it show ?thesis by simp
      qed
    qed
    with k b d it show ?thesis by (intro exI [of _ "Suc k"]) simp
  qed
qed

lemma shadeRay_loop_None:
  "shadeRay_loop h self s = None \<Longrightarrow>
     \<exists>k sk. shadeRay_iterations k h self s = Some sk \<and> shadeRay_continues h sk \<and>
            unat (s_depth sk) = unat (s_depth s) + k \<and>
            shadeRay_iteration h self sk = None"
proof (induction h self s rule: shadeRay_loop.induct)
  case (1 h self s)
  from "1.prems" have c: "shadeRay_continues h s"
    by (subst (asm) shadeRay_loop.simps) (auto split: if_splits)
  show ?case
  proof (cases "shadeRay_iteration h self s")
    case None
    with c show ?thesis by (intro exI [of _ 0] exI [of _ s]) simp
  next
    case (Some s1)
    with c "1.prems" have "shadeRay_loop h self s1 = None"
      by (subst (asm) shadeRay_loop.simps) simp
    from "1.IH" [OF c Some this] obtain k sk where
      k: "shadeRay_iterations k h self s1 = Some sk" "shadeRay_continues h sk"
         "unat (s_depth sk) = unat (s_depth s1) + k" "shadeRay_iteration h self sk = None"
      by blast
    from c have "s_depth s < NB_MAX_REBOUNDS h" by (simp add: shadeRay_continues_def)
    then have "unat (s_depth s + 1) = unat (s_depth s) + 1" by (rule unat_succ_below)
    with shadeRay_iteration_depth [OF Some] have "unat (s_depth s1) = unat (s_depth s) + 1"
      by simp
    with k Some show ?thesis by (intro exI [of _ "Suc k"] exI [of _ sk]) simp
  qed
qed

lemma shadeRay_iteration_returns:
  "volumes self = [] \<Longrightarrow> shadows self \<le> 0 \<Longrightarrow>
     \<exists>s'. shadeRay_iteration h self s = Some s'"
  by (simp add: shadeRay_iteration_def shadeRay_shade_def Let_def
        processVolumeContribution_def split: prod.splits)

text \<open>The marching loop of a volume never returns from a stuck state.\<close>

lemma marchBody_stuck:
  "march_stuck self volume ray t1 s \<Longrightarrow> marchBody h self volume ray sample s = Some s"
  by (simp add: march_stuck_def marchBody_def Let_def)

lemma marchLoop_not_stuck:
  assumes "marchLoop h self volume ray sample t1 s = Some s'"
  shows "\<not> march_stuck self volume ray t1 s"
proof (rule marchLoop.raw_induct
    [where P = "\<lambda>h self volume ray sample t1 s s'. \<not> march_stuck self volume ray t1 s",
     OF _ assms])
  fix f h self volume ray sample t1 s s'
  assume ih: "\<And>h self volume ray sample t1 s s'.
      f h self volume ray sample t1 s = Some s' \<Longrightarrow> \<not> march_stuck self volume ray t1 s"
    and st: "(if m_t s < t1 \<and> w4 (m_pathColor s) < 1
        then case marchBody h self volume ray sample s of
               None \<Rightarrow> None
             | Some s' \<Rightarrow> f h self volume ray sample t1 s'
        else Some s) = Some s'"
  show "\<not> march_stuck self volume ray t1 s"
  proof
    assume a: "march_stuck self volume ray t1 s"
    with st marchBody_stuck [OF a, of h sample]
    have "f h self volume ray sample t1 s = Some s'"
      by (simp add: march_stuck_def)
    from ih [OF this] a show False by simp
  qed
qed

lemma marchLoop_stuck:
  "march_stuck self volume ray t1 s \<Longrightarrow> marchLoop h self volume ray sample t1 s = None"
  using marchLoop_not_stuck by (cases "marchLoop h self volume ray sample t1 s") auto

text \<open>The scene with the volume of sampling step \<open>0\<close>: the first bounce does not return.\<close>

lemma still_getVolumeContribution:
  "getVolumeContribution example_host still_volume still_renderer
     (example_ray\<lparr>ray_geomID := -1\<rparr>) smp = None"
proof -
  have "march_stuck still_renderer still_volume (example_ray\<lparr>ray_geomID := -1\<rparr>)
          (marchExit example_host still_volume (example_ray\<lparr>ray_geomID := -1\<rparr>))
          (marchStart example_host still_renderer still_volume
             (example_ray\<lparr>ray_geomID := -1\<rparr>) smp)"
    by (simp add: march_stuck_def marchExit_def marchStart_def example_host_def
          still_volume_def still_renderer_def example_renderer_def example_ray_def
          make_vec4f_def)
  then show ?thesis
    by (simp add: getVolumeContribution_def marchLoop_stuck)
qed

lemma still_iteration:
  "shadeRay_iteration example_host still_renderer (shadeRay_start (example_sample z)) = None"
proof -
  have "traceRay example_host (s_ray (shadeRay_start (example_sample z))) =
          example_ray\<lparr>ray_geomID := -1\<rparr>"
    by (simp add: example_host_def shadeRay_start_def example_sample_def)
  moreover have "volumes still_renderer = [still_volume]"
    by (simp add: still_renderer_def)
  ultimately have
    "shadeRay_shade example_host still_renderer (shadeRay_start (example_sample z)) = None"
    by (simp add: shadeRay_shade_def Let_def processVolumeContribution_def
          still_getVolumeContribution)
  then show ?thesis by (simp add: shadeRay_iteration_def)
qed

lemma still_final:
  "shadeRay_final example_host still_renderer (example_sample z) = None"
proof -
  have "shadeRay_continues example_host (shadeRay_start (example_sample z))"
    by (simp add: shadeRay_continues_def shadeRay_start_def example_host_def)
  then show ?thesis
    by (simp add: shadeRay_final_def still_iteration shadeRay_loop.simps)
qed

text \<open>The scene of mirrors: every bounce reflects and halves the path opacity.\<close>

lemma mirror_iteration:
  "\<exists>s'. shadeRay_iteration mirror_host example_renderer s = Some s' \<and>
        s_moreRebounds s' = s_moreRebounds s \<and>
        s_pathOpacity s' = s_pathOpacity s / 2"
  by (simp add: shadeRay_iteration_def shadeRay_shade_def shadeRay_rebound_def Let_def
        doRefraction_def doReflection_def
        processFinalContribution_def setGeometryShadingAttributes_def
        initializeShadingAttributes_def mirror_def mirror_host_def example_host_def
        example_attributes_def example_dg_def make_vec4f_def example_renderer_def
        computeIndirectShading_def processLightShading_def processVolumeContribution_def
        split: prod.splits)

lemma mirror_final:
  "\<exists>s'. shadeRay_final mirror_host example_renderer smp = Some s' \<and>
        unat (s_depth s') = 3 \<and> s_moreRebounds s' \<and> s_pathOpacity s' = 1 / 8"
proof -
  let ?it = "shadeRay_iteration mirror_host example_renderer"
  let ?s0 = "shadeRay_start smp"
  have n: "NB_MAX_REBOUNDS mirror_host = 3"
    by (simp add: mirror_host_def example_host_def)
  obtain s1 where s1: "?it ?s0 = Some s1" "s_moreRebounds s1" "s_pathOpacity s1 = 1 / 2"
    using mirror_iteration [of ?s0] by (auto simp: shadeRay_start_def)
  obtain s2 where s2: "?it s1 = Some s2" "s_moreRebounds s2" "s_pathOpacity s2 = 1 / 4"
    using mirror_iteration [of s1] s1 by auto
  obtain s3 where s3: "?it s2 = Some s3" "s_moreRebounds s3" "s_pathOpacity s3 = 1 / 8"
    using mirror_iteration [of s2] s2 by auto
  have d1: "s_depth s1 = 1" using shadeRay_iteration_depth [OF s1(1)]
    by (simp add: shadeRay_start_def)
  have d2: "s_depth s2 = 2" using shadeRay_iteration_depth [OF s2(1)] d1 by simp
  have d3: "s_depth s3 = 3" using shadeRay_iteration_depth [OF s3(1)] d2 by simp
  have c0: "shadeRay_continues mirror_host ?s0"
    by (simp add: shadeRay_continues_def n shadeRay_start_def)
  have c1: "shadeRay_continues mirror_host s1"
    using s1 d1 by (simp add: shadeRay_continues_def n)
  have c2: "shadeRay_continues mirror_host s2"
    using s2 d2 by (simp add: shadeRay_continues_def n)
  have c3: "\<not> shadeRay_continues mirror_host s3"
    using d3 by (simp add: shadeRay_continues_def n)
  have "shadeRay_loop mirror_host example_renderer s3 = Some s3"
    using c3 by (subst shadeRay_loop.simps) simp
  then have "shadeRay_loop mirror_host example_renderer s2 = Some s3"
    using c2 s3(1) by (subst shadeRay_loop.simps) simp
  then have "shadeRay_loop mirror_host example_renderer s1 = Some s3"
    using c1 s2(1) by (subst shadeRay_loop.simps) simp
  then have "shadeRay_loop mirror_host example_renderer ?s0 = Some s3"
    using c0 s1(1) by (subst shadeRay_loop.simps) simp
  with s3 d3 show ?thesis by (simp add: shadeRay_final_def)
qed

lemma shadeRay_final_Some:
  assumes "shadeRay_final h self sample = Some s'"
  shows "\<exists>k \<le> unat (NB_MAX_REBOUNDS h).
          shadeRay_iterations k h self (shadeRay_start sample) = Some s' \<and>
          unat (s_depth s') = k \<and>
          \<not> (s_moreRebounds s' \<and> s_depth s' < NB_MAX_REBOUNDS h \<and> s_pathOpacity s' > 0) \<and>
          (\<forall>j<k. \<exists>sj. shadeRay_iterations j h self (shadeRay_start sample) = Some sj \<and>
                      s_moreRebounds sj \<and> s_depth sj < NB_MAX_REBOUNDS h \<and>
                      s_pathOpacity sj > 0)"
proof -
  have start: "unat (s_depth (shadeRay_start sample)) = 0"
    by (simp add: shadeRay_start_def)
  from assms have "shadeRay_loop h self (shadeRay_start sample) = Some s'"
    by (simp only: shadeRay_final_def)
  from shadeRay_loop_Some [OF this] obtain k where
    k: "shadeRay_iterations k h self (shadeRay_start sample) = Some s'"
       "unat (s_depth s') = unat (s_depth (shadeRay_start sample)) + k"
       "unat (s_depth (shadeRay_start sample)) \<le> unat (NB_MAX_REBOUNDS h) \<longrightarrow>
          unat (s_depth s') \<le> unat (NB_MAX_REBOUNDS h)"
       "\<not> shadeRay_continues h s'"
       "\<forall>j<k. \<exists>sj. shadeRay_iterations j h self (shadeRay_start sample) = Some sj \<and>
                  shadeRay_continues h sj"
    by blast
  from k(2,3) start have b: "k \<le> unat (NB_MAX_REBOUNDS h)" "unat (s_depth s') = k"
    by simp_all
  from k(4) have e:
    "\<not> (s_moreRebounds s' \<and> s_depth s' < NB_MAX_REBOUNDS h \<and> s_pathOpacity s' > 0)"
    by (simp add: shadeRay_continues_def)
  from k(5) have f:
    "\<forall>j<k. \<exists>sj. shadeRay_iterations j h self (shadeRay_start sample) = Some sj \<and>
                s_moreRebounds sj \<and> s_depth sj < NB_MAX_REBOUNDS h \<and> s_pathOpacity sj > 0"
    by (simp add: shadeRay_continues_def)
  from b k(1) e f show ?thesis by (intro exI [of _ k] conjI)
qed

lemma shadeRay_None:
  assumes "AdvancedSimulationRenderer_shadeRay h self sample = None"
  shows "\<exists>k < unat (NB_MAX_REBOUNDS h). \<exists>sk.
          shadeRay_iterations k h self (shadeRay_start sample) = Some sk \<and>
          shadeRay_iteration h self sk = None"
proof -
  have start: "unat (s_depth (shadeRay_start sample)) = 0"
    by (simp add: shadeRay_start_def)
  from assms have "shadeRay_final h self sample = None"
    by (simp add: AdvancedSimulationRenderer_shadeRay_def split: option.splits)
  then have "shadeRay_loop h self (shadeRay_start sample) = None"
    by (simp only: shadeRay_final_def)
  from shadeRay_loop_None [OF this] obtain k sk where
    k: "shadeRay_iterations k h self (shadeRay_start sample) = Some sk"
       "shadeRay_continues h sk"
       "unat (s_depth sk) = unat (s_depth (shadeRay_start sample)) + k"
       "shadeRay_iteration h self sk = None"
    by blast
  from k(2) have "unat (s_depth sk) < unat (NB_MAX_REBOUNDS h)"
    by (simp add: shadeRay_continues_def word_less_nat_alt)
  with k(3) start have "k < unat (NB_MAX_REBOUNDS h)" by simp
  with k(1,4) show ?thesis by (intro exI [of _ k] exI [of _ sk] conjI)
qed

text \<open>
  C1, as stated, fails: the scene with one volume of sampling step \<open>0\<close> has a screen
  sample on which the kernel does not return.
\<close>

theorem shadeRay_still_volume_diverges:
  "AdvancedSimulationRenderer_shadeRay example_host still_renderer (example_sample 0) = None"
  by (simp add: AdvancedSimulationRenderer_shadeRay_def still_final)

text \<open>
  C1, amended. When the kernel returns, the bouncing loop has run some \<open>k\<close> iterations with
  \<open>k\<close> at most \<^verbatim>\<open>NB_MAX_REBOUNDS\<close>, \<open>k\<close> is the final depth, the loop condition
  (more rebounds, depth below the maximum, path opacity above zero) fails after the last
  iteration and held before each of them. The kernel fails to return only if the shading
  of one of the first \<^verbatim>\<open>NB_MAX_REBOUNDS\<close> bounces does not return; so it returns whenever
  the shading of every bounce does.
\<close>

theorem shadeRay_bounded_rebounds:
  "(shadeRay_final h self sample = Some s' \<longrightarrow>
      (\<exists>k \<le> unat (NB_MAX_REBOUNDS h).
          shadeRay_iterations k h self (shadeRay_start sample) = Some s' \<and>
          unat (s_depth s') = k \<and>
          \<not> (s_moreRebounds s' \<and> s_depth s' < NB_MAX_REBOUNDS h \<and> s_pathOpacity s' > 0) \<and>
          (\<forall>j<k. \<exists>sj. shadeRay_iterations j h self (shadeRay_start sample) = Some sj \<and>
                      s_moreRebounds sj \<and> s_depth sj < NB_MAX_REBOUNDS h \<and>
                      s_pathOpacity sj > 0))) \<and>
   (AdvancedSimulationRenderer_shadeRay h self sample = None \<longrightarrow>
      (\<exists>k < unat (NB_MAX_REBOUNDS h). \<exists>sk.
          shadeRay_iterations k h self (shadeRay_start sample) = Some sk \<and>
          shadeRay_iteration h self sk = None)) \<and>
   ((\<forall>s. shadeRay_iteration h self s \<noteq> None) \<longrightarrow>
      AdvancedSimulationRenderer_shadeRay h self sample \<noteq> None)"
proof (intro conjI)
  show "shadeRay_final h self sample = Some s' \<longrightarrow>
      (\<exists>k \<le> unat (NB_MAX_REBOUNDS h).
          shadeRay_iterations k h self (shadeRay_start sample) = Some s' \<and>
          unat (s_depth s') = k \<and>
          \<not> (s_moreRebounds s' \<and> s_depth s' < NB_MAX_REBOUNDS h \<and> s_pathOpacity s' > 0) \<and>
          (\<forall>j<k. \<exists>sj. shadeRay_iterations j h self (shadeRay_start sample) = Some sj \<and>
                      s_moreRebounds sj \<and> s_depth sj < NB_MAX_REBOUNDS h \<and>
                      s_pathOpacity sj > 0))"
    using shadeRay_final_Some [of h self sample s'] by (rule impI)
  show "AdvancedSimulationRenderer_shadeRay h self sample = None \<longrightarrow>
      (\<exists>k < unat (NB_MAX_REBOUNDS h). \<exists>sk.
          shadeRay_iterations k h self (shadeRay_start sample) = Some sk \<and>
          shadeRay_iteration h self sk = None)"
    using shadeRay_None [of h self sample] by (rule impI)
  show "(\<forall>s. shadeRay_iteration h self s \<noteq> None) \<longrightarrow>
      AdvancedSimulationRenderer_shadeRay h self sample \<noteq> None"
  proof (intro impI notI)
    assume all: "\<forall>s. shadeRay_iteration h self s \<noteq> None"
      and none: "AdvancedSimulationRenderer_shadeRay h self sample = None"
    from shadeRay_None [OF none] obtain sk where "shadeRay_iteration h self sk = None"
      by blast
    moreover from all have "shadeRay_iteration h self sk \<noteq> None" by (rule spec)
    ultimately show False by contradiction
  qed
qed

theorem shadeRay_bounded_rebounds_witness:
  "(\<exists>s'. shadeRay_final mirror_host example_renderer (example_sample 0) = Some s' \<and>
         unat (s_depth s') = 3 \<and> unat (NB_MAX_REBOUNDS mirror_host) = 3 \<and>
         s_moreRebounds s' \<and> s_pathOpacity s' = 1 / 8 \<and>
         shadeRay_iterations 3 mirror_host example_renderer
           (shadeRay_start (example_sample 0)) = Some s') \<and>
   AdvancedSimulationRenderer_shadeRay example_host still_renderer (example_sample 0) = None \<and>
   (\<exists>k < unat (NB_MAX_REBOUNDS example_host). \<exists>sk.
       shadeRay_iterations k example_host still_renderer
         (shadeRay_start (example_sample 0)) = Some sk \<and>
       shadeRay_iteration example_host still_renderer sk = None) \<and>
   AdvancedSimulationRenderer_shadeRay mirror_host example_renderer (example_sample 0) \<noteq> None"
proof -
  obtain s' where s': "shadeRay_final mirror_host example_renderer (example_sample 0) = Some s'"
      "unat (s_depth s') = 3" "s_moreRebounds s'" "s_pathOpacity s' = 1 / 8"
    using mirror_final [of "example_sample 0"] by blast
  have n: "unat (NB_MAX_REBOUNDS mirror_host) = 3"
    by (simp add: mirror_host_def example_host_def)
  from shadeRay_bounded_rebounds [of mirror_host example_renderer "example_sample 0" s'] s'
  have i: "shadeRay_iterations 3 mirror_host example_renderer
             (shadeRay_start (example_sample 0)) = Some s'"
    by auto
  have d: "AdvancedSimulationRenderer_shadeRay example_host still_renderer (example_sample 0)
             = None"
    by (simp add: AdvancedSimulationRenderer_shadeRay_def still_final)
  from shadeRay_bounded_rebounds [of example_host still_renderer "example_sample 0"] d
  have e: "\<exists>k < unat (NB_MAX_REBOUNDS example_host). \<exists>sk.
       shadeRay_iterations k example_host still_renderer
         (shadeRay_start (example_sample 0)) = Some sk \<and>
       shadeRay_iteration example_host still_renderer sk = None"
    by blast
  have "\<forall>s. shadeRay_iteration mirror_host example_renderer s \<noteq> None"
    using shadeRay_iteration_returns [of example_renderer mirror_host]
    by (auto simp: example_renderer_def)
  with shadeRay_bounded_rebounds [of mirror_host example_renderer "example_sample 0"]
  have f: "AdvancedSimulationRenderer_shadeRay mirror_host example_renderer (example_sample 0)
             \<noteq> None"
    by blast
  from s' n i d e f show ?thesis by blast
qed

subsection \<open>Volume ray marching\<close>







subsection \<open>Shadow accumulation\<close>









subsection \<open>The simulation offset of the primitives of a section\<close>

lemma appended_refl: "appended P m m"
  by (simp add: appended_def)

lemma appended_trans: "appended P a b \<Longrightarrow> appended P b c \<Longrightarrow> appended P a c"
  unfolding appended_def
proof
  fix k
  assume ab: "\<forall>k. \<exists>new. at_key b k = at_key a k @ new \<and> list_all P new"
    and bc: "\<forall>k. \<exists>new. at_key c k = at_key b k @ new \<and> list_all P new"
  from ab obtain n1 where n1: "at_key b k = at_key a k @ n1" "list_all P n1" by blast
  from bc obtain n2 where n2: "at_key c k = at_key b k @ n2" "list_all P n2" by blast
  from n1 n2 have "at_key c k = at_key a k @ (n1 @ n2) \<and> list_all P (n1 @ n2)" by simp
  then show "\<exists>new. at_key c k = at_key a k @ new \<and> list_all P new" by blast
qed

lemma appended_push_back: "P x \<Longrightarrow> appended P m (push_back m k x)"
  by (simp add: appended_def push_back_def at_key_def)

lemma geometry_appended_refl: "geometry_appended P g g"
  by (simp add: geometry_appended_def appended_refl)

lemma geometry_appended_trans:
  "geometry_appended P a b \<Longrightarrow> geometry_appended P b c \<Longrightarrow> geometry_appended P a c"
  by (auto simp: geometry_appended_def intro: appended_trans)

lemma sampleBody_offset:
  assumes "sampleBody ctx s = Inr s'"
    and "ctx_simulationInformation ctx = Some info"
    and "ctx_segmentStep ctx = 0"
  shows "\<exists>off. vec_at (compartmentOffsets info) (ctx_sectionId ctx) = Inr off \<and>
           sl_offset s' = real (unat off) \<and>
           geometry_appended (\<lambda>x. x = real (unat off)) (sl_geometry s) (sl_geometry s')"
  using assms
  unfolding sampleBody_def Let_def
  by (auto split: sum.splits prod.splits if_splits
        simp: geometry_appended_def appended_refl appended_push_back)

lemma sampleLoop_offset:
  assumes "sampleLoop ctx s = Some res"
  shows "\<forall>s'. res = Inr s' \<longrightarrow> section_offset_only ctx s s'"
proof (rule sampleLoop.raw_induct
    [where P = "\<lambda>ctx s res. \<forall>s'. res = Inr s' \<longrightarrow> section_offset_only ctx s s'",
     OF _ assms])
  fix f ctx s res
  assume ih: "\<And>ctx s res. f ctx s = Some res \<Longrightarrow>
      \<forall>s'. res = Inr s' \<longrightarrow> section_offset_only ctx s s'"
    and st: "(if \<not> sl_done s \<and> sl_i s < length (section_samples (ctx_section ctx)) + ctx_step ctx
        then case sampleBody ctx s of
               Inl e \<Rightarrow> Some (Inl e)
             | Inr s' \<Rightarrow> f ctx (s'\<lparr>sl_i := sl_i s' + ctx_step ctx\<rparr>)
        else Some (Inr s)) = Some res"
  show "\<forall>s'. res = Inr s' \<longrightarrow> section_offset_only ctx s s'"
  proof (intro allI impI)
    fix s' assume r: "res = Inr s'"
    show "section_offset_only ctx s s'"
    proof (cases "\<not> sl_done s \<and> sl_i s < length (section_samples (ctx_section ctx)) + ctx_step ctx")
      case False
      with st r have "s' = s" by auto
      then show ?thesis by (simp add: section_offset_only_def geometry_appended_refl)
    next
      case True
      with st r obtain s1 where b: "sampleBody ctx s = Inr s1"
        and rest: "f ctx (s1\<lparr>sl_i := sl_i s1 + ctx_step ctx\<rparr>) = Some (Inr s')"
        by (auto split: sum.splits)
      from ih [OF rest] have
        tl: "section_offset_only ctx (s1\<lparr>sl_i := sl_i s1 + ctx_step ctx\<rparr>) s'"
        by simp
      show ?thesis
        unfolding section_offset_only_def
      proof (intro allI impI)
        fix info
        assume a: "ctx_simulationInformation ctx = Some info \<and> ctx_segmentStep ctx = 0"
        from sampleBody_offset [OF b] a obtain off where
          off: "vec_at (compartmentOffsets info) (ctx_sectionId ctx) = Inr off"
               "geometry_appended (\<lambda>x. x = real (unat off)) (sl_geometry s) (sl_geometry s1)"
          by blast
        from off have hd: "geometry_appended
            (\<lambda>x. \<exists>off. vec_at (compartmentOffsets info) (ctx_sectionId ctx) = Inr off \<and>
                       x = real (unat off))
            (sl_geometry s) (sl_geometry s1)"
          by (simp add: geometry_appended_def)
        from tl a have "geometry_appended
            (\<lambda>x. \<exists>off. vec_at (compartmentOffsets info) (ctx_sectionId ctx) = Inr off \<and>
                       x = real (unat off))
            (sl_geometry s1) (sl_geometry s')"
          by (simp add: section_offset_only_def)
        with hd show "geometry_appended
            (\<lambda>x. \<exists>off. vec_at (compartmentOffsets info) (ctx_sectionId ctx) = Inr off \<and>
                       x = real (unat off))
            (sl_geometry s) (sl_geometry s')"
          by (rule geometry_appended_trans)
      qed
    qed
  qed
qed

lemma segmentStep_nonempty:
  "samples \<noteq> [] \<Longrightarrow> segmentStep info samples sectionId = Inr 0"
  by (simp add: segmentStep_def split: option.splits)

text \<open>
  C9. For a section that has samples, the segment step is \<open>0\<close> whatever the compartment
  counts are, and a section without samples is skipped. When simulation information is
  provided and a section is processed, every sphere, cylinder and cone that is appended
  for it has the simulation offset \<^verbatim>\<open>compartmentOffsets[sectionId]\<close>, the same for every
  sample index.
\<close>

theorem segmentStep_stays_zero:
  "(samples \<noteq> [] \<longrightarrow> segmentStep (Some info) samples sectionId = Inr 0) \<and>
   (section_samples sec = [] \<longrightarrow>
      processSection c p (Some info) simulationOffset morphologyIndex forcedMaterial
        translation sec st = Some (Inr st)) \<and>
   (section_samples sec \<noteq> [] \<and>
    processSection c p (Some info) simulationOffset morphologyIndex forcedMaterial
      translation sec st = Some (Inr st') \<longrightarrow>
      is_sectionId st' = is_sectionId st + 1 \<and>
      geometry_appended
        (\<lambda>x. \<exists>off. vec_at (compartmentOffsets info) (is_sectionId st) = Inr off \<and>
                   x = real (unat off))
        (is_geometry st) (is_geometry st'))"
proof (intro conjI impI)
  assume "samples \<noteq> []"
  then show "segmentStep (Some info) samples sectionId = Inr 0"
    by (rule segmentStep_nonempty)
next
  assume "section_samples sec = []"
  then show "processSection c p (Some info) simulationOffset morphologyIndex forcedMaterial
        translation sec st = Some (Inr st)"
    by (simp add: processSection_def)
next
  assume a: "section_samples sec \<noteq> [] \<and>
    processSection c p (Some info) simulationOffset morphologyIndex forcedMaterial
      translation sec st = Some (Inr st')"
  let ?ctx = "sectionContext c p (Some info) simulationOffset morphologyIndex forcedMaterial
                translation sec (is_sectionId st) 0"
  let ?s0 = "\<lparr>sl_i = ctx_step ?ctx, sl_done = False,
              sl_previousSample = hd (section_samples sec),
              sl_offset = is_offset st,
              sl_maxDistanceToSoma = is_maxDistanceToSoma st,
              sl_geometry = is_geometry st\<rparr>"
  from a obtain s where loop: "sampleLoop ?ctx ?s0 = Some (Inr s)"
    and st': "st' = \<lparr>is_geometry = sl_geometry s, is_offset = sl_offset s,
                     is_maxDistanceToSoma = sl_maxDistanceToSoma s,
                     is_sectionId = is_sectionId st + 1\<rparr>"
    by (auto simp: processSection_def Let_def segmentStep_nonempty
          split: option.splits sum.splits)
  from st' show "is_sectionId st' = is_sectionId st + 1" by simp
  from sampleLoop_offset [OF loop] have "section_offset_only ?ctx ?s0 s" by simp
  then have "geometry_appended
        (\<lambda>x. \<exists>off. vec_at (compartmentOffsets info) (is_sectionId st) = Inr off \<and>
                   x = real (unat off))
        (is_geometry st) (sl_geometry s)"
    by (simp add: section_offset_only_def sectionContext_def)
  with st' show "geometry_appended
        (\<lambda>x. \<exists>off. vec_at (compartmentOffsets info) (is_sectionId st) = Inr off \<and>
                   x = real (unat off))
        (is_geometry st) (is_geometry st')"
    by simp
qed

lemma example_processSection:
  "\<exists>st'. processSection example_consts example_parameters (Some example_information) 0 0 1000
      (Vec3f 0 0 0) example_section example_import_state = Some (Inr st') \<and>
     map sphere_offset (at_key (g_spheres (is_geometry st')) 0) = [7, 7, 7] \<and>
     map sphere_center (at_key (g_spheres (is_geometry st')) 0) =
       [Vec3f 0 0 1, Vec3f 0 0 2, Vec3f 0 0 2] \<and>
     map cylinder_offset (at_key (g_cylinders (is_geometry st')) 0) = [7] \<and>
     map cone_offset (at_key (g_cones (is_geometry st')) 0) = [7]"
  by (simp add: processSection_def sectionContext_def sectionStep_def segmentStep_def
        example_section_def example_parameters_def example_consts_def
        example_information_def example_import_state_def empty_geometry_def
        getMaterialFromSectionType_def Let_def
        sampleLoop.simps sampleBody_def vec_at_def sampleRadius_def xyz_def add3_def
        push_back_def at_key_def merge_point_def)

theorem segmentStep_stays_zero_witness:
  "segmentStep (Some example_information) (section_samples example_section) 0 = Inr 0 \<and>
   compartmentCounts example_information = [3] \<and>
   (\<exists>st'. processSection example_consts example_parameters (Some example_information) 0 0 1000
      (Vec3f 0 0 0) example_section example_import_state = Some (Inr st') \<and>
      map sphere_offset (at_key (g_spheres (is_geometry st')) 0) = [7, 7, 7] \<and>
      map cylinder_offset (at_key (g_cylinders (is_geometry st')) 0) = [7] \<and>
      map cone_offset (at_key (g_cones (is_geometry st')) 0) = [7] \<and>
      is_sectionId st' = 1 \<and>
      geometry_appended (\<lambda>x. x = 7) empty_geometry (is_geometry st'))"
proof -
  from example_processSection obtain st' where all:
    "processSection example_consts example_parameters (Some example_information) 0 0 1000
       (Vec3f 0 0 0) example_section example_import_state = Some (Inr st') \<and>
     map sphere_offset (at_key (g_spheres (is_geometry st')) 0) = [7, 7, 7] \<and>
     map sphere_center (at_key (g_spheres (is_geometry st')) 0) =
       [Vec3f 0 0 1, Vec3f 0 0 2, Vec3f 0 0 2] \<and>
     map cylinder_offset (at_key (g_cylinders (is_geometry st')) 0) = [7] \<and>
     map cone_offset (at_key (g_cones (is_geometry st')) 0) = [7]"
    by (rule exE)
  then have st':
    "processSection example_consts example_parameters (Some example_information) 0 0 1000
       (Vec3f 0 0 0) example_section example_import_state = Some (Inr st')"
    "map sphere_offset (at_key (g_spheres (is_geometry st')) 0) = [7, 7, 7]"
    "map cylinder_offset (at_key (g_cylinders (is_geometry st')) 0) = [7]"
    "map cone_offset (at_key (g_cones (is_geometry st')) 0) = [7]"
    by simp_all
  have ne: "section_samples example_section \<noteq> []"
    by (simp add: example_section_def)
  have pred: "(\<lambda>x. \<exists>off. vec_at (compartmentOffsets example_information)
                           (is_sectionId example_import_state) = Inr off \<and>
                         x = real (unat off)) = (\<lambda>x. x = 7)"
    by (auto simp: fun_eq_iff vec_at_def example_information_def example_import_state_def)
  from segmentStep_stays_zero
         [where samples = "section_samples example_section" and info = example_information
            and sectionId = 0 and sec = example_section and c = example_consts
            and p = example_parameters and simulationOffset = 0 and morphologyIndex = 0
            and forcedMaterial = 1000 and translation = "Vec3f 0 0 0"
            and st = example_import_state and st' = st', unfolded pred]
       ne st'(1)
  have concl: "segmentStep (Some example_information) (section_samples example_section) 0 = Inr 0 \<and>
      is_sectionId st' = is_sectionId example_import_state + 1 \<and>
      geometry_appended (\<lambda>x. x = 7) (is_geometry example_import_state) (is_geometry st')"
    by simp
  have "is_sectionId example_import_state = 0"
    and "is_geometry example_import_state = empty_geometry"
    and "compartmentCounts example_information = [3]"
    by (simp_all add: example_import_state_def example_information_def)
  with concl st' show ?thesis
    by (intro conjI exI [of _ st']) simp_all
qed

subsection \<open>Rounding to single precision\<close>

lemma floor_log2:
  assumes "2 ^ k \<le> \<bar>x\<bar>" and "\<bar>x\<bar> < 2 ^ Suc k"
  shows "\<lfloor>log 2 \<bar>x\<bar>\<rfloor> = int k"
proof -
  have "(0::real) < 2 ^ k" by simp
  from this assms(1) have pos: "0 < \<bar>x\<bar>" by (rule less_le_trans)
  have "real k \<le> log 2 \<bar>x\<bar>"
    using assms(1) pos by (simp add: le_log_iff powr_realpow)
  moreover have "log 2 \<bar>x\<bar> < real k + 1"
    using assms(2) pos by (simp add: log_less_iff powr_realpow powr_add)
  ultimately show ?thesis
    by (simp add: floor_eq_iff)
qed

lemma float_ulp_eq:
  assumes "2 ^ k \<le> \<bar>x\<bar>" and "\<bar>x\<bar> < 2 ^ Suc k"
  shows "float_ulp x = 2 ^ k / 2 ^ 23"
proof -
  have "float_ulp x = 2 powr (real k - 23)"
    by (simp add: float_ulp_def floor_log2 [OF assms])
  also have "\<dots> = 2 powr real k / 2 powr 23"
    by (simp add: powr_diff)
  also have "\<dots> = 2 ^ k / 2 ^ 23"
    by (simp add: powr_realpow)
  finally show ?thesis .
qed

lemma round32_eq:
  assumes "2 ^ k \<le> \<bar>x\<bar>" and "\<bar>x\<bar> < 2 ^ Suc k"
  shows "round32 x = real_of_int (round_half_even (x * 2 ^ 23 / 2 ^ k)) * 2 ^ k / 2 ^ 23"
proof -
  have "(0::real) < 2 ^ k" by simp
  from this assms(1) have "0 < \<bar>x\<bar>" by (rule less_le_trans)
  then have "x \<noteq> 0" by simp
  then show ?thesis
    by (simp add: round32_def float_ulp_eq [OF assms])
qed

lemma round_half_even_int: "round_half_even (real_of_int m) = m"
  by (simp add: round_half_even_def)

lemma round32_one: "round32 1 = 1"
  using round32_eq [of 0 1] by (simp add: round_half_even_def)

text \<open>
  The quotient of \<open>1\<close> by the float nearest to one tenth is \<open>9.99999985\<close>, less than half
  a spacing below \<open>10\<close>.
\<close>

lemma round32_ten_tenths: "round32 (134217728 / 13421773) = 10"
  using round32_eq [of 3 "134217728 / 13421773"]
  by (simp add: round_half_even_def)

lemma round32_of_nat:
  assumes "n < 2 ^ 24"
  shows "round32 (real n) = real n"
proof (cases "n = 0")
  case True
  then show ?thesis by (simp add: round32_def)
next
  case False
  then have "1 \<le> n" by simp
  with ex_power_ivl1 [of 2 n] obtain k where k: "2 ^ k \<le> n" "n < 2 ^ (k + 1)"
    by auto
  from k(1) assms have "(2::nat) ^ k < 2 ^ 24" by (rule le_less_trans)
  have k24: "k < 24"
    by (rule power_less_imp_less_exp [of 2]) (simp, fact)
  then have "k \<le> 23" by simp
  then obtain j where j: "k + j = 23"
    by (auto simp: le_iff_add)
  have p: "(2::real) ^ 23 = 2 ^ k * 2 ^ j"
    by (simp only: power_add [symmetric] j)
  from k(1) have "real (2 ^ k) \<le> real n" by (simp only: of_nat_le_iff)
  then have b1: "2 ^ k \<le> \<bar>real n\<bar>" by simp
  from k(2) have "real n < real (2 ^ Suc k)" by (simp only: of_nat_less_iff Suc_eq_plus1)
  then have b2: "\<bar>real n\<bar> < 2 ^ Suc k" by simp
  have "real n * 2 ^ 23 / 2 ^ k = real_of_int (int n * 2 ^ j)"
    by (simp only: p) simp
  then have r: "round_half_even (real n * 2 ^ 23 / 2 ^ k) = int n * 2 ^ j"
    by (simp only: round_half_even_int)
  have "round32 (real n) = real_of_int (int n * 2 ^ j) * 2 ^ k / 2 ^ 23"
    by (simp only: round32_eq [OF b1 b2] r)
  also have "\<dots> = real n"
    by (simp only: p) simp
  finally show ?thesis .
qed

lemma to_float_of_nat:
  assumes "n < 2 ^ 24"
  shows "to_float (real n) = Float (real n)"
proof -
  from assms have "real n < real (2 ^ 24)" by (simp only: of_nat_less_iff)
  then have "real n < 2 ^ 128" by simp
  moreover have "- (2 ^ 128) < real n"
    by (rule less_le_trans [of _ 0]) simp_all
  ultimately show ?thesis
    by (simp add: to_float_def round32_of_nat [OF assms])
qed

subsection \<open>The simulation cache file\<close>

lemma writeFrames_eq:
  "writeFrames report firstFrame step frame left written =
     written @ map (\<lambda>f. WriteFrame (loadFrame report (frameTime firstFrame step f)))
              [frame..<frame + left]"
proof (induction left arbitrary: frame written)
  case 0
  show ?case by simp
next
  case (Suc left)
  have "[frame..<frame + Suc left] = frame # [Suc frame..<Suc frame + left]"
    by (simp add: upt_conv_Cons)
  with Suc show ?case by (simp add: Let_def)
qed

lemma nbFramesOf_value:
  assumes "nbFramesOf firstFrame lastFrame step = Inr n"
  shows "n = nat \<lfloor>round32 (round32 (lastFrame - firstFrame) / step)\<rfloor>"
  using assms
  by (auto simp: nbFramesOf_def to_float_def float_to_uint64_def
        split: if_splits float32.splits)

lemma nbFramesOf_example: "nbFramesOf 0 10 2 = Inr 5"
proof -
  have "to_float (real 10) = Float (real 10)" by (rule to_float_of_nat) simp
  moreover have "to_float (real 5) = Float (real 5)" by (rule to_float_of_nat) simp
  ultimately show ?thesis
    by (simp add: nbFramesOf_def float_to_uint64_def)
qed

lemma nbFramesOf_tenth: "nbFramesOf 0 1 (13421773 / 134217728) = Inr 10"
  by (simp add: nbFramesOf_def to_float_def round32_one round32_ten_tenths
        float_to_uint64_def)

lemma frameTime_example:
  assumes "frame < 5"
  shows "frameTime 0 2 frame = Float (2 * real frame)"
proof -
  from assms have a: "round32 (real frame) = real frame"
    by (intro round32_of_nat) simp
  from assms have "to_float (real (2 * frame)) = Float (real (2 * frame))"
    by (intro to_float_of_nat) simp
  then have b: "to_float (2 * real frame) = Float (2 * real frame)" by simp
  show ?thesis
    by (simp add: frameTime_def a b)
qed

text \<open>
  C5. Whenever \<^verbatim>\<open>importSimulationData\<close> writes a cache file, it returns true and the file
  is the header (with \<^verbatim>\<open>nbFrames\<close> and the frame size of the report) followed by exactly
  \<^verbatim>\<open>nbFrames\<close> frames in increasing frame order, frame number \<open>frame\<close> being the
  values that the report loads at time \<^verbatim>\<open>firstFrame + step * frame\<close>, where
  \<^verbatim>\<open>firstFrame\<close> is the larger of the start times of the report and of the parameters,
  \<^verbatim>\<open>lastFrame\<close> the smaller of the end times, and \<^verbatim>\<open>nbFrames\<close> is
  \<^verbatim>\<open>(lastFrame - firstFrame) / step\<close> without its fraction, the difference, the quotient
  and the frame time being computed in single precision. It writes that file whenever
  the target has cells, the report opens, no cache file can be attached, the file can be
  created and the number of frames fits \<^verbatim>\<open>uint64_t\<close>.
\<close>

theorem importSimulationData_cache_file:
  "(importSimulationData p lib fs circuitConfig target report = Inr (ok, errors, Some written) \<longrightarrow>
      (\<exists>bc circuit gids r nbFrames.
          openTarget lib circuitConfig target = Inr (bc, circuit, gids) \<and>
          openCompartmentReport lib bc report gids = Inr r \<and>
          nbFramesOf (max (getStartTime r) (startSimulationTime p))
            (min (getEndTime r) (endSimulationTime p)) (getTimestep r) = Inr nbFrames \<and>
          nbFrames =
            nat \<lfloor>round32
                  (round32 (min (getEndTime r) (endSimulationTime p) -
                            max (getStartTime r) (startSimulationTime p)) /
                   getTimestep r)\<rfloor> \<and>
          ok \<and>
          written =
            WriteHeader nbFrames (getFrameSize r) #
            map (\<lambda>frame. WriteFrame
                   (loadFrame r
                      (frameTime (max (getStartTime r) (startSimulationTime p))
                         (getTimestep r) frame)))
              [0..<nbFrames])) \<and>
   (openTarget lib circuitConfig target = Inr (bc, circuit, gids) \<and> gids \<noteq> [] \<and>
    openCompartmentReport lib bc report gids = Inr r \<and>
    \<not> attachSimulationToCacheFile fs (simulationCacheFile p) \<and>
    can_create fs (simulationCacheFile p) \<and>
    nbFramesOf (max (getStartTime r) (startSimulationTime p))
      (min (getEndTime r) (endSimulationTime p)) (getTimestep r) = Inr n \<longrightarrow>
      importSimulationData p lib fs circuitConfig target report =
        Inr (True, [],
             Some (WriteHeader n (getFrameSize r) #
                   map (\<lambda>frame. WriteFrame
                          (loadFrame r
                             (frameTime (max (getStartTime r) (startSimulationTime p))
                                (getTimestep r) frame)))
                     [0..<n])))"
proof (intro conjI impI)
  assume a: "importSimulationData p lib fs circuitConfig target report =
               Inr (ok, errors, Some written)"
  then obtain bc circuit gids r nbFrames where
    t: "openTarget lib circuitConfig target = Inr (bc, circuit, gids)"
    and rep: "openCompartmentReport lib bc report gids = Inr r"
    and n: "nbFramesOf (max (getStartTime r) (startSimulationTime p))
              (min (getEndTime r) (endSimulationTime p)) (getTimestep r) = Inr nbFrames"
    and ok: "ok"
    and w: "written =
              WriteHeader nbFrames (getFrameSize r) #
              map (\<lambda>frame. WriteFrame
                     (loadFrame r
                        (frameTime (max (getStartTime r) (startSimulationTime p))
                           (getTimestep r) frame)))
                [0..<nbFrames]"
    unfolding importSimulationData_def Let_def
    by (auto split: sum.splits prod.splits if_splits simp: writeFrames_eq)
  from nbFramesOf_value [OF n] t rep n ok w
  show "\<exists>bc circuit gids r nbFrames.
          openTarget lib circuitConfig target = Inr (bc, circuit, gids) \<and>
          openCompartmentReport lib bc report gids = Inr r \<and>
          nbFramesOf (max (getStartTime r) (startSimulationTime p))
            (min (getEndTime r) (endSimulationTime p)) (getTimestep r) = Inr nbFrames \<and>
          nbFrames =
            nat \<lfloor>round32
                  (round32 (min (getEndTime r) (endSimulationTime p) -
                            max (getStartTime r) (startSimulationTime p)) /
                   getTimestep r)\<rfloor> \<and>
          ok \<and>
          written =
            WriteHeader nbFrames (getFrameSize r) #
            map (\<lambda>frame. WriteFrame
                   (loadFrame r
                      (frameTime (max (getStartTime r) (startSimulationTime p))
                         (getTimestep r) frame)))
              [0..<nbFrames]"
    by blast
next
  assume "openTarget lib circuitConfig target = Inr (bc, circuit, gids) \<and> gids \<noteq> [] \<and>
    openCompartmentReport lib bc report gids = Inr r \<and>
    \<not> attachSimulationToCacheFile fs (simulationCacheFile p) \<and>
    can_create fs (simulationCacheFile p) \<and>
    nbFramesOf (max (getStartTime r) (startSimulationTime p))
      (min (getEndTime r) (endSimulationTime p)) (getTimestep r) = Inr n"
  then show "importSimulationData p lib fs circuitConfig target report =
        Inr (True, [],
             Some (WriteHeader n (getFrameSize r) #
                   map (\<lambda>frame. WriteFrame
                          (loadFrame r
                             (frameTime (max (getStartTime r) (startSimulationTime p))
                                (getTimestep r) frame)))
                     [0..<n]))"
    by (simp add: importSimulationData_def Let_def writeFrames_eq)
qed

theorem importSimulationData_cache_file_witness:
  "importSimulationData example_parameters example_library example_fs ''BlueConfig'' ''two''
     ''voltage'' =
     Inr (True, [],
          Some [WriteHeader 5 2, WriteFrame [0, 1], WriteFrame [2, 3], WriteFrame [4, 5],
                WriteFrame [6, 7], WriteFrame [8, 9]]) \<and>
   nbFramesOf 0 10 2 = Inr 5 \<and>
   nbFramesOf 0 1 (13421773 / 134217728) = Inr 10 \<and>
   importSimulationData example_parameters example_library example_fs ''BlueConfig'' ''two''
     ''tenth'' =
     Inr (True, [],
          Some (WriteHeader 10 2 #
                map (\<lambda>frame. WriteFrame
                       (loadFrame tenth_report (frameTime 0 (13421773 / 134217728) frame)))
                  [0..<10])) \<and>
   (\<exists>bc circuit gids r.
       openTarget example_library ''BlueConfig'' ''two'' = Inr (bc, circuit, gids) \<and>
       openCompartmentReport example_library bc ''tenth'' gids = Inr r \<and>
       nat \<lfloor>round32
             (round32 (min (getEndTime r) (endSimulationTime example_parameters) -
                       max (getStartTime r) (startSimulationTime example_parameters)) /
              getTimestep r)\<rfloor> = 10)"
proof -
  have t: "openTarget example_library ''BlueConfig'' ''two'' = Inr (0, example_circuit, [1, 2])"
    by (simp add: openTarget_def example_library_def example_circuit_def)
  have r: "openCompartmentReport example_library 0 ''voltage'' [1, 2] = Inr example_report"
    by (simp add: example_library_def)
  have r': "openCompartmentReport example_library 0 ''tenth'' [1, 2] = Inr tenth_report"
    by (simp add: example_library_def)
  have times: "max (getStartTime example_report) (startSimulationTime example_parameters) = 0"
    "min (getEndTime example_report) (endSimulationTime example_parameters) = 10"
    "getTimestep example_report = 2" "getFrameSize example_report = 2"
    by (simp_all add: example_report_def example_parameters_def)
  have times': "max (getStartTime tenth_report) (startSimulationTime example_parameters) = 0"
    "min (getEndTime tenth_report) (endSimulationTime example_parameters) = 1"
    "getTimestep tenth_report = 13421773 / 134217728" "getFrameSize tenth_report = 2"
    by (simp_all add: tenth_report_def example_report_def example_parameters_def)
  have fs: "\<not> attachSimulationToCacheFile example_fs (simulationCacheFile example_parameters)"
    "can_create example_fs (simulationCacheFile example_parameters)"
    by (simp_all add: example_fs_def)
  have hyps:
    "openTarget example_library ''BlueConfig'' ''two'' = Inr (0, example_circuit, [1, 2]) \<and>
     [1, 2 :: nat] \<noteq> [] \<and>
     openCompartmentReport example_library 0 ''voltage'' [1, 2] = Inr example_report \<and>
     \<not> attachSimulationToCacheFile example_fs (simulationCacheFile example_parameters) \<and>
     can_create example_fs (simulationCacheFile example_parameters) \<and>
     nbFramesOf (max (getStartTime example_report) (startSimulationTime example_parameters))
       (min (getEndTime example_report) (endSimulationTime example_parameters))
       (getTimestep example_report) = Inr 5"
    using t r nbFramesOf_example fs by (simp add: times)
  have hyps':
    "openTarget example_library ''BlueConfig'' ''two'' = Inr (0, example_circuit, [1, 2]) \<and>
     [1, 2 :: nat] \<noteq> [] \<and>
     openCompartmentReport example_library 0 ''tenth'' [1, 2] = Inr tenth_report \<and>
     \<not> attachSimulationToCacheFile example_fs (simulationCacheFile example_parameters) \<and>
     can_create example_fs (simulationCacheFile example_parameters) \<and>
     nbFramesOf (max (getStartTime tenth_report) (startSimulationTime example_parameters))
       (min (getEndTime tenth_report) (endSimulationTime example_parameters))
       (getTimestep tenth_report) = Inr 10"
    using t r' nbFramesOf_tenth fs by (simp add: times')
  note importSimulationData_cache_file
         [where p = example_parameters and lib = example_library and fs = example_fs
            and circuitConfig = "''BlueConfig''" and target = "''two''"
            and report = "''voltage''" and bc = 0 and circuit = example_circuit
            and gids = "[1, 2]" and r = example_report and n = 5,
          THEN conjunct2, rule_format, OF hyps]
  then have a: "importSimulationData example_parameters example_library example_fs ''BlueConfig''
             ''two'' ''voltage'' =
           Inr (True, [],
                Some (WriteHeader 5 2 #
                      map (\<lambda>frame. WriteFrame (loadFrame example_report (frameTime 0 2 frame)))
                        [0..<5]))"
    by (simp only: times)
  have "map (\<lambda>frame. WriteFrame (loadFrame example_report (frameTime 0 2 frame))) [0..<5] =
          map (\<lambda>frame. WriteFrame (loadFrame example_report (Float (2 * real frame)))) [0..<5]"
    by (rule map_cong) (simp_all add: frameTime_example)
  also have "\<dots> =
          [WriteFrame [0, 1], WriteFrame [2, 3], WriteFrame [4, 5], WriteFrame [6, 7],
           WriteFrame [8, 9]]"
    by (simp add: example_report_def eval_nat_numeral)
  finally have frames:
    "map (\<lambda>frame. WriteFrame (loadFrame example_report (frameTime 0 2 frame))) [0..<5] =
          [WriteFrame [0, 1], WriteFrame [2, 3], WriteFrame [4, 5], WriteFrame [6, 7],
           WriteFrame [8, 9]]" .
  from a have b: "importSimulationData example_parameters example_library example_fs
      ''BlueConfig'' ''two'' ''voltage'' =
     Inr (True, [],
          Some [WriteHeader 5 2, WriteFrame [0, 1], WriteFrame [2, 3], WriteFrame [4, 5],
                WriteFrame [6, 7], WriteFrame [8, 9]])"
    by (simp only: frames)
  note importSimulationData_cache_file
         [where p = example_parameters and lib = example_library and fs = example_fs
            and circuitConfig = "''BlueConfig''" and target = "''two''"
            and report = "''tenth''" and bc = 0 and circuit = example_circuit
            and gids = "[1, 2]" and r = tenth_report and n = 10,
          THEN conjunct2, rule_format, OF hyps']
  then have c: "importSimulationData example_parameters example_library example_fs
      ''BlueConfig'' ''two'' ''tenth'' =
     Inr (True, [],
          Some (WriteHeader 10 2 #
                map (\<lambda>frame. WriteFrame
                       (loadFrame tenth_report (frameTime 0 (13421773 / 134217728) frame)))
                  [0..<10]))"
    by (simp only: times')
  have d: "nat \<lfloor>round32
             (round32 (min (getEndTime tenth_report) (endSimulationTime example_parameters) -
                       max (getStartTime tenth_report)
                         (startSimulationTime example_parameters)) /
              getTimestep tenth_report)\<rfloor> = 10"
    by (simp add: times' round32_one round32_ten_tenths)
  from b nbFramesOf_example nbFramesOf_tenth c t r' d show ?thesis
    by (intro conjI exI)
qed

subsection \<open>Failures at the entry points of the loader\<close>

lemma importMorphology_runtime_error:
  assumes "readMorphology reader uri (identity_Matrix4f reader) = Inl (RuntimeError what)"
  shows "importMorphology c p reader uri morphologyIndex scene =
           Some (Inr (False, scene, [what]))"
  using assms
  by (simp add: importMorphology_def private_importMorphologyAsMesh_def
        private_importMorphology_def)

lemma importCircuit_false:
  assumes "importCircuit c p lib run circuitConfig target scene = Some (Inr (False, s, errors))"
  shows "\<exists>bc circuit. openTarget lib circuitConfig target = Inr (bc, circuit, [])"
  using assms
  unfolding importCircuit_def importCircuit_prepare_def Let_def
  by (auto split: sum.splits prod.splits if_splits option.splits)

lemma importCircuit_report_false:
  assumes "importCircuit_report c p lib run1 run2 circuitConfig target report scene =
             Some (Inr (False, s, errors))"
  shows "\<exists>bc circuit. openTarget lib circuitConfig target = Inr (bc, circuit, [])"
  using assms
  unfolding importCircuit_report_def Let_def
  by (auto split: sum.splits prod.splits if_splits option.splits)

lemma empty_gids:
  assumes "openTarget lib circuitConfig target = Inr (bc, circuit, [])"
  shows "importCircuit c p lib run circuitConfig target scene =
           Some (Inr (False, scene, [''Circuit does not contain any cells'']))"
    and "importCircuit_report c p lib run1 run2 circuitConfig target report scene =
           Some (Inr (False, scene, [''Circuit does not contain any cells'']))"
    and "importSimulationData p lib fs circuitConfig target report =
           Inr (False, [''Circuit does not contain any cells''], None)"
  using assms
  by (simp_all add: importCircuit_def importCircuit_prepare_def importCircuit_report_def
        importSimulationData_def)

lemma open_throws:
  assumes "openTarget lib circuitConfig target = Inl e"
  shows "importCircuit c p lib run circuitConfig target scene = Some (Inl e)"
    and "importCircuit_report c p lib run1 run2 circuitConfig target report scene = Some (Inl e)"
    and "importSimulationData p lib fs circuitConfig target report = Inl e"
  using assms
  by (simp_all add: importCircuit_def importCircuit_prepare_def importCircuit_report_def
        importSimulationData_def)

text \<open>
  The circuit import of the target \<^verbatim>\<open>"two"\<close> with the reader that fails for every
  morphology: both cells are logged, the scene is left as it was, and the result is
  \<open>True\<close>.
\<close>

lemma failing_prepare:
  "importCircuit_prepare example_consts example_parameters failing_library
     ''BlueConfig'' ''two'' example_scene =
   Inr (Inr (circuitCell example_consts example_parameters failing_library
               [''morphology'', ''morphology''] [0, 0] False [] (Suc 0),
             2, initial_shared example_scene))"
  by (simp add: importCircuit_prepare_def openTarget_def failing_library_def
        example_library_def example_circuit_def getNeuronMatrix_def example_parameters_def
        nbSkippedCells_def example_scene_def Let_def)

lemma failing_cell:
  "i < 2 \<Longrightarrow>
   circuitCell example_consts example_parameters failing_library
     [''morphology'', ''morphology''] [0, 0] False [] (Suc 0) i g =
   read_shared sh_simulationOffset
     (\<lambda>simulationOffset. log_errors [''Cannot read morphology''] (Completed g))"
  by (simp add: circuitCell_def skipped_def vec_at_def cellMaterial_def cellMetaballs_def
        example_parameters_def failing_library_def example_library_def failing_reader_def
        example_reader_def private_importMorphology_def)

lemma failing_import:
  "importCircuit example_consts example_parameters failing_library example_omp
     ''BlueConfig'' ''two'' example_scene =
   Some (Inr (True, example_scene, [''Cannot read morphology'', ''Cannot read morphology'']))"
  apply (simp only: importCircuit_def failing_prepare sum.case prod.case)
  apply (simp add: parallel_region_def example_omp_def initial_threads_def num_threads_def
      upt_rec [of 0 2] upt_rec [of 1 2] thread_step_def proceed_def failing_cell
      read_shared_def write_shared_def initial_shared_def
      finish_thread.simps map_scene_geometry_def merge_container_def empty_geometry_def
      example_scene_def eval_nat_numeral Let_def merge_box_def)
  done

text \<open>
  C4, as the claim states it, fails: \<^verbatim>\<open>importCircuit\<close> does not return false when the
  circuit configuration cannot be opened (the exception of the library leaves the
  function, nothing is logged), and it returns true when reading the morphology of every
  cell raised a runtime error.
\<close>

theorem importCircuit_not_false:
  "importCircuit example_consts example_parameters example_library example_omp
     ''missing'' ''two'' example_scene =
   Some (Inl (RuntimeError ''Cannot open BlueConfig file'')) \<and>
   importCircuit example_consts example_parameters failing_library example_omp
     ''BlueConfig'' ''two'' example_scene =
   Some (Inr (True, example_scene, [''Cannot read morphology'', ''Cannot read morphology'']))"
proof -
  have "openTarget example_library ''missing'' ''two'' =
          Inl (RuntimeError ''Cannot open BlueConfig file'')"
    by (simp add: openTarget_def example_library_def)
  then show ?thesis
    by (simp add: open_throws(1) failing_import)
qed

text \<open>
  C4 (amended): the entry points of the loader return false, after one line in the error
  log, in the build without Brion, and in the build with Brion
  \<^item> \<^verbatim>\<open>importMorphology\<close> when reading the morphology raises a \<^verbatim>\<open>std::runtime_error\<close>, whose
    message is the line logged;
  \<^item> both overloads of \<^verbatim>\<open>importCircuit\<close>, and \<^verbatim>\<open>importSimulationData\<close>, when the target
    has no cell.

  An exception raised while the configuration, the circuit or the target is opened is not
  caught: it leaves the entry point. Both overloads of \<^verbatim>\<open>importCircuit\<close> return false
  only for a target without cells, so a morphology that cannot be read does not make them
  return false.
\<close>

theorem entry_points_failure:
  "importMorphology_noBrion scene = (False, scene, [''Brion is required to load morphologies'']) \<and>
   importCircuit_noBrion scene = (False, scene, [''Brion is required to load circuits'']) \<and>
   importCircuit_report_noBrion scene = (False, scene, [''Brion is required to load circuits'']) \<and>
   importSimulationData_noBrion scene = (False, scene, [''Brion is required to load circuits'']) \<and>
   (readMorphology reader uri (identity_Matrix4f reader) = Inl (RuntimeError what) \<longrightarrow>
      importMorphology c p reader uri morphologyIndex scene =
        Some (Inr (False, scene, [what]))) \<and>
   (openTarget lib circuitConfig target = Inr (bc, circuit, []) \<longrightarrow>
      importCircuit c p lib run circuitConfig target scene =
        Some (Inr (False, scene, [''Circuit does not contain any cells''])) \<and>
      importCircuit_report c p lib run_a run_b circuitConfig target report scene =
        Some (Inr (False, scene, [''Circuit does not contain any cells''])) \<and>
      importSimulationData p lib fs circuitConfig target report =
        Inr (False, [''Circuit does not contain any cells''], None)) \<and>
   (openTarget lib circuitConfig' target' = Inl e \<longrightarrow>
      importCircuit c p lib run circuitConfig' target' scene = Some (Inl e) \<and>
      importCircuit_report c p lib run_a run_b circuitConfig' target' report scene =
        Some (Inl e) \<and>
      importSimulationData p lib fs circuitConfig' target' report = Inl e) \<and>
   (importCircuit c p lib run circuitConfig target scene = Some (Inr (False, s, errors)) \<longrightarrow>
      (\<exists>bc circuit. openTarget lib circuitConfig target = Inr (bc, circuit, []))) \<and>
   (importCircuit_report c p lib run_a run_b circuitConfig target report scene =
      Some (Inr (False, s, errors)) \<longrightarrow>
      (\<exists>bc circuit. openTarget lib circuitConfig target = Inr (bc, circuit, [])))"
proof (intro conjI impI)
  assume "readMorphology reader uri (identity_Matrix4f reader) = Inl (RuntimeError what)"
  then show "importMorphology c p reader uri morphologyIndex scene =
               Some (Inr (False, scene, [what]))"
    by (rule importMorphology_runtime_error)
next
  assume t: "openTarget lib circuitConfig target = Inr (bc, circuit, [])"
  show "importCircuit c p lib run circuitConfig target scene =
          Some (Inr (False, scene, [''Circuit does not contain any cells'']))"
    by (rule empty_gids(1) [OF t])
  show "importCircuit_report c p lib run_a run_b circuitConfig target report scene =
          Some (Inr (False, scene, [''Circuit does not contain any cells'']))"
    by (rule empty_gids(2) [OF t])
  show "importSimulationData p lib fs circuitConfig target report =
          Inr (False, [''Circuit does not contain any cells''], None)"
    by (rule empty_gids(3) [OF t])
next
  assume t: "openTarget lib circuitConfig' target' = Inl e"
  show "importCircuit c p lib run circuitConfig' target' scene = Some (Inl e)"
    by (rule open_throws(1) [OF t])
  show "importCircuit_report c p lib run_a run_b circuitConfig' target' report scene =
          Some (Inl e)"
    by (rule open_throws(2) [OF t])
  show "importSimulationData p lib fs circuitConfig' target' report = Inl e"
    by (rule open_throws(3) [OF t])
next
  assume "importCircuit c p lib run circuitConfig target scene = Some (Inr (False, s, errors))"
  then show "\<exists>bc circuit. openTarget lib circuitConfig target = Inr (bc, circuit, [])"
    by (rule importCircuit_false)
next
  assume "importCircuit_report c p lib run_a run_b circuitConfig target report scene =
            Some (Inr (False, s, errors))"
  then show "\<exists>bc circuit. openTarget lib circuitConfig target = Inr (bc, circuit, [])"
    by (rule importCircuit_report_false)
qed (simp_all add: importMorphology_noBrion_def importCircuit_noBrion_def
       importCircuit_report_noBrion_def importSimulationData_noBrion_def)

theorem entry_points_failure_witness:
  "readMorphology failing_reader ''morphology'' (identity_Matrix4f failing_reader) =
     Inl (RuntimeError ''Cannot read morphology'') \<and>
   importMorphology example_consts example_parameters failing_reader ''morphology'' 0
     example_scene =
     Some (Inr (False, example_scene, [''Cannot read morphology''])) \<and>
   openTarget failing_library ''BlueConfig'' ''none'' = Inr (0, example_circuit, []) \<and>
   importCircuit example_consts example_parameters failing_library example_omp
     ''BlueConfig'' ''none'' example_scene =
     Some (Inr (False, example_scene, [''Circuit does not contain any cells''])) \<and>
   importCircuit_report example_consts example_parameters failing_library example_omp
     example_omp ''BlueConfig'' ''none'' ''voltage'' example_scene =
     Some (Inr (False, example_scene, [''Circuit does not contain any cells''])) \<and>
   importSimulationData example_parameters failing_library example_fs ''BlueConfig'' ''none''
     ''voltage'' =
     Inr (False, [''Circuit does not contain any cells''], None) \<and>
   openTarget failing_library ''missing'' ''two'' =
     Inl (RuntimeError ''Cannot open BlueConfig file'') \<and>
   importCircuit_report example_consts example_parameters failing_library example_omp
     example_omp ''missing'' ''two'' ''voltage'' example_scene =
     Some (Inl (RuntimeError ''Cannot open BlueConfig file'')) \<and>
   importSimulationData example_parameters failing_library example_fs ''missing'' ''two''
     ''voltage'' =
     Inl (RuntimeError ''Cannot open BlueConfig file'')"
proof -
  have r: "readMorphology failing_reader ''morphology'' (identity_Matrix4f failing_reader) =
             Inl (RuntimeError ''Cannot read morphology'')"
    by (simp add: failing_reader_def)
  have t: "openTarget failing_library ''BlueConfig'' ''none'' = Inr (0, example_circuit, [])"
    by (simp add: openTarget_def failing_library_def example_library_def example_circuit_def)
  have t': "openTarget failing_library ''missing'' ''two'' =
              Inl (RuntimeError ''Cannot open BlueConfig file'')"
    by (simp add: openTarget_def failing_library_def example_library_def)
  note entry_points_failure
         [where reader = failing_reader and uri = "''morphology''"
            and what = "''Cannot read morphology''" and c = example_consts
            and p = example_parameters and morphologyIndex = 0 and scene = example_scene
            and lib = failing_library and circuitConfig = "''BlueConfig''"
            and target = "''none''" and bc = 0 and circuit = example_circuit
            and run = example_omp and run_a = example_omp and run_b = example_omp
            and report = "''voltage''" and fs = example_fs
            and circuitConfig' = "''missing''" and target' = "''two''"
            and e = "RuntimeError ''Cannot open BlueConfig file''"
            and s = example_scene and errors = "[''Circuit does not contain any cells'']"]
  with r t t' show ?thesis
    by simp
qed

subsection \<open>The parallel region on two cells\<close>

lemma add_offset_nat:
  assumes "n + m < 2 ^ 24"
  shows "add_offset n (real m) = Inr (n + m)"
proof -
  from assms have "n < 2 ^ 24" by simp
  then have a: "round32 (real n) = real n" by (rule round32_of_nat)
  from assms have b: "to_float (real (n + m)) = Float (real (n + m))"
    by (rule to_float_of_nat)
  from assms have "real (n + m) < real (2 ^ 24)" by (simp only: of_nat_less_iff)
  then have c: "real (n + m) < 2 ^ 64" by simp
  have d: "- 1 < real (n + m)" by (rule less_le_trans [of _ 0]) simp_all
  have e: "real n + real m = real (n + m)" by simp
  show ?thesis
    unfolding add_offset_def a e b using c d
    by (simp add: float_to_uint64_def del: of_nat_add)
qed

lemma add_offset_example: "n + 7 < 2 ^ 24 \<Longrightarrow> add_offset n 7 = Inr (n + 7)"
  using add_offset_nat [of n 7] by simp

lemma far_prepare:
  "importCircuit_prepare example_consts example_parameters far_library
     ''BlueConfig'' ''two'' example_scene =
   Inr (Inr (circuitCell example_consts example_parameters far_library
               [''morphology'', ''far''] [0, 0] False [] (Suc 0),
             2, initial_shared example_scene))"
  by (simp add: importCircuit_prepare_def openTarget_def far_library_def
        example_library_def example_circuit_def getNeuronMatrix_def example_parameters_def
        nbSkippedCells_def example_scene_def Let_def)

lemma far_racing:
  "(case importCircuit example_consts example_parameters far_library racing_omp
           ''BlueConfig'' ''two'' example_scene of
      Some (Inr (ok, scene, errors)) \<Rightarrow>
        ok \<and> errors = [] \<and>
        map sphere_center (at_key (g_spheres (scene_geometry scene)) 0) =
          [Vec3f 0 0 0, Vec3f 0 0 1, Vec3f 0 0 2, Vec3f 0 0 2,
           Vec3f 0 0 10, Vec3f 0 0 11, Vec3f 0 0 12, Vec3f 0 0 12] \<and>
        g_bounds (scene_geometry scene) = Some (Vec3f 0 0 10, Vec3f 0 0 12)
    | _ \<Rightarrow> False)"
  apply (simp only: importCircuit_def far_prepare sum.case prod.case)
  apply (simp add: parallel_region_def racing_omp_def initial_threads_def num_threads_def
      upt_rec [of 0 2] upt_rec [of 1 2] upt_rec [of "Suc 0" 2] thread_step_def proceed_def
      read_shared_def write_shared_def initial_shared_def
      finish_thread.simps map_scene_geometry_def merge_container_def empty_geometry_def
      example_scene_def Let_def merge_box_def
      circuitCell_def skipped_def vec_at_def cellMaterial_def cellMetaballs_def
      example_parameters_def far_library_def example_library_def
      example_reader_def private_importMorphology_def example_consts_def
      layoutTranslation_def getSections_def getSectionTypes_def example_morphology_def
      far_morphology_def
      somaGeometry_def getMaterialFromSectionType_def add3_def
      processSection_def sectionContext_def sectionStep_def segmentStep_def
      example_section_def
      sampleLoop.simps sampleBody_def sampleRadius_def xyz_def
      push_back_def at_key_def merge_point_def min3_def max3_def add_offset_example)
  done

lemma far_sequential:
  "(case importCircuit example_consts example_parameters far_library sequential_omp
           ''BlueConfig'' ''two'' example_scene of
      Some (Inr (ok, scene, errors)) \<Rightarrow>
        ok \<and> errors = [] \<and>
        map sphere_center (at_key (g_spheres (scene_geometry scene)) 0) =
          [Vec3f 0 0 0, Vec3f 0 0 1, Vec3f 0 0 2, Vec3f 0 0 2,
           Vec3f 0 0 10, Vec3f 0 0 11, Vec3f 0 0 12, Vec3f 0 0 12] \<and>
        map sphere_offset (at_key (g_spheres (scene_geometry scene)) 0) =
          [1, 7, 8, 8, 8, 14, 15, 15] \<and>
        g_bounds (scene_geometry scene) = Some (Vec3f 0 0 0, Vec3f 0 0 12)
    | _ \<Rightarrow> False)"
  apply (simp only: importCircuit_def far_prepare sum.case prod.case)
  apply (simp add: parallel_region_def sequential_omp_def initial_threads_def num_threads_def
      upt_rec [of 0 2] upt_rec [of 1 2] upt_rec [of "Suc 0" 2] thread_step_def proceed_def
      read_shared_def write_shared_def initial_shared_def
      finish_thread.simps map_scene_geometry_def merge_container_def empty_geometry_def
      example_scene_def Let_def merge_box_def
      circuitCell_def skipped_def vec_at_def cellMaterial_def cellMetaballs_def
      example_parameters_def far_library_def example_library_def
      example_reader_def private_importMorphology_def example_consts_def
      layoutTranslation_def getSections_def getSectionTypes_def example_morphology_def
      far_morphology_def
      somaGeometry_def getMaterialFromSectionType_def add3_def
      processSection_def sectionContext_def sectionStep_def segmentStep_def
      example_section_def
      sampleLoop.simps sampleBody_def sampleRadius_def xyz_def
      push_back_def at_key_def merge_point_def min3_def max3_def add_offset_example)
  done

text \<open>
  The accesses of the loop body to the simulation offset interleave as well: when both
  threads read it before either has written it, both cells get the offsets of the first.
\<close>

lemma far_early_reads:
  "(case importCircuit example_consts example_parameters far_library early_omp
           ''BlueConfig'' ''two'' example_scene of
      Some (Inr (ok, scene, errors)) \<Rightarrow>
        ok \<and> errors = [] \<and>
        map sphere_offset (at_key (g_spheres (scene_geometry scene)) 0) =
          [1, 7, 8, 8, 1, 7, 8, 8]
    | _ \<Rightarrow> False)"
  apply (simp only: importCircuit_def far_prepare sum.case prod.case)
  apply (simp add: parallel_region_def early_omp_def initial_threads_def num_threads_def
      upt_rec [of 0 2] upt_rec [of 1 2] upt_rec [of "Suc 0" 2] thread_step_def proceed_def
      read_shared_def write_shared_def initial_shared_def
      finish_thread.simps map_scene_geometry_def merge_container_def empty_geometry_def
      example_scene_def Let_def merge_box_def
      circuitCell_def skipped_def vec_at_def cellMaterial_def cellMetaballs_def
      example_parameters_def far_library_def example_library_def
      example_reader_def private_importMorphology_def example_consts_def
      layoutTranslation_def getSections_def getSectionTypes_def example_morphology_def
      far_morphology_def
      somaGeometry_def getMaterialFromSectionType_def add3_def
      processSection_def sectionContext_def sectionStep_def segmentStep_def
      example_section_def
      sampleLoop.simps sampleBody_def sampleRadius_def xyz_def
      push_back_def at_key_def merge_point_def min3_def max3_def add_offset_example)
  done

text \<open>
  C6. The spheres, cylinders and cones of the private containers are appended to those of
  the scene in critical sections, but the merge of the private bounds into the world
  bounds is outside any critical section: it is a read and a write of the world bounds
  that the merges of other threads can come between. On a circuit of two cells, one
  around \<open>z = 0 .. 2\<close> and one around \<open>z = 10 .. 12\<close>, imported by two threads: when
  both threads read the world bounds before either writes them, \<^verbatim>\<open>importCircuit\<close> returns
  true with the spheres of both cells in the scene and with world bounds that hold the
  second cell only; when the threads merge one after the other, the world bounds hold both
  cells.
\<close>

theorem importCircuit_bounds_lost:
  "(case importCircuit example_consts example_parameters far_library racing_omp
           ''BlueConfig'' ''two'' example_scene of
      Some (Inr (ok, scene, errors)) \<Rightarrow>
        ok \<and> errors = [] \<and>
        map sphere_center (at_key (g_spheres (scene_geometry scene)) 0) =
          [Vec3f 0 0 0, Vec3f 0 0 1, Vec3f 0 0 2, Vec3f 0 0 2,
           Vec3f 0 0 10, Vec3f 0 0 11, Vec3f 0 0 12, Vec3f 0 0 12] \<and>
        g_bounds (scene_geometry scene) = Some (Vec3f 0 0 10, Vec3f 0 0 12)
    | _ \<Rightarrow> False) \<and>
   (case importCircuit example_consts example_parameters far_library sequential_omp
           ''BlueConfig'' ''two'' example_scene of
      Some (Inr (ok, scene, errors)) \<Rightarrow>
        ok \<and> errors = [] \<and>
        map sphere_center (at_key (g_spheres (scene_geometry scene)) 0) =
          [Vec3f 0 0 0, Vec3f 0 0 1, Vec3f 0 0 2, Vec3f 0 0 2,
           Vec3f 0 0 10, Vec3f 0 0 11, Vec3f 0 0 12, Vec3f 0 0 12] \<and>
        map sphere_offset (at_key (g_spheres (scene_geometry scene)) 0) =
          [1, 7, 8, 8, 8, 14, 15, 15] \<and>
        g_bounds (scene_geometry scene) = Some (Vec3f 0 0 0, Vec3f 0 0 12)
    | _ \<Rightarrow> False)"
  using far_racing far_sequential by (rule conjI)

end
